theory Spec2Isabelle
  imports Complex_Main "HOL-Library.Sublist" "HOL-Library.AList"
begin

section \<open>Python values\<close>

text \<open>
  The agent passes JSON-like Python values around: the reasoning envelope, tool inputs,
  schemas and event payloads are dicts, lists, strings, numbers, booleans and \<open>None\<close>.
  A dict is an association list in insertion order (Python dicts keep it); its keys are
  distinct (\<open>wf_dict\<close>). A float is a rational or one of the three IEEE specials; only
  its kind, its truth value and whether it is integral are ever inspected.
  Strings are lists of characters; a character stands for a code point below 256.
\<close>

datatype pyfloat = Finite rat | PosInf | NegInf | NaN

datatype json =
    JNull
  | JBool bool
  | JInt int
  | JFloat pyfloat
  | JStr string
  | JArr "json list"
  | JObj "(string \<times> json) list"

type_synonym dict = "(string \<times> json) list"

text \<open>Exceptions, as values. \<open>JSONDecodeError\<close> is a subclass of \<open>ValueError\<close>:
  a handler for \<open>ValueError\<close> catches both, a handler for \<open>JSONDecodeError\<close> only the
  subclass. \<open>RecursionError\<close> is what the parser raises on text nested too deeply.
  \<open>Raised\<close> is any other subclass of \<open>Exception\<close> that a collaborator (a subscriber, a
  tool body, the transport) raises.\<close>

datatype exn =
    ValueError string
  | JSONDecodeError string
  | RecursionError string
  | AttributeError string
  | TypeError string
  | RuntimeError string
  | Raised string

fun exn_str :: "exn \<Rightarrow> string" where
  "exn_str (ValueError m) = m"
| "exn_str (JSONDecodeError m) = m"
| "exn_str (RecursionError m) = m"
| "exn_str (AttributeError m) = m"
| "exn_str (TypeError m) = m"
| "exn_str (RuntimeError m) = m"
| "exn_str (Raised m) = m"

fun exn_type_name :: "exn \<Rightarrow> string" where
  "exn_type_name (ValueError m) = ''ValueError''"
| "exn_type_name (JSONDecodeError m) = ''JSONDecodeError''"
| "exn_type_name (RecursionError m) = ''RecursionError''"
| "exn_type_name (AttributeError m) = ''AttributeError''"
| "exn_type_name (TypeError m) = ''TypeError''"
| "exn_type_name (RuntimeError m) = ''RuntimeError''"
| "exn_type_name (Raised m) = ''Exception''"

text \<open>What \<open>except ValueError\<close> and \<open>except json.JSONDecodeError\<close> catch.\<close>

fun is_value_error :: "exn \<Rightarrow> bool" where
  "is_value_error (ValueError m) = True"
| "is_value_error (JSONDecodeError m) = True"
| "is_value_error _ = False"

fun is_json_decode_error :: "exn \<Rightarrow> bool" where
  "is_json_decode_error (JSONDecodeError m) = True"
| "is_json_decode_error _ = False"

definition wf_dict :: "dict \<Rightarrow> bool" where
  "wf_dict d = distinct (map fst d)"

text \<open>\<open>d.get(k)\<close>, \<open>k in d\<close>, \<open>d[k] = v\<close> (an existing key keeps its place, a new
  one goes last) and \<open>d.keys()\<close>.\<close>

definition dict_get :: "dict \<Rightarrow> string \<Rightarrow> json option" where
  "dict_get d k = map_of d k"

definition dict_has :: "dict \<Rightarrow> string \<Rightarrow> bool" where
  "dict_has d k = (map_of d k \<noteq> None)"

definition dict_set :: "dict \<Rightarrow> string \<Rightarrow> json \<Rightarrow> dict" where
  "dict_set d k v = AList.update k v d"

definition dict_keys :: "dict \<Rightarrow> string list" where
  "dict_keys d = map fst d"

text \<open>Python truth value of a JSON value: \<open>None\<close>, \<open>False\<close>, zero, the empty string,
  the empty list and the empty dict are falsy (\<open>NaN\<close> is truthy).\<close>

fun truthy :: "json \<Rightarrow> bool" where
  "truthy JNull = False"
| "truthy (JBool b) = b"
| "truthy (JInt i) = (i \<noteq> 0)"
| "truthy (JFloat f) = (f \<noteq> Finite 0)"
| "truthy (JStr s) = (s \<noteq> [])"
| "truthy (JArr xs) = (xs \<noteq> [])"
| "truthy (JObj kvs) = (kvs \<noteq> [])"

subsection \<open>String helpers\<close>

text \<open>\<open>str.strip()\<close> removes leading and trailing whitespace: among the first 256
  code points these are 9-13, 28-32, 133 and 160.\<close>

definition is_space :: "char \<Rightarrow> bool" where
  "is_space c = (let n = (of_char c :: nat) in
     (9 \<le> n \<and> n \<le> 13) \<or> (28 \<le> n \<and> n \<le> 32) \<or> n = 133 \<or> n = 160)"

definition strip :: "string \<Rightarrow> string" where
  "strip s = rev (dropWhile is_space (rev (dropWhile is_space s)))"

text \<open>\<open>str.lower()\<close>: the capital letters of ASCII and Latin-1 move up by 32.\<close>

definition lower_char :: "char \<Rightarrow> char" where
  "lower_char c = (let n = (of_char c :: nat) in
     if (65 \<le> n \<and> n \<le> 90) \<or> (192 \<le> n \<and> n \<le> 222 \<and> n \<noteq> 215)
     then char_of (n + 32) else c)"

definition lower :: "string \<Rightarrow> string" where
  "lower s = map lower_char s"

text \<open>\<open>sub in s\<close> for strings: \<open>sub\<close> occurs in \<open>s\<close> as a contiguous piece.\<close>

fun contains :: "string \<Rightarrow> string \<Rightarrow> bool" where
  "contains [] sub = (sub = [])"
| "contains (c # cs) sub = (prefix sub (c # cs) \<or> contains cs sub)"

text \<open>\<open>sep.join(xs)\<close>.\<close>

fun join :: "string \<Rightarrow> string list \<Rightarrow> string" where
  "join sep [] = []"
| "join sep [x] = x"
| "join sep (x # y # ys) = x @ sep @ join sep (y # ys)"

text \<open>\<open>s.replace(old, new)\<close> for a non-empty \<open>old\<close>: occurrences are replaced from
  the left and do not overlap. The counter is the number of characters of a matched
  occurrence still to skip.\<close>

fun replace_from :: "nat \<Rightarrow> string \<Rightarrow> string \<Rightarrow> string \<Rightarrow> string" where
  "replace_from k old new [] = []"
| "replace_from (Suc k) old new (c # cs) = replace_from k old new cs"
| "replace_from 0 old new (c # cs) =
     (if prefix old (c # cs) then new @ replace_from (length old - 1) old new cs
      else c # replace_from 0 old new cs)"

definition replace :: "string \<Rightarrow> string \<Rightarrow> string \<Rightarrow> string" where
  "replace s old new = replace_from 0 old new s"

text \<open>\<open>str(n)\<close> for an integer.\<close>

fun nat_str :: "nat \<Rightarrow> string" where
  "nat_str n = (if n < 10 then [char_of (48 + n)] else nat_str (n div 10) @ [char_of (48 + n mod 10)])"

definition int_str :: "int \<Rightarrow> string" where
  "int_str i = (if i < 0 then CHR ''-'' # nat_str (nat (- i)) else nat_str (nat i))"

text \<open>\<open>str.upper()\<close>.\<close>

definition upper_char :: "char \<Rightarrow> char" where
  "upper_char c = (let n = (of_char c :: nat) in
     if (97 \<le> n \<and> n \<le> 122) \<or> (224 \<le> n \<and> n \<le> 254 \<and> n \<noteq> 247)
     then char_of (n - 32) else c)"

definition upper :: "string \<Rightarrow> string" where
  "upper s = map upper_char s"

text \<open>Characters that cannot stand in a literal: the newline, the apostrophe and the
  double quote.\<close>

definition nl :: string where
  "nl = [CHR 0x0A]"

definition apos :: string where
  "apos = [CHR 0x27]"

definition dquote :: string where
  "dquote = [CHR 0x22]"

text \<open>\<open>xs[-n:]\<close> for \<open>n \<ge> 0\<close>: the last \<open>n\<close> elements, and the whole list when
  \<open>n\<close> is 0 (\<open>xs[-0:]\<close> is \<open>xs[0:]\<close>).\<close>

definition py_last :: "nat \<Rightarrow> 'a list \<Rightarrow> 'a list" where
  "py_last n xs = (if n = 0 then xs else drop (length xs - n) xs)"

text \<open>
  An error of \<open>jsonschema\<close>, for the keywords the schemas of this program use: a
  required property is missing, or a value is of none of the types asked for.
\<close>

datatype verror = RequiredProperty string | NotOfType json "string list"

text \<open>
  Functions of the Python standard library and of \<open>jsonschema\<close> whose results are text
  or parsed text. They are parameters of the model: \<open>json.loads\<close> (\<open>Inl\<close> is the
  exception it raises: \<open>JSONDecodeError\<close> on text that is not JSON, and also
  \<open>RecursionError\<close> on deep nesting or a plain \<open>ValueError\<close> on an integer literal past
  the digit limit), \<open>json.dumps(x, indent=2)\<close>, \<open>int(s)\<close> and \<open>float(s)\<close> of a string
  (\<open>None\<close> when they raise \<open>ValueError\<close>), \<open>repr\<close>, \<open>str\<close> of a value that is not a
  string, \<open>str\<close> of a \<open>ValidationError\<close>, and \<open>traceback.format_exc()\<close>.
  \<open>tie_break\<close> is the choice \<open>jsonschema.best_match\<close> makes among several errors found
  equally deep below the root of an instance: it depends on the version of the library
  (the program pins none), so it is a parameter too, an index into the candidates, given
  the instance, the schema and the candidates with their instance paths.
\<close>

record pylib =
  loads :: "string \<Rightarrow> exn + json"
  dumps :: "json \<Rightarrow> string"
  py_int :: "string \<Rightarrow> int option"
  py_float :: "string \<Rightarrow> pyfloat option"
  py_repr :: "json \<Rightarrow> string"
  py_str :: "json \<Rightarrow> string"
  validation_error_str :: "string \<Rightarrow> string"
  format_exc :: "exn \<Rightarrow> string"
  tie_break :: "json \<Rightarrow> json \<Rightarrow> (string list \<times> verror) list \<Rightarrow> nat"

text \<open>A value inside an f-string: a string stands for itself.\<close>

definition fmt :: "pylib \<Rightarrow> json \<Rightarrow> string" where
  "fmt lib v = (case v of JStr s \<Rightarrow> s | _ \<Rightarrow> py_str lib v)"

text \<open>\<open>len(x)\<close>: defined on strings, lists and dicts.\<close>

fun py_len :: "json \<Rightarrow> exn + int" where
  "py_len (JStr s) = Inr (int (length s))"
| "py_len (JArr xs) = Inr (int (length xs))"
| "py_len (JObj kvs) = Inr (int (length kvs))"
| "py_len _ = Inl (TypeError ''object has no len()'')"

subsection \<open>Actions: state passing with exceptions\<close>

text \<open>A method that has effects and may raise is a function from the state before to
  the exception or result and the state after. What was done before an exception
  stays done.\<close>

type_synonym ('a, 's) act = "'s \<Rightarrow> (exn + 'a) \<times> 's"

definition ret :: "'a \<Rightarrow> ('a, 's) act" where
  "ret a s = (Inr a, s)"

definition raise :: "exn \<Rightarrow> ('a, 's) act" where
  "raise e s = (Inl e, s)"

definition andthen :: "('a, 's) act \<Rightarrow> ('a \<Rightarrow> ('b, 's) act) \<Rightarrow> ('b, 's) act" where
  "andthen m f s = (case m s of (Inl e, s') \<Rightarrow> (Inl e, s') | (Inr a, s') \<Rightarrow> f a s')"

section \<open>EventBus (core/event\_bus.py)\<close>

text \<open>
  A callback is arbitrary Python code: it may change the world it closes over and it may
  raise. It is a function from the payload and the world before the call to the
  exception it raises, if any, and the world after. Subscribers live in a
  \<open>defaultdict(list)\<close>: every event name has a list, empty until someone subscribes.
  Callbacks do not subscribe to the bus they are called from while it emits.
\<close>

type_synonym 'w callback = "json \<Rightarrow> 'w \<Rightarrow> exn option \<times> 'w"

record 'w event_bus =
  subscribers :: "string \<Rightarrow> 'w callback list"

definition new_bus :: "'w event_bus" where
  "new_bus = \<lparr>subscribers = (\<lambda>_. [])\<rparr>"

definition subscribe :: "'w event_bus \<Rightarrow> string \<Rightarrow> 'w callback \<Rightarrow> 'w event_bus" where
  "subscribe bus event_name cb =
     bus\<lparr>subscribers := (subscribers bus)(event_name := subscribers bus event_name @ [cb])\<rparr>"

text \<open>The \<open>for\<close> loop of \<open>emit\<close>: an exception leaves the loop at once.\<close>

fun run_callbacks :: "'w callback list \<Rightarrow> json \<Rightarrow> 'w \<Rightarrow> exn option \<times> 'w" where
  "run_callbacks [] d w = (None, w)"
| "run_callbacks (cb # cbs) d w =
     (case cb d w of
        (Some e, w') \<Rightarrow> (Some e, w')
      | (None, w') \<Rightarrow> run_callbacks cbs d w')"

definition emit :: "'w event_bus \<Rightarrow> string \<Rightarrow> json \<Rightarrow> 'w \<Rightarrow> exn option \<times> 'w" where
  "emit bus event_name d w = run_callbacks (subscribers bus event_name) d w"

text \<open>The world after each callback of a list has been called once, in order, with
  payload \<open>d\<close>.\<close>

definition after_calls :: "'w callback list \<Rightarrow> json \<Rightarrow> 'w \<Rightarrow> 'w" where
  "after_calls cbs d w = foldl (\<lambda>w' cb. snd (cb d w')) w cbs"

section \<open>Tools and the ToolManager (tools/base\_tool.py, core/tool\_manager.py)\<close>

text \<open>
  An attribute of a tool object that the code reads with \<open>tool.name\<close> or probes with
  \<open>hasattr\<close>: it may not exist (\<open>name: str\<close> in the base class is an annotation, not a
  value), be \<open>None\<close>, or hold a string. A tool body is represented by its result on an
  input: the text it returns or the exception it raises. \<open>tool_str\<close> is \<open>str(tool)\<close>,
  the text of the object inside an f-string.
\<close>

datatype pyattr = NoAttr | PyNone | Str string

record tool =
  name :: pyattr
  description :: pyattr
  example_usage :: pyattr
  input_schema :: "json option"
  run :: "dict \<Rightarrow> exn + json"
  tool_str :: string

fun attr_truthy :: "pyattr \<Rightarrow> bool" where
  "attr_truthy (Str s) = (s \<noteq> [])"
| "attr_truthy _ = False"

fun attr_json :: "pyattr \<Rightarrow> json" where
  "attr_json (Str s) = JStr s"
| "attr_json _ = JNull"

subsection \<open>The schema inferred from the example\<close>

fun infer_type :: "json \<Rightarrow> string" where
  "infer_type (JBool b) = ''boolean''"
| "infer_type (JInt i) = ''integer''"
| "infer_type (JFloat f) = ''number''"
| "infer_type (JObj kvs) = ''object''"
| "infer_type (JArr xs) = ''array''"
| "infer_type _ = ''string''"

text \<open>\<open>Tool.example_schema\<close>: any exception on the way (no example, text that is not
  JSON, JSON that is not an object) gives the bare \<open>{"type": "object"}\<close>.\<close>

definition schema_of_example :: "dict \<Rightarrow> json" where
  "schema_of_example example =
     JObj [(''type'', JStr ''object''),
           (''required'', JArr (map JStr (dict_keys example))),
           (''properties'', JObj (map (\<lambda>(k, v). (k, JObj [(''type'', JStr (infer_type v))])) example))]"

definition example_schema :: "pylib \<Rightarrow> tool \<Rightarrow> json" where
  "example_schema lib t =
     (case example_usage t of
        Str usage \<Rightarrow>
          (case loads lib (strip (replace usage ''Example:'' [])) of
             Inr (JObj example) \<Rightarrow> schema_of_example example
           | _ \<Rightarrow> JObj [(''type'', JStr ''object'')])
      | _ \<Rightarrow> JObj [(''type'', JStr ''object'')])"

subsection \<open>Validation against a schema (the \<open>jsonschema\<close> library)\<close>

text \<open>
  \<open>jsonschema.validate\<close> for the keywords the schemas of this program use: \<open>type\<close>,
  \<open>required\<close> and \<open>properties\<close>, visited in the order the schema lists them. An error
  carries the instance path it was found at (the property names from the root down).
  The type names are those of the current drafts, where a float without fractional part
  is an \<open>integer\<close>.
\<close>

fun type_ok :: "string \<Rightarrow> json \<Rightarrow> bool" where
  "type_ok t (JObj kvs) = (t = ''object'')"
| "type_ok t (JArr xs) = (t = ''array'')"
| "type_ok t (JStr s) = (t = ''string'')"
| "type_ok t (JBool b) = (t = ''boolean'')"
| "type_ok t JNull = (t = ''null'')"
| "type_ok t (JInt i) = (t = ''integer'' \<or> t = ''number'')"
| "type_ok t (JFloat f) =
     (t = ''number'' \<or>
      (t = ''integer'' \<and> (case f of Finite q \<Rightarrow> snd (quotient_of q) = 1 | _ \<Rightarrow> False)))"

fun ensure_list :: "json \<Rightarrow> string list" where
  "ensure_list (JStr t) = [t]"
| "ensure_list (JArr ts) = concat (map (\<lambda>t. case t of JStr s \<Rightarrow> [s] | _ \<Rightarrow> []) ts)"
| "ensure_list _ = []"

definition type_errors :: "json \<Rightarrow> json \<Rightarrow> (string list \<times> verror) list" where
  "type_errors types x =
     (if list_ex (\<lambda>t. type_ok t x) (ensure_list types) then []
      else [([], NotOfType x (ensure_list types))])"

fun required_errors :: "json \<Rightarrow> json \<Rightarrow> (string list \<times> verror) list" where
  "required_errors (JArr req) (JObj inst) =
     concat (map (\<lambda>p. case p of
                        JStr k \<Rightarrow> (if dict_has inst k then [] else [([], RequiredProperty k)])
                      | _ \<Rightarrow> []) req)"
| "required_errors _ _ = []"

fun schema_errors :: "json \<Rightarrow> json \<Rightarrow> (string list \<times> verror) list" where
  "schema_errors (JObj kvs) x =
     concat (map (\<lambda>(kw, arg).
        if kw = ''type'' then type_errors arg x
        else if kw = ''required'' then required_errors arg x
        else if kw = ''properties'' then
          (case (arg, x) of
             (JObj props, JObj inst) \<Rightarrow>
               concat (map (\<lambda>(p, sub).
                  case dict_get inst p of
                    Some v \<Rightarrow> map (\<lambda>(path, e). (p # path, e)) (schema_errors sub v)
                  | None \<Rightarrow> []) props)
           | _ \<Rightarrow> [])
        else []) kvs)"
| "schema_errors _ x = []"

text \<open>
  \<open>best_match\<close>, which picks the error that \<open>validate\<close> raises. Every version of the
  library ranks an error nearer the root above a deeper one, so the error raised is
  among those of least depth, in the order they were found. Errors at the root itself
  rank equal for the keywords above, and the first found is raised. Among several
  errors equally deep below the root the choice is the library's (\<open>tie_break\<close>): older
  versions take the first found, newer ones compare the instance paths.
\<close>

definition candidates :: "(string list \<times> verror) list \<Rightarrow> (string list \<times> verror) list" where
  "candidates errs =
     filter (\<lambda>e. list_all (\<lambda>e'. length (fst e) \<le> length (fst e')) errs) errs"

definition best_match ::
  "pylib \<Rightarrow> json \<Rightarrow> json \<Rightarrow> (string list \<times> verror) list \<Rightarrow> verror option" where
  "best_match lib instance schema errs =
     (case candidates errs of
        [] \<Rightarrow> None
      | c # cs \<Rightarrow>
          if fst c = [] then Some (snd c)
          else Some (snd ((c # cs) ! (tie_break lib instance schema (c # cs) mod length (c # cs)))))"

text \<open>\<open>validate(instance, schema)\<close>: \<open>None\<close> when it returns, the error when it raises
  \<open>ValidationError\<close>.\<close>

definition jsonschema_validate :: "pylib \<Rightarrow> json \<Rightarrow> json \<Rightarrow> verror option" where
  "jsonschema_validate lib instance schema =
     best_match lib instance schema (schema_errors schema instance)"

text \<open>\<open>e.message\<close>.\<close>

fun verror_message :: "pylib \<Rightarrow> verror \<Rightarrow> string" where
  "verror_message lib (RequiredProperty k) = py_repr lib (JStr k) @ '' is a required property''"
| "verror_message lib (NotOfType x ts) =
     py_repr lib x @ '' is not of type '' @ join '', '' (map (\<lambda>t. py_repr lib (JStr t)) ts)"

subsection \<open>The registry\<close>

text \<open>\<open>ToolManager._tools\<close> is a dict from names to tools; \<open>event_bus\<close> is optional and
  absent when the loader builds the manager.\<close>

record 'w tool_manager =
  tools :: "(string \<times> tool) list"
  tm_bus :: "'w event_bus option"

definition new_tool_manager :: "'w event_bus option \<Rightarrow> 'w tool_manager" where
  "new_tool_manager bus = \<lparr>tools = [], tm_bus = bus\<rparr>"

definition get_tool_by_name :: "'w tool_manager \<Rightarrow> string \<Rightarrow> tool option" where
  "get_tool_by_name tm n = map_of (tools tm) n"

definition get_all_tools :: "'w tool_manager \<Rightarrow> tool list" where
  "get_all_tools tm = map snd (tools tm)"

definition tool_exists :: "'w tool_manager \<Rightarrow> string \<Rightarrow> bool" where
  "tool_exists tm n = (map_of (tools tm) n \<noteq> None)"

text \<open>
  \<open>register_tool\<close>. The metadata check reads \<open>tool.name\<close>, then \<open>tool.description\<close>, then
  probes \<open>example_usage\<close>; reading an attribute that does not exist raises
  \<open>AttributeError\<close>, whose text is abbreviated to the attribute's name. The tool is
  stored before the event is built. Building the payload evaluates \<open>tool.input_schema\<close>
  (the default argument of \<open>getattr\<close>) whether or not it is needed.
\<close>

definition registered_payload :: "pylib \<Rightarrow> tool \<Rightarrow> json" where
  "registered_payload lib t =
     JObj [(''tool'', attr_json (name t)),
           (''description'', attr_json (description t)),
           (''schema'', example_schema lib t)]"

definition register_tool ::
  "pylib \<Rightarrow> 'w tool_manager \<Rightarrow> tool \<Rightarrow> 'w \<Rightarrow> exn option \<times> 'w tool_manager \<times> 'w" where
  "register_tool lib tm t w =
     (case name t of
        NoAttr \<Rightarrow> (Some (AttributeError ''name''), tm, w)
      | PyNone \<Rightarrow> (Some (ValueError (''[ToolManager] Invalid tool metadata: '' @ tool_str t)), tm, w)
      | Str n \<Rightarrow>
          if n = [] then (Some (ValueError (''[ToolManager] Invalid tool metadata: '' @ tool_str t)), tm, w)
          else if description t = NoAttr then (Some (AttributeError ''description''), tm, w)
          else if \<not> attr_truthy (description t) \<or> example_usage t = NoAttr
            then (Some (ValueError (''[ToolManager] Invalid tool metadata: '' @ tool_str t)), tm, w)
          else if n \<in> set (map fst (tools tm))
            then (Some (ValueError (''Tool '' @ apos @ n @ apos @ '' is already registered.'')), tm, w)
          else
            (let tm' = tm\<lparr>tools := AList.update n t (tools tm)\<rparr> in
             case tm_bus tm of
               None \<Rightarrow> (None, tm', w)
             | Some bus \<Rightarrow>
                 (case input_schema t of
                    None \<Rightarrow> (Some (AttributeError ''input_schema''), tm', w)
                  | Some _ \<Rightarrow>
                      (case emit bus ''on_tool_registered'' (registered_payload lib t) w of
                         (r, w') \<Rightarrow> (r, tm', w')))))"

text \<open>
  \<open>validate_input\<close>. Every tool has the \<open>example_schema\<close> property, so that is the schema
  used. A schema without \<open>properties\<close> is taken for the simple format and converted.
\<close>

definition convert_simple_schema :: "dict \<Rightarrow> json" where
  "convert_simple_schema schema =
     JObj [(''type'', JStr ''object''),
           (''properties'',
              JObj (map (\<lambda>(k, v). (k, case v of JObj d \<Rightarrow> JObj d | _ \<Rightarrow> JObj [(''type'', JStr ''string'')])) schema)),
           (''required'',
              JArr (map (\<lambda>(k, v). JStr k)
                 (filter (\<lambda>(k, v). case v of
                                      JObj d \<Rightarrow> (case dict_get d ''required'' of Some r \<Rightarrow> truthy r | None \<Rightarrow> False)
                                    | _ \<Rightarrow> False) schema)))]"

definition effective_schema :: "json \<Rightarrow> json" where
  "effective_schema schema =
     (case schema of
        JObj d \<Rightarrow> if dict_has d ''properties'' then schema else convert_simple_schema d
      | _ \<Rightarrow> schema)"

definition validate_input :: "pylib \<Rightarrow> 'w tool_manager \<Rightarrow> string \<Rightarrow> dict \<Rightarrow> bool \<times> string" where
  "validate_input lib tm tool_name input_data =
     (case get_tool_by_name tm tool_name of
        None \<Rightarrow> (False, ''Tool '' @ apos @ tool_name @ apos @ '' not found.'')
      | Some t \<Rightarrow>
          (case jsonschema_validate lib (JObj input_data) (effective_schema (example_schema lib t)) of
             None \<Rightarrow> (True, [])
           | Some e \<Rightarrow> (False, verror_message lib e)))"

text \<open>
  The vocabulary of registration. Metadata is missing when the name, the
  description or the example is absent, \<open>None\<close> or empty. \<open>register_tool\<close> probes the
  example with \<open>hasattr\<close> only, so an example that exists but is \<open>None\<close> or empty
  passes its check (the loader asserts all three truthy before it registers); the
  example is settled when it is absent or a non-empty string. Reading the name, and
  then the description, of a tool that has no such attribute raises \<open>AttributeError\<close>:
  \<open>unreadable\<close> is the attribute at which that happens. The registry is well formed
  when its keys are distinct and each tool is stored under its own name; the
  registration event is delivered when there is no bus, or the payload can be built and
  no subscriber raises.
\<close>

definition missing_metadata :: "tool \<Rightarrow> bool" where
  "missing_metadata t =
     (\<not> attr_truthy (name t) \<or> \<not> attr_truthy (description t) \<or> \<not> attr_truthy (example_usage t))"

definition example_settled :: "tool \<Rightarrow> bool" where
  "example_settled t = (example_usage t = NoAttr \<or> attr_truthy (example_usage t))"

definition unreadable :: "tool \<Rightarrow> string option" where
  "unreadable t =
     (if name t = NoAttr then Some ''name''
      else if attr_truthy (name t) \<and> description t = NoAttr then Some ''description''
      else None)"

definition registered_name :: "tool \<Rightarrow> string" where
  "registered_name t = (case name t of Str n \<Rightarrow> n | _ \<Rightarrow> [])"

definition already_registered :: "'w tool_manager \<Rightarrow> tool \<Rightarrow> bool" where
  "already_registered tm t = (case name t of Str n \<Rightarrow> tool_exists tm n | _ \<Rightarrow> False)"

definition registry_ok :: "'w tool_manager \<Rightarrow> bool" where
  "registry_ok tm = (distinct (map fst (tools tm)) \<and> list_all (\<lambda>(k, t). name t = Str k) (tools tm))"

definition event_delivered :: "pylib \<Rightarrow> 'w tool_manager \<Rightarrow> tool \<Rightarrow> 'w \<Rightarrow> bool" where
  "event_delivered lib tm t w =
     (case tm_bus tm of
        None \<Rightarrow> True
      | Some bus \<Rightarrow> input_schema t \<noteq> None
                    \<and> fst (emit bus ''on_tool_registered'' (registered_payload lib t) w) = None)"

section \<open>Memory (memory/buffer\_memory.py)\<close>

text \<open>
  \<open>EnhancedBufferMemory\<close>, the memory the runner builds. A timestamp is a tick of a
  logical clock that advances with every entry and fact written; the write to the file
  (\<open>_persist_memory\<close>, which catches its own failures) is not part of the model.
\<close>

record entry =
  timestamp :: nat
  session_id :: string
  role :: string
  content :: json
  metadata :: dict

record fact =
  fact_value :: json
  fact_timestamp :: nat
  fact_session :: string

record memory =
  limit :: nat
  history :: "entry list"
  context_memory :: "(string \<times> (string \<times> fact) list) list"
  session :: string
  now :: nat

text \<open>\<open>save\<close>: append, then keep the last \<open>limit\<close> entries when there are more.\<close>

definition keep_last :: "nat \<Rightarrow> 'a list \<Rightarrow> 'a list" where
  "keep_last n h = (if length h > n then py_last n h else h)"

definition new_entry :: "memory \<Rightarrow> string \<Rightarrow> json \<Rightarrow> dict \<Rightarrow> entry" where
  "new_entry m r c md =
     \<lparr>timestamp = now m, session_id = session m, role = r, content = c, metadata = md\<rparr>"

definition save :: "memory \<Rightarrow> string \<Rightarrow> json \<Rightarrow> dict \<Rightarrow> memory" where
  "save m r c md =
     m\<lparr>history := keep_last (limit m) (history m @ [new_entry m r c md]),
       now := Suc (now m)\<rparr>"

text \<open>\<open>save_context\<close>: facts are keyed by category and key; the latest write wins.\<close>

definition save_context :: "memory \<Rightarrow> string \<Rightarrow> json \<Rightarrow> string \<Rightarrow> memory" where
  "save_context m k v category =
     (let items = (case map_of (context_memory m) category of None \<Rightarrow> [] | Some its \<Rightarrow> its);
          f = \<lparr>fact_value = v, fact_timestamp = now m, fact_session = session m\<rparr>
      in m\<lparr>context_memory := AList.update category (AList.update k f items) (context_memory m),
            now := Suc (now m)\<rparr>)"

text \<open>\<open>get_conversation_context\<close>: the recent entries and the stored facts, as text.\<close>

definition get_conversation_context :: "pylib \<Rightarrow> memory \<Rightarrow> nat \<Rightarrow> string" where
  "get_conversation_context lib m last_n =
     (let recent = (if history m \<noteq> [] then py_last last_n (history m) else []);
          conversation =
            (if recent \<noteq> []
             then ''RECENT CONVERSATION:'' # map (\<lambda>e. role e @ '': '' @ fmt lib (content e)) recent
             else []);
          facts =
            (if context_memory m \<noteq> []
             then (nl @ ''RELEVANT CONTEXT:'') #
                  concat (map (\<lambda>(category, items).
                     if items \<noteq> []
                     then (upper category @ '':'') #
                          map (\<lambda>(k, f). ''  - '' @ k @ '': '' @ fmt lib (fact_value f)) items
                     else []) (context_memory m))
             else [])
      in join nl (conversation @ facts))"

text \<open>\<open>MemoryEnhancedReasoner.inject_memory_context\<close> and \<open>extract_learnable_info\<close>.\<close>

definition inject_memory_context :: "pylib \<Rightarrow> string \<Rightarrow> memory \<Rightarrow> nat \<Rightarrow> string" where
  "inject_memory_context lib prompt m context_limit =
     (let conversation_context = get_conversation_context lib m context_limit
      in if conversation_context \<noteq> []
         then ''CONVERSATION CONTEXT:'' @ nl @ conversation_context @ nl @ nl
              @ ''CURRENT REQUEST:'' @ nl @ prompt @ nl @ nl
              @ ''Please consider the above context when responding. Reference previous conversations when relevant.''
         else prompt)"

definition extract_learnable_info :: "string \<Rightarrow> json \<Rightarrow> dict" where
  "extract_learnable_info user_input agent_response =
     (let user_lower = lower user_input
      in (if contains user_lower ''i like'' \<or> contains user_lower ''i prefer''
          then [(''preference'', JStr user_input)] else [])
       @ (if contains user_lower ''i am'' \<or> contains user_lower ''my name is''
          then [(''user_fact'', JStr user_input)] else [])
       @ (if contains user_lower ''remember'' \<or> contains user_lower ''note that''
          then [(''important_note'', JStr user_input)] else []))"

text \<open>
  What a reasoning call can touch: the subscribers' own state (through the events it
  emits), the memory, and the backend, of which the model keeps the prompts sent so
  far, one per HTTP request.
\<close>

record 's rstate =
  subs :: 's
  mem :: memory
  requests :: "string list"

definition emit_rs :: "'s event_bus option \<Rightarrow> string \<Rightarrow> json \<Rightarrow> (unit, 's rstate) act" where
  "emit_rs bus event_name d rs =
     (case bus of
        None \<Rightarrow> (Inr (), rs)
      | Some b \<Rightarrow>
          (case emit b event_name d (subs rs) of
             (None, s') \<Rightarrow> (Inr (), rs\<lparr>subs := s'\<rparr>)
           | (Some e, s') \<Rightarrow> (Inl e, rs\<lparr>subs := s'\<rparr>)))"

definition save_rs :: "string \<Rightarrow> json \<Rightarrow> dict \<Rightarrow> (unit, 's rstate) act" where
  "save_rs r c md rs = (Inr (), rs\<lparr>mem := save (mem rs) r c md\<rparr>)"

section \<open>The LLM reasoner (reasoning/llm\_reasoner.py)\<close>

subsection \<open>The backend\<close>

text \<open>
  One HTTP exchange: the connection fails with an exception, or there is a status code,
  the chunks the stream yields and, possibly, an exception that breaks the stream after
  them. The backend is a function of the number of requests made before and of the
  prompt. \<open>contextual_prompt\<close> stands for the two template substitutions that build the
  main prompt from the tool list, the tool descriptions, the memory context and the
  input; they use \<open>AGENT_NAME\<close> of \<open>core.config\<close>, which is not among the sources.
\<close>

datatype http_response = ConnectFailed exn | Response int "string list" "exn option"

record llm_reasoner =
  retries :: int
  debug_mode :: bool
  backend :: "nat \<Rightarrow> string \<Rightarrow> http_response"
  contextual_prompt :: "string \<Rightarrow> string \<Rightarrow> string \<Rightarrow> string \<Rightarrow> string"

type_synonym 'c stream_cb = "string \<Rightarrow> 'c \<Rightarrow> exn option \<times> 'c"

text \<open>
  The \<open>while\<close> loop of \<open>_call_llm_stream\<close>: every complete line of the buffer goes to the
  callback. When the callback raises, the enclosing \<open>try\<close> drops the rest of the work on
  this chunk; the buffer has already lost the line. The result is the buffer left.
\<close>

fun drain :: "'c stream_cb option \<Rightarrow> string \<Rightarrow> string \<Rightarrow> 'c \<Rightarrow> string \<times> 'c" where
  "drain cb line [] c = (line, c)"
| "drain cb line (ch # rest) c =
     (if ch = CHR 0x0A
      then (case cb of
              None \<Rightarrow> drain cb [] rest c
            | Some f \<Rightarrow>
                (case f (line @ [ch]) c of
                   (Some e, c') \<Rightarrow> (rest, c')
                 | (None, c') \<Rightarrow> drain cb [] rest c'))
      else drain cb (line @ [ch]) rest c)"

text \<open>One chunk: blank chunks are skipped, and so is a chunk that is not JSON, not an
  object, or whose \<open>response\<close> is not a string (each raises inside the \<open>try\<close>).\<close>

definition chunk_step ::
  "pylib \<Rightarrow> 'c stream_cb option \<Rightarrow> string \<times> string \<times> 'c \<Rightarrow> string \<Rightarrow> string \<times> string \<times> 'c" where
  "chunk_step lib cb st chunk =
     (case st of (full_text, line_buffer, c) \<Rightarrow>
        if strip chunk = [] then st
        else (case loads lib chunk of
                Inr (JObj d) \<Rightarrow>
                  (case (case dict_get d ''response'' of None \<Rightarrow> JStr [] | Some v \<Rightarrow> v) of
                     JStr token \<Rightarrow>
                       (case drain cb [] (line_buffer @ token) c of
                          (line_buffer', c') \<Rightarrow> (full_text @ token, line_buffer', c'))
                   | _ \<Rightarrow> st)
              | _ \<Rightarrow> st))"

definition call_llm_stream ::
  "pylib \<Rightarrow> http_response \<Rightarrow> 'c stream_cb option \<Rightarrow> 'c \<Rightarrow> (exn + string) \<times> 'c" where
  "call_llm_stream lib resp cb c =
     (case resp of
        ConnectFailed e \<Rightarrow> (Inl e, c)
      | Response status chunks broken \<Rightarrow>
          if status \<noteq> 200 then (Inl (RuntimeError (''LLM returned HTTP '' @ int_str status)), c)
          else (case foldl (chunk_step lib cb) ([], [], c) chunks of
                  (full_text, line_buffer, c') \<Rightarrow>
                    (case broken of
                       Some e \<Rightarrow> (Inl e, c')
                     | None \<Rightarrow>
                         (case cb of
                            None \<Rightarrow> (Inr full_text, c')
                          | Some f \<Rightarrow>
                              if line_buffer = [] then (Inr full_text, c')
                              else (case f line_buffer c' of
                                      (Some e, c'') \<Rightarrow> (Inl e, c'')
                                    | (None, c'') \<Rightarrow> (Inr full_text, c''))))))"

text \<open>\<open>_try_call_llm\<close>: up to \<open>retries\<close> requests; the first that returns text ends the
  loop. The state is the list of prompts sent and the callback's state.\<close>

fun try_attempts ::
  "pylib \<Rightarrow> (nat \<Rightarrow> string \<Rightarrow> http_response) \<Rightarrow> string \<Rightarrow> 'c stream_cb option \<Rightarrow> nat \<Rightarrow> exn option
     \<Rightarrow> string list \<times> 'c \<Rightarrow> (exn option + string) \<times> string list \<times> 'c" where
  "try_attempts lib be prompt cb 0 last_error (reqs, c) = (Inl last_error, reqs, c)"
| "try_attempts lib be prompt cb (Suc n) last_error (reqs, c) =
     (case call_llm_stream lib (be (length reqs) prompt) cb c of
        (Inr text, c') \<Rightarrow> (Inr text, reqs @ [prompt], c')
      | (Inl e, c') \<Rightarrow> try_attempts lib be prompt cb n (Some e) (reqs @ [prompt], c'))"

definition try_call_llm ::
  "llm_reasoner \<Rightarrow> pylib \<Rightarrow> string \<Rightarrow> 'c stream_cb option \<Rightarrow> string list \<times> 'c
     \<Rightarrow> (exn + string) \<times> string list \<times> 'c" where
  "try_call_llm R lib prompt cb st =
     (case try_attempts lib (backend R) prompt cb (nat (retries R)) None st of
        (Inr text, st') \<Rightarrow> (Inr text, st')
      | (Inl last_error, st') \<Rightarrow>
          (Inl (RuntimeError (''LLM failed after '' @ int_str (retries R) @ '' retries: ''
                  @ (case last_error of None \<Rightarrow> ''None'' | Some e \<Rightarrow> exn_str e))), st'))"

subsection \<open>think\<close>

definition LLM_RESPONSE_SCHEMA :: json where
  "LLM_RESPONSE_SCHEMA =
     JObj [(''type'', JStr ''object''),
           (''required'', JArr [JStr ''thoughts'', JStr ''tool_name'', JStr ''tool_input'']),
           (''properties'',
              JObj [(''thoughts'', JObj [(''type'', JStr ''string'')]),
                    (''tool_name'', JObj [(''type'', JArr [JStr ''string'', JStr ''null''])]),
                    (''tool_input'', JObj [(''type'', JStr ''object'')])])]"

text \<open>The name and the description of a tool inside an f-string. The tools of a
  registry have both (\<open>register_tool\<close> reads them), so reading them does not raise.\<close>

definition attr_text :: "pyattr \<Rightarrow> string" where
  "attr_text a = (case a of Str s \<Rightarrow> s | _ \<Rightarrow> ''None'')"

definition format_tool_descriptions :: "tool list \<Rightarrow> string" where
  "format_tool_descriptions ts =
     join nl (concat (map (\<lambda>t.
        (''- '' @ attr_text (name t) @ '': '' @ attr_text (description t))
        # (if example_usage t \<noteq> NoAttr then [''  Example: '' @ attr_text (example_usage t)] else []))
        ts))"

text \<open>\<open>_format_memory_context\<close> asks the memory for \<open>get_recent\<close>, which
  \<open>EnhancedBufferMemory\<close> does not have; the bare \<open>except\<close> answers.\<close>

definition format_memory_context :: "memory \<Rightarrow> string" where
  "format_memory_context m = ''No conversation history available.''"

definition validate_reasoning_result :: "json \<Rightarrow> tool list \<Rightarrow> bool" where
  "validate_reasoning_result result available_tools =
     (case result of
        JObj d \<Rightarrow>
          list_all (dict_has d) [''thoughts'', ''tool_name'', ''tool_input'']
          \<and> (case dict_get d ''tool_name'' of
                Some v \<Rightarrow> v \<in> set (map (\<lambda>t. attr_json (name t)) available_tools)
              | None \<Rightarrow> False)
      | _ \<Rightarrow> False)"

definition fallback_response :: "string \<Rightarrow> json" where
  "fallback_response input =
     JObj [(''thoughts'', JStr ''LLM reasoning failed, falling back to chat response.''),
           (''tool_name'', JStr ''chat''),
           (''tool_input'',
              JObj [(''response'',
                 JStr (''I'' @ apos @ ''m having trouble processing that request. Could you rephrase it? You asked: '' @ input))])]"

definition debug_emit ::
  "llm_reasoner \<Rightarrow> 's event_bus option \<Rightarrow> string \<Rightarrow> json \<Rightarrow> (unit, 's rstate) act" where
  "debug_emit R bus event_name d = (if debug_mode R then emit_rs bus event_name d else ret ())"

text \<open>The callback handed to the first call: it appends the line to the transcript and
  then emits \<open>on_llm_stream_line\<close>. (The kernel passes no interface.)\<close>

definition stream_callback :: "'s event_bus option \<Rightarrow> (string list \<times> 's) stream_cb" where
  "stream_callback bus line c =
     (case c of (transcript, s) \<Rightarrow>
        (case bus of
           None \<Rightarrow> (None, transcript @ [line], s)
         | Some b \<Rightarrow>
             (case emit b ''on_llm_stream_line'' (JObj [(''line'', JStr line)]) s of
                (r, s') \<Rightarrow> (r, transcript @ [line], s'))))"

definition first_call ::
  "llm_reasoner \<Rightarrow> pylib \<Rightarrow> 's event_bus option \<Rightarrow> string \<Rightarrow> (string \<times> string list, 's rstate) act" where
  "first_call R lib bus prompt rs =
     (case try_call_llm R lib prompt (Some (stream_callback bus)) (requests rs, [], subs rs) of
        (r, reqs, transcript, s') \<Rightarrow>
          (case r of
             Inl e \<Rightarrow> (Inl e, rs\<lparr>subs := s', requests := reqs\<rparr>)
           | Inr text \<Rightarrow> (Inr (text, transcript), rs\<lparr>subs := s', requests := reqs\<rparr>)))"

definition second_call :: "llm_reasoner \<Rightarrow> pylib \<Rightarrow> string \<Rightarrow> (string, 's rstate) act" where
  "second_call R lib prompt rs =
     (case try_call_llm R lib prompt None (requests rs, ()) of
        (r, reqs, u) \<Rightarrow> (r, rs\<lparr>requests := reqs\<rparr>))"

definition fallback_prompt :: "string \<Rightarrow> string \<Rightarrow> string" where
  "fallback_prompt input response_str =
     ''You'' @ apos @ ''re an AI assistant. The user asked something, but your last response failed to format correctly.'' @ nl
     @ ''Just answer the user'' @ apos @ ''s question clearly and helpfully without explaining what went wrong.'' @ nl @ nl
     @ ''User'' @ apos @ ''s input:'' @ nl @ input @ nl @ nl
     @ ''Previous malformed response:'' @ nl @ strip response_str @ nl @ nl
     @ ''Respond directly to the user now:''"

text \<open>The three envelopes of the fallback ladder below structured success: the answer
  to the corrective re-prompt, and the raw text of the first answer.\<close>

definition rephrased_envelope :: "string \<Rightarrow> string \<Rightarrow> json" where
  "rephrased_envelope err fallback_response_str =
     JObj [(''thoughts'', JStr (''Invalid LLM output, attempted rephrasing. Original error: '' @ err)),
           (''tool_name'', JStr ''chat''),
           (''tool_input'', JObj [(''response'', JStr (strip fallback_response_str))])]"

definition raw_envelope :: "string \<Rightarrow> exn \<Rightarrow> string \<Rightarrow> json" where
  "raw_envelope err inner_e response_str =
     JObj [(''thoughts'', JStr (''Double LLM failure. Initial error: '' @ err @ ''. Fallback error: '' @ exn_str inner_e)),
           (''tool_name'', JStr ''chat''),
           (''tool_input'',
              JObj [(''response'', JStr (''Raw LLM output from initial attempt: '' @ strip response_str))])]"

text \<open>The handler of a parse or schema failure (lines 102-136): one corrective
  re-prompt inside its own \<open>try\<close>; whatever raises there leads to the raw envelope.\<close>

definition reprompt ::
  "llm_reasoner \<Rightarrow> pylib \<Rightarrow> 's event_bus option \<Rightarrow> string \<Rightarrow> string \<Rightarrow> string \<Rightarrow> (json, 's rstate) act" where
  "reprompt R lib bus input response_str err rs =
     (case andthen (second_call R lib (fallback_prompt input response_str)) (\<lambda>fallback_response_str.
           andthen (debug_emit R bus ''on_llm_response''
                      (JObj [(''response'', JStr fallback_response_str),
                             (''note'', JStr ''Fallback due to parsing error'')])) (\<lambda>_.
           andthen (debug_emit R bus ''on_thought'' (rephrased_envelope err fallback_response_str)) (\<lambda>_.
           ret (rephrased_envelope err fallback_response_str)))) rs of
        (Inr envelope, rs') \<Rightarrow> (Inr envelope, rs')
      | (Inl inner_e, rs') \<Rightarrow>
          andthen (debug_emit R bus ''on_thought'' (raw_envelope err inner_e response_str)) (\<lambda>_.
          ret (raw_envelope err inner_e response_str)) rs')"

text \<open>
  Parsing and checking the first answer (lines 91-101). The handler at line 102 catches
  \<open>JSONDecodeError\<close> and the \<open>ValidationError\<close> of the schema check; any other
  exception of \<open>json.loads\<close> leaves the body of the outer \<open>try\<close>. \<open>str(e)\<close> of a
  \<open>JSONDecodeError\<close> is its message.
\<close>

definition parse_response ::
  "llm_reasoner \<Rightarrow> pylib \<Rightarrow> 's event_bus option \<Rightarrow> tool list \<Rightarrow> string \<Rightarrow> string \<Rightarrow> (json, 's rstate) act" where
  "parse_response R lib bus available_tools input response_str =
     (case loads lib (strip response_str) of
        Inl e \<Rightarrow>
          if is_json_decode_error e then reprompt R lib bus input response_str (exn_str e)
          else raise e
      | Inr parsed \<Rightarrow>
          (case jsonschema_validate lib parsed LLM_RESPONSE_SCHEMA of
             Some e \<Rightarrow> reprompt R lib bus input response_str (validation_error_str lib (verror_message lib e))
           | None \<Rightarrow>
               if \<not> validate_reasoning_result parsed available_tools then ret (fallback_response input)
               else andthen (debug_emit R bus ''on_thought'' parsed) (\<lambda>_. ret parsed)))"

text \<open>The main prompt (lines 44-61).\<close>

definition main_prompt :: "llm_reasoner \<Rightarrow> tool list \<Rightarrow> memory \<Rightarrow> string \<Rightarrow> string" where
  "main_prompt R available_tools m input =
     contextual_prompt R (join '', '' (map (\<lambda>t. attr_text (name t)) available_tools))
       (format_tool_descriptions available_tools) (format_memory_context m) input"

text \<open>The body of the outer \<open>try\<close>. With \<open>tools=None\<close> (the field completer's calls) the
  first statement already raises.\<close>

definition think_body ::
  "llm_reasoner \<Rightarrow> pylib \<Rightarrow> 's tool_manager option \<Rightarrow> 's event_bus option \<Rightarrow> string \<Rightarrow> (json, 's rstate) act" where
  "think_body R lib tm bus input =
     (case tm of
        None \<Rightarrow> raise (AttributeError ''get_all_tools'')
      | Some manager \<Rightarrow>
          (let available_tools = get_all_tools manager
           in (\<lambda>rs.
             (let prompt = main_prompt R available_tools (mem rs) input
              in andthen (debug_emit R bus ''on_llm_prompt'' (JObj [(''prompt'', JStr prompt)])) (\<lambda>_.
                 andthen (first_call R lib bus prompt) (\<lambda>(response_str, transcript).
                 andthen (save_rs ''llm_transcript'' (JStr (join nl transcript)) []) (\<lambda>_.
                 andthen (emit_rs bus ''on_llm_response''
                            (if debug_mode R then JObj [(''response'', JStr response_str)]
                             else JObj [(''input'', JStr input), (''prompt'', JStr prompt),
                                        (''raw_response'', JStr response_str),
                                        (''transcript'', JArr (map JStr transcript))])) (\<lambda>_.
                 parse_response R lib bus available_tools input response_str)))) rs))))"

text \<open>The body up to the first answer of the backend (lines 44-76): the prompt is built,
  emitted in debug mode, and sent.\<close>

definition ask ::
  "llm_reasoner \<Rightarrow> pylib \<Rightarrow> 's tool_manager \<Rightarrow> 's event_bus option \<Rightarrow> string
     \<Rightarrow> (string \<times> string list, 's rstate) act" where
  "ask R lib manager bus input rs =
     (let prompt = main_prompt R (get_all_tools manager) (mem rs) input
      in andthen (debug_emit R bus ''on_llm_prompt'' (JObj [(''prompt'', JStr prompt)])) (\<lambda>_.
         first_call R lib bus prompt) rs)"

text \<open>\<open>think\<close>: the outer handler turns any exception of the body into the fallback
  envelope with its thoughts replaced; in debug mode it then emits \<open>on_thought\<close>.\<close>

definition error_fallback :: "string \<Rightarrow> exn \<Rightarrow> json" where
  "error_fallback input e =
     (case fallback_response input of
        JObj d \<Rightarrow> JObj (dict_set d ''thoughts''
                    (JStr (''LLM Reasoning failed: '' @ exn_str e @ ''. Falling back to chat.'')))
      | other \<Rightarrow> other)"

definition think ::
  "llm_reasoner \<Rightarrow> pylib \<Rightarrow> 's tool_manager option \<Rightarrow> 's event_bus option \<Rightarrow> string \<Rightarrow> (json, 's rstate) act" where
  "think R lib tm bus input rs =
     (case think_body R lib tm bus input rs of
        (Inr envelope, rs') \<Rightarrow> (Inr envelope, rs')
      | (Inl e, rs') \<Rightarrow>
          andthen (debug_emit R bus ''on_thought'' (error_fallback input e)) (\<lambda>_.
          ret (error_fallback input e)) rs')"

subsection \<open>Envelopes\<close>

text \<open>What the callers read of an envelope: \<open>envelope.get("tool_name")\<close>; whether it is
  a chat reply (tool name \<open>chat\<close> and a \<open>response\<close> in its tool input); whether a name
  is that of a registered tool; and whether an envelope passed both checks that
  \<open>think\<close> applies to the first answer (the envelope schema, and
  \<open>_validate_reasoning_result\<close> against the catalog).\<close>

definition envelope_tool_name :: "json \<Rightarrow> json" where
  "envelope_tool_name envelope =
     (case envelope of
        JObj d \<Rightarrow> (case dict_get d ''tool_name'' of Some v \<Rightarrow> v | None \<Rightarrow> JNull)
      | _ \<Rightarrow> JNull)"

definition is_chat_reply :: "json \<Rightarrow> bool" where
  "is_chat_reply envelope =
     (case envelope of
        JObj d \<Rightarrow>
          dict_get d ''tool_name'' = Some (JStr ''chat'')
          \<and> (case dict_get d ''tool_input'' of Some (JObj ti) \<Rightarrow> dict_has ti ''response'' | _ \<Rightarrow> False)
      | _ \<Rightarrow> False)"

definition names_tool :: "'w tool_manager \<Rightarrow> json \<Rightarrow> bool" where
  "names_tool tm v = (case v of JStr n \<Rightarrow> tool_exists tm n | _ \<Rightarrow> False)"

definition accepted :: "pylib \<Rightarrow> 'w tool_manager option \<Rightarrow> json \<Rightarrow> bool" where
  "accepted lib tm envelope =
     (case tm of
        None \<Rightarrow> False
      | Some manager \<Rightarrow>
          jsonschema_validate lib envelope LLM_RESPONSE_SCHEMA = None
          \<and> validate_reasoning_result envelope (get_all_tools manager))"

text \<open>
  Structured success: the envelope is the first answer of the backend. The request was
  answered (within the retry ceiling, nothing raising on the way), the answer, trimmed,
  parsed to the envelope, the envelope fits the envelope schema, and it names a tool of
  the catalog. Every failure the reasoner can meet before it returns the first answer
  makes this false: no catalog, no answer, text that does not parse, an envelope that
  does not fit, a tool that is not in the catalog.
\<close>

definition answered_well ::
  "llm_reasoner \<Rightarrow> pylib \<Rightarrow> 's tool_manager option \<Rightarrow> 's event_bus option \<Rightarrow> string
     \<Rightarrow> 's rstate \<Rightarrow> json \<Rightarrow> bool" where
  "answered_well R lib tm bus input rs envelope =
     (case tm of
        None \<Rightarrow> False
      | Some manager \<Rightarrow>
          (case fst (ask R lib manager bus input rs) of
             Inl e \<Rightarrow> False
           | Inr (response_str, transcript) \<Rightarrow>
               loads lib (strip response_str) = Inr envelope
               \<and> jsonschema_validate lib envelope LLM_RESPONSE_SCHEMA = None
               \<and> validate_reasoning_result envelope (get_all_tools manager)))"

text \<open>\<open>think\<close> emits \<open>on_thought\<close> only in debug mode; the emission is harmless when
  there is no bus or no subscriber to \<open>on_thought\<close> ever raises.\<close>

definition thought_safe :: "llm_reasoner \<Rightarrow> 's event_bus option \<Rightarrow> bool" where
  "thought_safe R bus =
     (\<not> debug_mode R \<or>
      (case bus of None \<Rightarrow> True | Some b \<Rightarrow> (\<forall>d s. fst (emit b ''on_thought'' d s) = None)))"

text \<open>
  The text a backend answer assembles to: the concatenation of the \<open>response\<close> tokens
  of its chunks. A text is unparsable when \<open>json.loads\<close> raises \<open>JSONDecodeError\<close> on
  it, or reads a value that does not fit the envelope schema: the two failures that the
  handler of the re-prompt catches. A backend is always unparsable when each of its
  answers arrives whole (status 200, no break) and is unparsable; \<open>parse_error\<close> is the
  text of that failure. A bus never raises when no emission on it does.
\<close>

definition chunk_token :: "pylib \<Rightarrow> string \<Rightarrow> string" where
  "chunk_token lib chunk =
     (if strip chunk = [] then []
      else (case loads lib chunk of
              Inr (JObj d) \<Rightarrow>
                (case dict_get d ''response'' of
                   None \<Rightarrow> []
                 | Some (JStr token) \<Rightarrow> token
                 | Some _ \<Rightarrow> [])
            | _ \<Rightarrow> []))"

definition stream_text :: "pylib \<Rightarrow> string list \<Rightarrow> string" where
  "stream_text lib chunks = concat (map (chunk_token lib) chunks)"

definition answer :: "llm_reasoner \<Rightarrow> pylib \<Rightarrow> nat \<Rightarrow> string \<Rightarrow> string" where
  "answer R lib n prompt =
     (case backend R n prompt of
        Response status chunks broken \<Rightarrow> stream_text lib chunks
      | ConnectFailed e \<Rightarrow> [])"

definition unparsable :: "pylib \<Rightarrow> string \<Rightarrow> bool" where
  "unparsable lib text =
     (case loads lib (strip text) of
        Inl e \<Rightarrow> is_json_decode_error e
      | Inr parsed \<Rightarrow> jsonschema_validate lib parsed LLM_RESPONSE_SCHEMA \<noteq> None)"

definition parse_error :: "pylib \<Rightarrow> string \<Rightarrow> string" where
  "parse_error lib text =
     (case loads lib (strip text) of
        Inl e \<Rightarrow> exn_str e
      | Inr parsed \<Rightarrow>
          (case jsonschema_validate lib parsed LLM_RESPONSE_SCHEMA of
             Some e \<Rightarrow> validation_error_str lib (verror_message lib e)
           | None \<Rightarrow> []))"

definition always_unparsable :: "llm_reasoner \<Rightarrow> pylib \<Rightarrow> bool" where
  "always_unparsable R lib =
     (\<forall>n prompt.
        case backend R n prompt of
          Response status chunks broken \<Rightarrow>
            status = 200 \<and> broken = None \<and> unparsable lib (stream_text lib chunks)
        | ConnectFailed e \<Rightarrow> False)"

definition never_raises :: "'s event_bus option \<Rightarrow> bool" where
  "never_raises bus =
     (case bus of None \<Rightarrow> True | Some b \<Rightarrow> (\<forall>n d s. fst (emit b n d s) = None))"

section \<open>The field completer (core/tool\_prompt.py)\<close>

text \<open>
  The handler holds a reasoner and the prompt configurations read from the \<open>prompts/\<close>
  directory at start-up (a dict from tool names to whatever JSON the files held). A
  reasoner is any implementation of \<open>Reasoner.think\<close>: given the input and the catalog
  (absent when the completer calls), it returns an envelope or raises, and may change
  the reasoning state.
\<close>

type_synonym 's reasoner = "string \<Rightarrow> 's tool_manager option \<Rightarrow> (json, 's rstate) act"

definition llm_think :: "llm_reasoner \<Rightarrow> pylib \<Rightarrow> 's event_bus option \<Rightarrow> 's reasoner" where
  "llm_think R lib bus = (\<lambda>input tm. think R lib tm bus input)"

definition get_tool_prompt :: "(string \<times> json) list \<Rightarrow> string \<Rightarrow> json" where
  "get_tool_prompt prompt_cache tool_name =
     (case map_of prompt_cache tool_name of None \<Rightarrow> JObj [] | Some config \<Rightarrow> config)"

text \<open>
  \<open>_parse_field_value\<close>. \<open>coerce\<close> is the body of its \<open>try\<close>: \<open>int\<close> and \<open>float\<close>
  raise \<open>ValueError\<close> on text they cannot read, \<open>json.loads\<close> raises what it raises.
  The handler catches \<open>ValueError\<close> (of which \<open>JSONDecodeError\<close> is a subclass) and
  nothing else.
\<close>

definition coerce :: "pylib \<Rightarrow> string \<Rightarrow> json \<Rightarrow> exn + json" where
  "coerce lib response field_type =
     (if field_type = JStr ''boolean''
        then Inr (JBool (lower response \<in> set [''true'', ''yes'', ''1'', ''on'']))
      else if field_type = JStr ''integer''
        then (case py_int lib response of
                Some i \<Rightarrow> Inr (JInt i)
              | None \<Rightarrow> Inl (ValueError ''invalid literal for int()''))
      else if field_type = JStr ''number''
        then (case py_float lib response of
                Some x \<Rightarrow> Inr (JFloat x)
              | None \<Rightarrow> Inl (ValueError ''could not convert string to float''))
      else if field_type \<in> set [JStr ''array'', JStr ''object'']
        then loads lib response
      else Inr (JStr response))"

definition parse_field_value :: "pylib \<Rightarrow> string \<Rightarrow> json \<Rightarrow> exn + json" where
  "parse_field_value lib response field_type =
     (case coerce lib (strip response) field_type of
        Inr v \<Rightarrow> Inr v
      | Inl e \<Rightarrow> if is_value_error e then Inr (JStr (strip response)) else Inl e)"

definition build_field_prompt ::
  "pylib \<Rightarrow> string \<Rightarrow> string \<Rightarrow> json \<Rightarrow> json \<Rightarrow> string \<Rightarrow> dict \<Rightarrow> json \<Rightarrow> string" where
  "build_field_prompt lib tool_name field_name field_type field_description user_input
       current_input custom_prompt =
     strip (
       nl @ ''You are helping to fill missing required fields for the '' @ apos @ tool_name @ apos @ '' tool.'' @ nl
       @ nl @ ''User'' @ apos @ ''s original request: '' @ dquote @ user_input @ dquote @ nl
       @ nl @ ''Missing field: '' @ field_name @ nl
       @ ''Field type: '' @ fmt lib field_type @ nl
       @ ''Field description: '' @ fmt lib field_description @ nl
       @ nl @ ''Current tool input: '' @ dumps lib (JObj current_input) @ nl
       @ nl @ fmt lib custom_prompt @ nl
       @ nl @ ''Based on the user'' @ apos @ ''s request, what should the value be for the '' @ apos @ field_name @ apos @ '' field?'' @ nl
       @ ''Respond ONLY with the field value, no explanations or extra text.'' @ nl
       @ (if field_type = JStr ''boolean'' then nl @ ''Respond with only: true or false''
          else if field_type = JStr ''integer'' then nl @ ''Respond with only a number (integer)''
          else if field_type = JStr ''number'' then nl @ ''Respond with only a number''
          else if field_type = JStr ''array'' then nl @ ''Respond with a JSON array format: [item1, item2, ...]''
          else if field_type = JStr ''object''
            then nl @ ''Respond with a JSON object format: {'' @ dquote @ ''key'' @ dquote @ '': '' @ dquote @ ''value'' @ dquote @ ''}''
          else nl @ ''Respond with only the text/string value''))"

text \<open>What the \<open>try\<close> of \<open>_fill_single_field\<close> makes of the reasoner's result; \<open>JNull\<close> is
  Python's \<open>None\<close>. Every exception inside (the reasoner's own, \<open>.get\<close> on something that
  is not a dict, \<open>.strip\<close> on something that is not a string) is caught.\<close>

definition field_value_of :: "pylib \<Rightarrow> json \<Rightarrow> exn + json \<Rightarrow> json" where
  "field_value_of lib field_type result =
     (case result of
        Inl e \<Rightarrow> JNull
      | Inr (JObj envelope) \<Rightarrow>
          if dict_get envelope ''tool_name'' = Some (JStr ''chat'')
          then (case (case dict_get envelope ''tool_input'' of None \<Rightarrow> JObj [] | Some v \<Rightarrow> v) of
                  JObj tool_input \<Rightarrow>
                    (case (case dict_get tool_input ''response'' of None \<Rightarrow> JStr [] | Some v \<Rightarrow> v) of
                       JStr response \<Rightarrow>
                         (case parse_field_value lib response field_type of
                            Inr v \<Rightarrow> v
                          | Inl e \<Rightarrow> JNull)
                     | _ \<Rightarrow> JNull)
                | _ \<Rightarrow> JNull)
          else JNull
      | Inr _ \<Rightarrow> JNull)"

text \<open>\<open>_fill_single_field\<close>. Reading the configuration and the field's schema happens
  before the \<open>try\<close>: \<open>.get\<close> on something that is not a dict raises.\<close>

definition fill_single_field ::
  "pylib \<Rightarrow> 's reasoner \<Rightarrow> string \<Rightarrow> string \<Rightarrow> json \<Rightarrow> string \<Rightarrow> json \<Rightarrow> dict \<Rightarrow> (json, 's rstate) act" where
  "fill_single_field lib reasoner tool_name field_name field_schema user_input tool_config current_input =
     (case tool_config of
        JObj config \<Rightarrow>
          (case (case dict_get config ''field_prompts'' of None \<Rightarrow> JObj [] | Some v \<Rightarrow> v) of
             JObj field_prompts \<Rightarrow>
               (case field_schema of
                  JObj fs \<Rightarrow>
                    (let field_prompt = (case dict_get field_prompts field_name of None \<Rightarrow> JStr [] | Some v \<Rightarrow> v);
                         field_type = (case dict_get fs ''type'' of None \<Rightarrow> JStr ''string'' | Some v \<Rightarrow> v);
                         field_description =
                           (case dict_get fs ''description'' of None \<Rightarrow> JStr (field_name @ '' field'') | Some v \<Rightarrow> v);
                         prompt = build_field_prompt lib tool_name field_name field_type field_description
                                    user_input current_input field_prompt
                     in (\<lambda>rs. case reasoner prompt None rs of
                                 (result, rs') \<Rightarrow> (Inr (field_value_of lib field_type result), rs')))
                | _ \<Rightarrow> raise (AttributeError ''get''))
           | _ \<Rightarrow> raise (AttributeError ''get''))
      | _ \<Rightarrow> raise (AttributeError ''get''))"

text \<open>\<open>fill_missing_fields\<close>: the required fields that are absent or falsy are completed
  one by one, each call seeing what the earlier ones filled in; a field is set only when
  its completion is not \<open>None\<close>.\<close>

definition schema_required :: "json \<Rightarrow> string list" where
  "schema_required schema =
     (case schema of
        JObj sd \<Rightarrow> (case dict_get sd ''required'' of Some r \<Rightarrow> ensure_list r | None \<Rightarrow> [])
      | _ \<Rightarrow> [])"

definition schema_property :: "json \<Rightarrow> string \<Rightarrow> json" where
  "schema_property schema field =
     (case schema of
        JObj sd \<Rightarrow>
          (case dict_get sd ''properties'' of
             Some (JObj props) \<Rightarrow> (case dict_get props field of Some fs \<Rightarrow> fs | None \<Rightarrow> JObj [])
           | _ \<Rightarrow> JObj [])
      | _ \<Rightarrow> JObj [])"

definition missing_or_falsy :: "dict \<Rightarrow> string \<Rightarrow> bool" where
  "missing_or_falsy tool_input field =
     (case dict_get tool_input field of None \<Rightarrow> True | Some v \<Rightarrow> \<not> truthy v)"

fun fill_fields ::
  "pylib \<Rightarrow> 's reasoner \<Rightarrow> string \<Rightarrow> json \<Rightarrow> string \<Rightarrow> json \<Rightarrow> string list \<Rightarrow> dict \<Rightarrow> (dict, 's rstate) act" where
  "fill_fields lib reasoner tool_name schema user_input tool_config [] filled_input = ret filled_input"
| "fill_fields lib reasoner tool_name schema user_input tool_config (field # rest) filled_input =
     andthen (fill_single_field lib reasoner tool_name field (schema_property schema field)
                user_input tool_config filled_input)
       (\<lambda>filled_value.
          fill_fields lib reasoner tool_name schema user_input tool_config rest
            (if filled_value \<noteq> JNull then dict_set filled_input field filled_value else filled_input))"

definition fill_missing_fields ::
  "pylib \<Rightarrow> 's reasoner \<Rightarrow> (string \<times> json) list \<Rightarrow> 's tool_manager \<Rightarrow> string \<Rightarrow> dict \<Rightarrow> string
     \<Rightarrow> (dict, 's rstate) act" where
  "fill_missing_fields lib reasoner prompt_cache tm tool_name tool_input user_input =
     (case get_tool_by_name tm tool_name of
        None \<Rightarrow> ret tool_input
      | Some t \<Rightarrow>
          (let schema = example_schema lib t;
               missing_fields = filter (missing_or_falsy tool_input) (schema_required schema)
           in if missing_fields = [] then ret tool_input
              else fill_fields lib reasoner tool_name schema user_input
                     (get_tool_prompt prompt_cache tool_name) missing_fields tool_input))"

section \<open>The orchestration loop (core/agent\_kernel.py)\<close>

text \<open>
  The kernel holds a reasoner, the registry, an event bus (always one: a fresh bus when
  none is given), the debug flag, and, in its \<open>ToolPromptHandler\<close>, the prompt
  configurations. Its state is what a reasoning call can touch, the messages handed to
  \<open>interface.output\<close>, and the tool executions so far. The memory is the
  \<open>EnhancedBufferMemory\<close> of the runner, so the capability probes (\<open>hasattr\<close>) succeed.
\<close>

record 's kernel =
  k_reasoner :: "'s reasoner"
  k_tools :: "'s tool_manager"
  k_bus :: "'s event_bus"
  k_debug :: bool
  k_prompts :: "(string \<times> json) list"

record 's kstate =
  reasoning :: "'s rstate"
  outputs :: "json list"
  runs :: "(string \<times> dict) list"

definition on_reasoning :: "('a, 's rstate) act \<Rightarrow> ('a, 's kstate) act" where
  "on_reasoning m ks = (case m (reasoning ks) of (r, rs') \<Rightarrow> (r, ks\<lparr>reasoning := rs'\<rparr>))"

definition emit_k :: "'s kernel \<Rightarrow> string \<Rightarrow> json \<Rightarrow> (unit, 's kstate) act" where
  "emit_k K event_name d = on_reasoning (emit_rs (Some (k_bus K)) event_name d)"

definition save_k :: "string \<Rightarrow> json \<Rightarrow> dict \<Rightarrow> (unit, 's kstate) act" where
  "save_k r c md = on_reasoning (save_rs r c md)"

definition save_context_k :: "string \<Rightarrow> json \<Rightarrow> string \<Rightarrow> (unit, 's kstate) act" where
  "save_context_k k v category =
     on_reasoning (\<lambda>rs. (Inr (), rs\<lparr>mem := save_context (mem rs) k v category\<rparr>))"

definition output_k :: "json \<Rightarrow> (unit, 's kstate) act" where
  "output_k message ks = (Inr (), ks\<lparr>outputs := outputs ks @ [message]\<rparr>)"

definition prepare_reasoning_prompt :: "pylib \<Rightarrow> string \<Rightarrow> memory \<Rightarrow> string" where
  "prepare_reasoning_prompt lib user_input m = inject_memory_context lib user_input m 8"

text \<open>The event that reports a tool's use: \<open>on_tool_output\<close> in debug mode,
  \<open>on_tool_used\<close> otherwise.\<close>

definition emit_used :: "'s kernel \<Rightarrow> string \<Rightarrow> json \<Rightarrow> json \<Rightarrow> (unit, 's kstate) act" where
  "emit_used K label tool_input output =
     (if k_debug K
      then emit_k K ''on_tool_output'' (JObj [(''tool_name'', JStr label), (''output'', output)])
      else emit_k K ''on_tool_used''
             (JObj [(''tool'', JStr label), (''input'', tool_input), (''output'', output)]))"

text \<open>\<open>_save_conversation_with_learning\<close>: the metadata is built first (\<open>len\<close> may
  raise), then the reply is saved, then the learnable facts.\<close>

fun save_learned :: "dict \<Rightarrow> (unit, 's kstate) act" where
  "save_learned [] = ret ()"
| "save_learned ((info_type, info_value) # infos) =
     andthen (save_context_k (''learned_'' @ info_type) info_value ''learned_facts'')
       (\<lambda>_. save_learned infos)"

definition save_conversation_with_learning :: "string \<Rightarrow> json \<Rightarrow> (unit, 's kstate) act" where
  "save_conversation_with_learning user_input agent_output =
     (case py_len agent_output of
        Inl e \<Rightarrow> raise e
      | Inr n \<Rightarrow>
          andthen (save_k ''agent'' agent_output
                     [(''type'', JStr ''chat_response''), (''response_length'', JInt n)])
            (\<lambda>_. save_learned (extract_learnable_info user_input agent_output)))"

text \<open>The chat reply (lines 91-106).\<close>

definition chat_reply :: "'s kernel \<Rightarrow> string \<Rightarrow> dict \<Rightarrow> json \<Rightarrow> (unit, 's kstate) act" where
  "chat_reply K user_input tool_input output =
     andthen (output_k output) (\<lambda>_.
     andthen (save_conversation_with_learning user_input output) (\<lambda>_.
     emit_used K ''chat'' (JObj tool_input) output))"

text \<open>The tool is not registered (lines 110-146): with a truthy \<open>response\<close> in the tool
  input the reply is sent as a fallback chat; otherwise the error is reported.\<close>

definition fallback_chat :: "'s kernel \<Rightarrow> pylib \<Rightarrow> string \<Rightarrow> json \<Rightarrow> dict \<Rightarrow> json \<Rightarrow> (unit, 's kstate) act" where
  "fallback_chat K lib user_input tool_name tool_input fallback =
     (let output = JStr (''[Fallback Chat] Tool '' @ apos @ fmt lib tool_name @ apos
                         @ '' not found. Chatting instead:'' @ nl @ fmt lib fallback)
      in andthen (output_k output) (\<lambda>_.
         andthen (save_k ''agent'' output
                    [(''type'', JStr ''fallback''), (''requested_tool'', tool_name),
                     (''reason'', JStr ''tool_not_found'')]) (\<lambda>_.
         andthen (save_context_k (''failed_tool_'' @ fmt lib tool_name)
                    (JObj [(''user_request'', JStr user_input), (''fallback_used'', JBool True)])
                    ''tool_usage'') (\<lambda>_.
         emit_used K ''chat_fallback'' (JObj tool_input) output))))"

definition not_found_message :: "pylib \<Rightarrow> json \<Rightarrow> json" where
  "not_found_message lib tool_name =
     JStr (''[ERROR] Tool '' @ apos @ fmt lib tool_name @ apos @ '' not found or undefined.'')"

definition tool_not_found :: "'s kernel \<Rightarrow> pylib \<Rightarrow> json \<Rightarrow> (unit, 's kstate) act" where
  "tool_not_found K lib tool_name =
     andthen (output_k (not_found_message lib tool_name)) (\<lambda>_.
     andthen (save_k ''agent'' (not_found_message lib tool_name)
                [(''type'', JStr ''error''), (''error_type'', JStr ''tool_not_found'')]) (\<lambda>_.
     if k_debug K
     then emit_k K ''on_tool_output''
            (JObj [(''tool_name'', JStr ''error_tool_not_found''),
                   (''output'', not_found_message lib tool_name)])
     else ret ()))"

definition missing_tool :: "'s kernel \<Rightarrow> pylib \<Rightarrow> string \<Rightarrow> json \<Rightarrow> dict \<Rightarrow> (unit, 's kstate) act" where
  "missing_tool K lib user_input tool_name tool_input =
     (case dict_get tool_input ''response'' of
        Some fallback \<Rightarrow>
          if truthy fallback then fallback_chat K lib user_input tool_name tool_input fallback
          else tool_not_found K lib tool_name
      | None \<Rightarrow> tool_not_found K lib tool_name)"

text \<open>The tool is registered (lines 148-210): complete, validate, run, persist,
  report. An exception of the tool body leaves the turn like any other.\<close>

definition run_tool :: "tool \<Rightarrow> string \<Rightarrow> dict \<Rightarrow> (json, 's kstate) act" where
  "run_tool t tool_name tool_input ks =
     (run t tool_input, ks\<lparr>runs := runs ks @ [(tool_name, tool_input)]\<rparr>)"

definition use_tool :: "'s kernel \<Rightarrow> pylib \<Rightarrow> string \<Rightarrow> tool \<Rightarrow> string \<Rightarrow> dict \<Rightarrow> (unit, 's kstate) act" where
  "use_tool K lib user_input t tool_name original_input =
     andthen (on_reasoning (fill_missing_fields lib (k_reasoner K) (k_prompts K) (k_tools K)
                              tool_name original_input user_input)) (\<lambda>tool_input.
     andthen (if tool_input \<noteq> original_input
              then emit_k K ''on_fields_auto_filled''
                     (JObj [(''tool'', JStr tool_name), (''original_input'', JObj original_input),
                            (''filled_input'', JObj tool_input)])
              else ret ()) (\<lambda>_.
     case validate_input lib (k_tools K) tool_name tool_input of
       (False, error_msg) \<Rightarrow>
         andthen (output_k (JStr (''[ERROR] Invalid tool input: '' @ error_msg))) (\<lambda>_.
         save_k ''agent'' (JStr (''[ERROR] Invalid tool input: '' @ error_msg))
           [(''type'', JStr ''error''), (''error_type'', JStr ''validation_failed''),
            (''tool'', JStr tool_name)])
     | (True, error_msg) \<Rightarrow>
         andthen (run_tool t tool_name tool_input) (\<lambda>tool_output.
         andthen (emit_used K tool_name (JObj tool_input) tool_output) (\<lambda>_.
         andthen (save_k ''agent'' tool_output
                    [(''type'', JStr ''tool_result''), (''tool_name'', JStr tool_name),
                     (''tool_input'', JObj tool_input), (''success'', JBool True)]) (\<lambda>_.
         andthen (save_context_k (''successful_tool_'' @ tool_name)
                    (JObj [(''user_request'', JStr user_input), (''tool_input'', JObj tool_input),
                           (''output_length'', JInt (int (length (fmt lib tool_output))))])
                    ''tool_usage'') (\<lambda>_.
         andthen (output_k tool_output) (\<lambda>_.
         emit_k K ''on_output'' (JObj [(''output'', tool_output)]))))))))"

text \<open>
  After the reasoning call (lines 79-210). The envelope must be a dict (\<open>.get\<close>); its
  \<open>tool_input\<close> defaults to the empty dict. The tool input is a dict, as the reasoner
  contract and the annotations of \<open>fill_missing_fields\<close> and \<open>validate_input\<close> say: for
  any other value the model raises \<open>TypeError\<close> at this point, where Python fails at the
  first dict operation on it (or, for a list, at validation). A name that is a list or
  a dict cannot be looked up (\<open>unhashable\<close>); any other name that is not a string is
  simply not registered.
\<close>

definition lookup_tool :: "'s kernel \<Rightarrow> json \<Rightarrow> exn + tool option" where
  "lookup_tool K tool_name =
     (case tool_name of
        JStr n \<Rightarrow> Inr (get_tool_by_name (k_tools K) n)
      | JArr xs \<Rightarrow> Inl (TypeError ''unhashable type: list'')
      | JObj d \<Rightarrow> Inl (TypeError ''unhashable type: dict'')
      | _ \<Rightarrow> Inr None)"

definition dispatch :: "'s kernel \<Rightarrow> pylib \<Rightarrow> string \<Rightarrow> json \<Rightarrow> dict \<Rightarrow> (unit, 's kstate) act" where
  "dispatch K lib user_input tool_name tool_input =
     (case (if tool_name = JStr ''chat'' then dict_get tool_input ''response'' else None) of
        Some output \<Rightarrow> chat_reply K user_input tool_input output
      | None \<Rightarrow>
          (case lookup_tool K tool_name of
             Inl e \<Rightarrow> raise e
           | Inr None \<Rightarrow> missing_tool K lib user_input tool_name tool_input
           | Inr (Some t) \<Rightarrow> use_tool K lib user_input t (fmt lib tool_name) tool_input))"

definition after_think :: "'s kernel \<Rightarrow> pylib \<Rightarrow> string \<Rightarrow> json \<Rightarrow> (unit, 's kstate) act" where
  "after_think K lib user_input reasoning_result =
     andthen (if \<not> k_debug K then emit_k K ''on_thought'' reasoning_result else ret ()) (\<lambda>_.
     case reasoning_result of
       JObj envelope \<Rightarrow>
         (let tool_name = (case dict_get envelope ''tool_name'' of None \<Rightarrow> JNull | Some v \<Rightarrow> v);
              tool_input = (case dict_get envelope ''tool_input'' of None \<Rightarrow> JObj [] | Some v \<Rightarrow> v)
          in andthen (if k_debug K
                      then emit_k K ''on_tool_selected''
                             (JObj [(''tool_name'', tool_name), (''tool_input'', tool_input)])
                      else ret ()) (\<lambda>_.
             case tool_input of
               JObj ti \<Rightarrow> dispatch K lib user_input tool_name ti
             | _ \<Rightarrow> raise (TypeError ''tool_input is not a dict'')))
     | _ \<Rightarrow> raise (AttributeError ''get''))"

text \<open>The state in which the reasoner is called: \<open>on_input\<close> has been emitted and the
  input saved. The reasoning step is the call itself, on the prompt with the memory
  context injected.\<close>

definition before_think :: "'s kernel \<Rightarrow> string \<Rightarrow> (unit, 's kstate) act" where
  "before_think K user_input =
     andthen (emit_k K ''on_input'' (JObj [(''input'', JStr user_input)])) (\<lambda>_.
     save_k ''user'' (JStr user_input)
       [(''input_length'', JInt (int (length user_input))),
        (''tool_context'', JStr ''conversation_start'')])"

definition reasoning_step :: "'s kernel \<Rightarrow> pylib \<Rightarrow> string \<Rightarrow> (json, 's kstate) act" where
  "reasoning_step K lib user_input ks =
     on_reasoning (k_reasoner K (prepare_reasoning_prompt lib user_input (mem (reasoning ks)))
                     (Some (k_tools K))) ks"

definition turn_body :: "'s kernel \<Rightarrow> pylib \<Rightarrow> string \<Rightarrow> (unit, 's kstate) act" where
  "turn_body K lib user_input =
     andthen (before_think K user_input) (\<lambda>_.
     andthen (reasoning_step K lib user_input) (\<lambda>reasoning_result.
     after_think K lib user_input reasoning_result))"

text \<open>
  One turn, with the handler at its boundary (lines 212-222): the exception is
  reported, saved as a \<open>system\<close> entry and emitted as \<open>on_error\<close>. The result is \<open>None\<close>
  when the loop goes on to the next input, and the exception that leaves \<open>run\<close> when
  the handler itself raises.
\<close>

definition crash_message :: "pylib \<Rightarrow> exn \<Rightarrow> json" where
  "crash_message lib e = JStr (''[ERROR] Agent crashed: '' @ exn_str e @ nl @ format_exc lib e)"

definition turn :: "'s kernel \<Rightarrow> pylib \<Rightarrow> string \<Rightarrow> 's kstate \<Rightarrow> exn option \<times> 's kstate" where
  "turn K lib user_input ks =
     (case turn_body K lib user_input ks of
        (Inr u, ks') \<Rightarrow> (None, ks')
      | (Inl e, ks') \<Rightarrow>
          (case andthen (output_k (crash_message lib e)) (\<lambda>_.
                andthen (save_k ''system'' (crash_message lib e)
                           [(''type'', JStr ''system_error''),
                            (''exception_type'', JStr (exn_type_name e))]) (\<lambda>_.
                emit_k K ''on_error'' (JObj [(''error'', crash_message lib e)]))) ks' of
             (Inr u, ks'') \<Rightarrow> (None, ks'')
           | (Inl e', ks'') \<Rightarrow> (Some e', ks'')))"

text \<open>\<open>run\<close>: one turn per input, until the interface ends the session (its \<open>input\<close>
  raises \<open>KeyboardInterrupt\<close>, which no handler of the loop catches) or an exception
  leaves a turn.\<close>

datatype session_end = EndOfInput | Escaped exn

fun kernel_run :: "'s kernel \<Rightarrow> pylib \<Rightarrow> string list \<Rightarrow> 's kstate \<Rightarrow> session_end \<times> 's kstate" where
  "kernel_run K lib [] ks = (EndOfInput, ks)"
| "kernel_run K lib (user_input # later) ks =
     (case turn K lib user_input ks of
        (None, ks') \<Rightarrow> kernel_run K lib later ks'
      | (Some e, ks') \<Rightarrow> (Escaped e, ks'))"

section \<open>What a turn does to the log\<close>

text \<open>What a step leaves alone: the outputs, the tool runs, the requests sent, and in the
  memory the history, the limit and the session.\<close>

definition same_log :: "'s kstate \<Rightarrow> 's kstate \<Rightarrow> bool" where
  "same_log ks ks' =
     (outputs ks' = outputs ks \<and> runs ks' = runs ks
      \<and> history (mem (reasoning ks')) = history (mem (reasoning ks))
      \<and> limit (mem (reasoning ks')) = limit (mem (reasoning ks))
      \<and> session (mem (reasoning ks')) = session (mem (reasoning ks))
      \<and> requests (reasoning ks') = requests (reasoning ks))"

text \<open>What saving one entry does to the log: the entry is stamped with the clock and
  the session of the memory it is saved to.\<close>

definition appended :: "'s kstate \<Rightarrow> string \<Rightarrow> json \<Rightarrow> dict \<Rightarrow> 's kstate \<Rightarrow> bool" where
  "appended ks r c md ks' =
     (outputs ks' = outputs ks \<and> runs ks' = runs ks
      \<and> history (mem (reasoning ks')) =
          keep_last (limit (mem (reasoning ks)))
            (history (mem (reasoning ks)) @ [new_entry (mem (reasoning ks)) r c md])
      \<and> limit (mem (reasoning ks')) = limit (mem (reasoning ks))
      \<and> session (mem (reasoning ks')) = session (mem (reasoning ks))
      \<and> requests (reasoning ks') = requests (reasoning ks))"

text \<open>The name is looked up and nothing is registered under it: a string that no tool
  bears, or a value that is not a string (and can be hashed).\<close>

definition no_such_tool :: "'s kernel \<Rightarrow> json \<Rightarrow> bool" where
  "no_such_tool K tool_name = (lookup_tool K tool_name = Inr None)"

text \<open>The tool input carries no fallback response: no \<open>response\<close> key; or a falsy
  \<open>response\<close>, under a tool name other than \<open>chat\<close> (with that name, the key alone makes
  the turn a chat reply).\<close>

definition no_fallback_response :: "json \<Rightarrow> dict \<Rightarrow> bool" where
  "no_fallback_response tool_name tool_input =
     (case dict_get tool_input ''response'' of
        None \<Rightarrow> True
      | Some v \<Rightarrow> \<not> truthy v \<and> tool_name \<noteq> JStr ''chat'')"

section \<open>Example configurations\<close>

text \<open>Three subscribers that log their name; the second raises after logging. The
  third is never called.\<close>

definition logging_cb :: "string \<Rightarrow> string list callback" where
  "logging_cb label = (\<lambda>d w. (None, w @ [label]))"

definition raising_cb :: "string \<Rightarrow> string list callback" where
  "raising_cb label = (\<lambda>d w. (Some (Raised ''boom''), w @ [label]))"

definition demo_bus :: "string list event_bus" where
  "demo_bus =
     subscribe (subscribe (subscribe new_bus ''on_input'' (logging_cb ''a''))
        ''on_input'' (raising_cb ''b'')) ''on_input'' (logging_cb ''c'')"

text \<open>A library for the examples: it parses two texts, the example of a calculator
  tool and an example whose only field is \<open>null\<close>.\<close>

definition calc_json :: string where
  "calc_json = ''{'' @ dquote @ ''expression'' @ dquote @ '': '' @ dquote @ ''2+2'' @ dquote @ ''}''"

definition null_json :: string where
  "null_json = ''{'' @ dquote @ ''query'' @ dquote @ '': null}''"

definition demo_loads :: "string \<Rightarrow> exn + json" where
  "demo_loads s =
     (if s = calc_json then Inr (JObj [(''expression'', JStr ''2+2'')])
      else if s = null_json then Inr (JObj [(''query'', JNull)])
      else Inl (JSONDecodeError ''Expecting value: line 1 column 1 (char 0)''))"

fun demo_repr :: "json \<Rightarrow> string" where
  "demo_repr (JStr s) = apos @ s @ apos"
| "demo_repr JNull = ''None''"
| "demo_repr (JInt i) = int_str i"
| "demo_repr (JBool b) = (if b then ''True'' else ''False'')"
| "demo_repr _ = ''...''"

definition demo_lib :: pylib where
  "demo_lib = \<lparr>loads = demo_loads, dumps = demo_repr, py_int = (\<lambda>s. None),
     py_float = (\<lambda>s. None), py_repr = demo_repr, py_str = demo_repr,
     validation_error_str = (\<lambda>m. m), format_exc = (\<lambda>e. ''Traceback''),
     tie_break = (\<lambda>instance schema cands. 0)\<rparr>"

definition calc_tool :: tool where
  "calc_tool = \<lparr>name = Str ''calculator'', description = Str ''Solves math expressions.'',
     example_usage = Str (''Example: '' @ calc_json), input_schema = None,
     run = (\<lambda>d. Inr (JStr ''Result: 4'')), tool_str = ''<CalculatorTool object>''\<rparr>"

definition search_tool :: tool where
  "search_tool = \<lparr>name = Str ''search'', description = Str ''Searches the web.'',
     example_usage = Str null_json, input_schema = Some (JObj []),
     run = (\<lambda>d. Inr (JStr ''nothing found'')), tool_str = ''<SearchTool object>''\<rparr>"

definition boom_bus :: "string list event_bus" where
  "boom_bus = subscribe new_bus ''on_tool_registered'' (raising_cb ''b'')"

definition demo_registry :: "string list tool_manager" where
  "demo_registry = \<lparr>tools = [(''calculator'', calc_tool), (''search'', search_tool)], tm_bus = None\<rparr>"

text \<open>A stub backend and library for the reasoner: \<open>chunk 1\<close> carries the envelope of
  the calculator scenario, \<open>chunk 2\<close> the text \<open>not json\<close>, \<open>chunk 3\<close> a plain answer.
  The reasoner retries three times; its main prompt is the input itself.\<close>

definition q :: "string \<Rightarrow> string" where
  "q s = dquote @ s @ dquote"

definition calc_envelope_text :: string where
  "calc_envelope_text = ''{'' @ q ''thoughts'' @ '':'' @ q ''math'' @ '','' @ q ''tool_name'' @ '':''
     @ q ''calculator'' @ '','' @ q ''tool_input'' @ '':{'' @ q ''expression'' @ '':'' @ q ''2+2'' @ ''}}''"

definition calc_envelope :: json where
  "calc_envelope = JObj [(''thoughts'', JStr ''math''), (''tool_name'', JStr ''calculator''),
     (''tool_input'', JObj [(''expression'', JStr ''2+2'')])]"

definition stub_loads :: "string \<Rightarrow> exn + json" where
  "stub_loads s =
     (if s = ''chunk 1'' then Inr (JObj [(''response'', JStr calc_envelope_text)])
      else if s = calc_envelope_text then Inr calc_envelope
      else if s = ''chunk 2'' then Inr (JObj [(''response'', JStr ''not json'')])
      else if s = ''chunk 3'' then Inr (JObj [(''response'', JStr ''Hello there'')])
      else Inl (JSONDecodeError ''Expecting value: line 1 column 1 (char 0)''))"

definition stub_lib :: pylib where
  "stub_lib = demo_lib\<lparr>loads := stub_loads\<rparr>"

definition stub_reasoner :: "bool \<Rightarrow> (nat \<Rightarrow> string \<Rightarrow> http_response) \<Rightarrow> llm_reasoner" where
  "stub_reasoner dbg be = \<lparr>retries = 3, debug_mode = dbg, backend = be,
     contextual_prompt = (\<lambda>tool_list tool_descriptions memory_context input. input)\<rparr>"

definition unreachable_backend :: "nat \<Rightarrow> string \<Rightarrow> http_response" where
  "unreachable_backend n prompt = ConnectFailed (Raised ''connection refused'')"

definition calc_backend :: "nat \<Rightarrow> string \<Rightarrow> http_response" where
  "calc_backend n prompt = Response 200 [''chunk 1''] None"

definition thought_boom_bus :: "string list event_bus" where
  "thought_boom_bus = subscribe new_bus ''on_thought'' (raising_cb ''t'')"

definition empty_memory :: memory where
  "empty_memory = \<lparr>limit = 1000, history = [], context_memory = [], session = ''20250101_000000'', now = 0\<rparr>"

definition rs0 :: "string list rstate" where
  "rs0 = \<lparr>subs = [], mem = empty_memory, requests = []\<rparr>"

text \<open>A backend that answers \<open>not json\<close> to the first request and a plain sentence to
  every later one.\<close>

definition garbage_backend :: "nat \<Rightarrow> string \<Rightarrow> http_response" where
  "garbage_backend n prompt =
     (if n = 0 then Response 200 [''chunk 2''] None else Response 200 [''chunk 3''] None)"

text \<open>A reasoner that always raises, and a registry holding the calculator.\<close>

definition down_reasoner :: "string list reasoner" where
  "down_reasoner = (\<lambda>input tm rs. (Inl (Raised ''backend down''), rs))"

definition calc_registry :: "string list tool_manager" where
  "calc_registry = \<lparr>tools = [(''calculator'', calc_tool)], tm_bus = None\<rparr>"

text \<open>A kernel for the examples: its reasoner returns a fixed envelope, its registry holds
  the calculator and the search tool, debug mode is off. One bus has two subscribers that
  log; the other has one that raises on \<open>on_thought\<close> and one that raises on \<open>on_error\<close>.\<close>

definition chat_envelope :: json where
  "chat_envelope =
     JObj [(''tool_name'', JStr ''chat''), (''tool_input'', JObj [(''response'', JStr ''Hello!'')])]"

definition lost_envelope :: json where
  "lost_envelope =
     JObj [(''tool_name'', JStr ''teleport''), (''tool_input'', JObj [(''where'', JStr ''home'')])]"

definition const_reasoner :: "json \<Rightarrow> string list reasoner" where
  "const_reasoner envelope = (\<lambda>input tm rs. (Inr envelope, rs))"

definition listening_bus :: "string list event_bus" where
  "listening_bus =
     subscribe (subscribe new_bus ''on_input'' (logging_cb ''input''))
       ''on_tool_used'' (logging_cb ''used'')"

definition failing_bus :: "string list event_bus" where
  "failing_bus =
     subscribe (subscribe new_bus ''on_thought'' (raising_cb ''thought''))
       ''on_error'' (raising_cb ''error'')"

definition demo_kernel :: "json \<Rightarrow> string list event_bus \<Rightarrow> string list kernel" where
  "demo_kernel envelope bus =
     \<lparr>k_reasoner = const_reasoner envelope, k_tools = demo_registry, k_bus = bus,
      k_debug = False, k_prompts = []\<rparr>"

definition ks0 :: "string list kstate" where
  "ks0 = \<lparr>reasoning = rs0, outputs = [], runs = []\<rparr>"

text \<open>A text nested deeper than the parser can follow: a hundred thousand opening
  brackets, on which \<open>json.loads\<close> raises \<open>RecursionError\<close>. The library below is the
  example library with that behaviour added.\<close>

definition deep_text :: string where
  "deep_text = replicate 100000 (CHR ''['')"

definition deep_loads :: "string \<Rightarrow> exn + json" where
  "deep_loads s =
     (if s = deep_text
      then Inl (RecursionError
             ''maximum recursion depth exceeded while decoding a JSON array from a unicode string'')
      else demo_loads s)"

definition deep_lib :: pylib where
  "deep_lib = demo_lib\<lparr>loads := deep_loads\<rparr>"

text \<open>Two completions that carry no value: a chat envelope whose tool input has no
  \<open>response\<close>, and one whose \<open>response\<close> is blank.\<close>

definition silent_envelope :: json where
  "silent_envelope =
     JObj [(''thoughts'', JStr ''no idea''), (''tool_name'', JStr ''chat''), (''tool_input'', JObj [])]"

definition blank_envelope :: json where
  "blank_envelope =
     JObj [(''thoughts'', JStr ''no idea''), (''tool_name'', JStr ''chat''),
           (''tool_input'', JObj [(''response'', JStr ''  '')])]"

section \<open>Properties of the event bus\<close>

lemma run_callbacks_all_return:
  "(\<forall>k < length cbs. fst ((cbs ! k) d (after_calls (take k cbs) d w)) = None)
   \<Longrightarrow> run_callbacks cbs d w = (None, after_calls cbs d w)"
proof (induction cbs arbitrary: w)
  case Nil
  then show ?case by (simp add: after_calls_def)
next
  case (Cons cb cbs)
  from Cons.prems have h0: "fst (cb d w) = None"
    by (auto simp: after_calls_def dest: spec[of _ 0])
  have step: "\<forall>k < length cbs. fst ((cbs ! k) d (after_calls (take k cbs) d (snd (cb d w)))) = None"
  proof (intro allI impI)
    fix k assume "k < length cbs"
    with Cons.prems have "fst (((cb # cbs) ! Suc k) d (after_calls (take (Suc k) (cb # cbs)) d w)) = None"
      by (metis Suc_less_eq length_Cons)
    then show "fst ((cbs ! k) d (after_calls (take k cbs) d (snd (cb d w)))) = None"
      by (simp add: after_calls_def)
  qed
  from Cons.IH[OF step] h0 show ?case
    by (cases "cb d w") (simp add: after_calls_def)
qed

lemma run_callbacks_first_raise:
  "k < length cbs \<Longrightarrow>
   (\<forall>j < k. fst ((cbs ! j) d (after_calls (take j cbs) d w)) = None) \<Longrightarrow>
   fst ((cbs ! k) d (after_calls (take k cbs) d w)) = Some e \<Longrightarrow>
   run_callbacks cbs d w = (Some e, after_calls (take (Suc k) cbs) d w)"
proof (induction cbs arbitrary: w k)
  case Nil
  then show ?case by simp
next
  case (Cons cb cbs)
  show ?case
  proof (cases k)
    case 0
    with Cons.prems(3) show ?thesis
      by (cases "cb d w") (simp add: after_calls_def)
  next
    case (Suc k')
    from Cons.prems(2) Suc have h0: "fst (cb d w) = None"
      by (auto simp: after_calls_def dest: spec[of _ 0])
    have lt: "k' < length cbs" using Cons.prems(1) Suc by simp
    have pre: "\<forall>j < k'. fst ((cbs ! j) d (after_calls (take j cbs) d (snd (cb d w)))) = None"
    proof (intro allI impI)
      fix j assume "j < k'"
      then have "Suc j < k" using Suc by simp
      with Cons.prems(2) have "fst (((cb # cbs) ! Suc j) d (after_calls (take (Suc j) (cb # cbs)) d w)) = None"
        by blast
      then show "fst ((cbs ! j) d (after_calls (take j cbs) d (snd (cb d w)))) = None"
        by (simp add: after_calls_def)
    qed
    have rs: "fst ((cbs ! k') d (after_calls (take k' cbs) d (snd (cb d w)))) = Some e"
      using Cons.prems(3) Suc by (simp add: after_calls_def)
    from Cons.IH[OF lt pre rs] h0 Suc show ?thesis
      by (cases "cb d w") (simp add: after_calls_def)
  qed
qed

text \<open>
  C10. \<open>emit\<close> calls the callbacks subscribed to the event name one after the other, in
  subscription order, each once and each with the payload it was given. With no
  subscriber it calls nothing and returns. If every callback returns, the world after
  \<open>emit\<close> is the world after exactly these calls. If the callback at position \<open>k\<close> is
  the first to raise, \<open>emit\<close> raises that exception, and the world is the one after the
  first \<open>k + 1\<close> calls: no later subscriber has been called.
\<close>

theorem emit_calls_subscribers_in_order:
  fixes bus :: "'w event_bus"
  defines "called k event_name d w \<equiv>
             fst ((subscribers bus event_name ! k) d
                    (after_calls (take k (subscribers bus event_name)) d w))"
  shows "(subscribers bus event_name = [] \<longrightarrow> emit bus event_name d w = (None, w))
       \<and> ((\<forall>k < length (subscribers bus event_name). called k event_name d w = None) \<longrightarrow>
            emit bus event_name d w = (None, after_calls (subscribers bus event_name) d w))
       \<and> (\<forall>k e. k < length (subscribers bus event_name)
              \<and> (\<forall>j < k. called j event_name d w = None)
              \<and> called k event_name d w = Some e \<longrightarrow>
            emit bus event_name d w =
              (Some e, after_calls (take (Suc k) (subscribers bus event_name)) d w))"
proof (intro conjI allI impI)
  assume "subscribers bus event_name = []"
  then show "emit bus event_name d w = (None, w)"
    by (simp add: emit_def)
next
  assume "\<forall>k < length (subscribers bus event_name). called k event_name d w = None"
  then show "emit bus event_name d w = (None, after_calls (subscribers bus event_name) d w)"
    unfolding emit_def called_def by (rule run_callbacks_all_return)
next
  fix k e
  assume h: "k < length (subscribers bus event_name)
              \<and> (\<forall>j < k. called j event_name d w = None)
              \<and> called k event_name d w = Some e"
  then show "emit bus event_name d w =
              (Some e, after_calls (take (Suc k) (subscribers bus event_name)) d w)"
    unfolding emit_def called_def by (intro run_callbacks_first_raise) auto
qed

theorem emit_calls_subscribers_in_order_witness:
  "emit demo_bus ''on_input'' (JObj []) [] = (Some (Raised ''boom''), [''a'', ''b''])
   \<and> emit demo_bus ''on_output'' (JObj []) [] = (None, [])"
proof -
  have subs: "subscribers demo_bus ''on_input'' = [logging_cb ''a'', raising_cb ''b'', logging_cb ''c'']"
    by (simp add: demo_bus_def subscribe_def new_bus_def)
  have none: "subscribers demo_bus ''on_output'' = []"
    by (simp add: demo_bus_def subscribe_def new_bus_def)
  have "Suc 0 < length (subscribers demo_bus ''on_input'')
        \<and> (\<forall>j < Suc 0. fst ((subscribers demo_bus ''on_input'' ! j) (JObj [])
               (after_calls (take j (subscribers demo_bus ''on_input'')) (JObj []) [])) = None)
        \<and> fst ((subscribers demo_bus ''on_input'' ! Suc 0) (JObj [])
               (after_calls (take (Suc 0) (subscribers demo_bus ''on_input'')) (JObj []) []))
            = Some (Raised ''boom'')"
    by (simp add: subs after_calls_def logging_cb_def raising_cb_def)
  with emit_calls_subscribers_in_order[of demo_bus "''on_input''" "JObj []" "[]"]
  have "emit demo_bus ''on_input'' (JObj []) [] =
          (Some (Raised ''boom''),
           after_calls (take (Suc (Suc 0)) (subscribers demo_bus ''on_input'')) (JObj []) [])"
    by blast
  moreover have "emit demo_bus ''on_output'' (JObj []) [] = (None, [])"
    using emit_calls_subscribers_in_order[of demo_bus "''on_output''" "JObj []" "[]"] none
    by simp
  ultimately show ?thesis
    by (simp add: subs after_calls_def logging_cb_def raising_cb_def)
qed

section \<open>Properties of the registry\<close>

lemma map_of_None_iff: "(map_of xs k = None) = (k \<notin> set (map fst xs))"
  by (simp add: map_of_eq_None_iff)

lemma update_fresh: "k \<notin> fst ` set xs \<Longrightarrow> AList.update k v xs = xs @ [(k, v)]"
  by (induction xs) auto

lemma register_fails_iff:
  assumes "event_delivered lib tm t w" and "example_settled t"
  shows "(fst (register_tool lib tm t w) \<noteq> None) = (missing_metadata t \<or> already_registered tm t)"
  using assms
  by (auto simp: register_tool_def missing_metadata_def already_registered_def event_delivered_def
        example_settled_def tool_exists_def map_of_None_iff Let_def
        split: prod.splits pyattr.splits option.splits)

lemma register_missing_kind:
  assumes "missing_metadata t" and "example_settled t"
  shows "register_tool lib tm t w =
           (Some (case unreadable t of
                    Some a \<Rightarrow> AttributeError a
                  | None \<Rightarrow> ValueError (''[ToolManager] Invalid tool metadata: '' @ tool_str t)), tm, w)"
  using assms
  by (auto simp: register_tool_def missing_metadata_def example_settled_def unreadable_def
        split: pyattr.splits)

lemma register_duplicate_kind:
  assumes "\<not> missing_metadata t" and "already_registered tm t"
  shows "register_tool lib tm t w =
           (Some (ValueError (''Tool '' @ apos @ registered_name t @ apos @ '' is already registered.'')),
            tm, w)"
  using assms
  by (auto simp: register_tool_def missing_metadata_def already_registered_def registered_name_def
        tool_exists_def map_of_None_iff split: pyattr.splits)

lemma register_tools_after:
  assumes "\<not> missing_metadata t" "\<not> already_registered tm t" "name t = Str n"
  shows "tools (fst (snd (register_tool lib tm t w))) = tools tm @ [(n, t)]"
  using assms
  by (auto simp: register_tool_def missing_metadata_def already_registered_def
        tool_exists_def map_of_None_iff Let_def update_fresh split: prod.splits pyattr.splits option.splits)

lemma registry_ok_append:
  assumes "registry_ok tm" "\<not> already_registered tm t" "name t = Str n"
    "tools tm' = tools tm @ [(n, t)]"
  shows "registry_ok tm'"
  using assms
  by (auto simp: registry_ok_def already_registered_def tool_exists_def map_of_None_iff)

text \<open>
  C9 (as amended). Let the registration event be delivered (the manager has no event
  bus, as the loader builds it, or the payload is built and no subscriber raises), and
  let the tool's example be settled (absent, or a non-empty string). Then
  \<open>register_tool\<close> raises exactly when the name is already registered or the name, the
  description or the example is missing. For missing metadata it raises \<open>ValueError\<close>
  with the message \<open>[ToolManager] Invalid tool metadata: \<close> followed by the tool's
  text, or, where the tool has no \<open>name\<close> or no \<open>description\<close> attribute at all, the
  \<open>AttributeError\<close> of reading it; for a complete tool whose name is taken it raises
  \<open>ValueError\<close> with the message \<open>Tool '<name>' is already registered.\<close> After a
  failure the registry and the subscribers' world are as they were. After a success the
  registry is well formed (names unique, each tool under its own name) and holds the
  new tool.
\<close>

theorem register_tool_fails_exactly_when:
  assumes "event_delivered lib tm t w" and "example_settled t"
  shows "((fst (register_tool lib tm t w) \<noteq> None) = (missing_metadata t \<or> already_registered tm t))
       \<and> (missing_metadata t \<longrightarrow>
            fst (register_tool lib tm t w) =
              Some (case unreadable t of
                      Some a \<Rightarrow> AttributeError a
                    | None \<Rightarrow> ValueError (''[ToolManager] Invalid tool metadata: '' @ tool_str t)))
       \<and> (\<not> missing_metadata t \<and> already_registered tm t \<longrightarrow>
            fst (register_tool lib tm t w) =
              Some (ValueError (''Tool '' @ apos @ registered_name t @ apos @ '' is already registered.'')))
       \<and> (fst (register_tool lib tm t w) \<noteq> None \<longrightarrow>
            fst (snd (register_tool lib tm t w)) = tm \<and> snd (snd (register_tool lib tm t w)) = w)
       \<and> (fst (register_tool lib tm t w) = None \<and> registry_ok tm \<longrightarrow>
            registry_ok (fst (snd (register_tool lib tm t w)))
            \<and> get_tool_by_name (fst (snd (register_tool lib tm t w))) (registered_name t) = Some t)"
proof -
  have iff: "(fst (register_tool lib tm t w) \<noteq> None) = (missing_metadata t \<or> already_registered tm t)"
    using assms by (rule register_fails_iff)
  have missing: "missing_metadata t \<longrightarrow>
            fst (register_tool lib tm t w) =
              Some (case unreadable t of
                      Some a \<Rightarrow> AttributeError a
                    | None \<Rightarrow> ValueError (''[ToolManager] Invalid tool metadata: '' @ tool_str t))"
    using register_missing_kind[OF _ assms(2), of lib tm w] by simp
  have duplicate: "\<not> missing_metadata t \<and> already_registered tm t \<longrightarrow>
            fst (register_tool lib tm t w) =
              Some (ValueError (''Tool '' @ apos @ registered_name t @ apos @ '' is already registered.''))"
    using register_duplicate_kind[of t tm lib w] by simp
  have unchanged: "fst (register_tool lib tm t w) \<noteq> None \<longrightarrow>
            fst (snd (register_tool lib tm t w)) = tm \<and> snd (snd (register_tool lib tm t w)) = w"
  proof
    assume "fst (register_tool lib tm t w) \<noteq> None"
    with iff have "missing_metadata t \<or> already_registered tm t" by simp
    then show "fst (snd (register_tool lib tm t w)) = tm \<and> snd (snd (register_tool lib tm t w)) = w"
      using register_missing_kind[OF _ assms(2), of lib tm w] register_duplicate_kind[of t tm lib w]
      by (cases "missing_metadata t") auto
  qed
  have ok: "registry_ok (fst (snd (register_tool lib tm t w)))
            \<and> get_tool_by_name (fst (snd (register_tool lib tm t w))) (registered_name t) = Some t"
    if s: "fst (register_tool lib tm t w) = None" and r: "registry_ok tm"
  proof -
    from s iff have nm: "\<not> missing_metadata t" and nr: "\<not> already_registered tm t" by auto
    from nm obtain n where n: "name t = Str n"
      by (cases "name t") (auto simp: missing_metadata_def)
    have tl: "tools (fst (snd (register_tool lib tm t w))) = tools tm @ [(n, t)]"
      using nm nr n by (rule register_tools_after)
    have fresh: "map_of (tools tm) n = None"
      using nr n by (simp add: already_registered_def tool_exists_def)
    show ?thesis
      using registry_ok_append[OF r nr n tl] tl n fresh
      by (simp add: get_tool_by_name_def map_add_def registered_name_def)
  qed
  from ok have ok': "fst (register_tool lib tm t w) = None \<and> registry_ok tm \<longrightarrow>
            registry_ok (fst (snd (register_tool lib tm t w)))
            \<and> get_tool_by_name (fst (snd (register_tool lib tm t w))) (registered_name t) = Some t"
    by simp
  show ?thesis by (intro conjI iff missing duplicate unchanged ok')
qed

lemma calc_ok: "\<not> missing_metadata calc_tool"
  by (simp add: missing_metadata_def calc_tool_def)

lemma calc_settled: "example_settled calc_tool"
  by (simp add: example_settled_def calc_tool_def)

theorem register_tool_fails_exactly_when_witness:
  "fst (register_tool demo_lib (new_tool_manager None) calc_tool ([]::string list)) = None
   \<and> registry_ok (fst (snd (register_tool demo_lib (new_tool_manager None) calc_tool ([]::string list))))
   \<and> get_tool_by_name (fst (snd (register_tool demo_lib (new_tool_manager None) calc_tool ([]::string list))))
         ''calculator'' = Some calc_tool
   \<and> fst (register_tool demo_lib
           (fst (snd (register_tool demo_lib (new_tool_manager None) calc_tool ([]::string list))))
           calc_tool []) =
       Some (ValueError (''Tool '' @ apos @ ''calculator'' @ apos @ '' is already registered.''))
   \<and> fst (register_tool demo_lib (new_tool_manager None) (calc_tool\<lparr>description := Str []\<rparr>)
           ([]::string list)) =
       Some (ValueError ''[ToolManager] Invalid tool metadata: <CalculatorTool object>'')
   \<and> fst (register_tool demo_lib (new_tool_manager None) (calc_tool\<lparr>name := NoAttr\<rparr>)
           ([]::string list)) = Some (AttributeError ''name'')"
proof -
  let ?tm0 = "new_tool_manager None :: string list tool_manager"
  let ?tm1 = "fst (snd (register_tool demo_lib ?tm0 calc_tool []))"
  have d0: "event_delivered demo_lib ?tm0 t []" for t
    by (simp add: event_delivered_def new_tool_manager_def)
  have fresh: "\<not> already_registered ?tm0 calc_tool"
    by (simp add: already_registered_def calc_tool_def tool_exists_def new_tool_manager_def)
  have r0: "registry_ok ?tm0"
    by (simp add: registry_ok_def new_tool_manager_def)
  have n: "registered_name calc_tool = ''calculator''"
    by (simp add: registered_name_def calc_tool_def)
  note t0 = register_tool_fails_exactly_when[OF d0 calc_settled]
  from t0 calc_ok fresh have s0: "fst (register_tool demo_lib ?tm0 calc_tool []) = None"
    by blast
  with t0 r0 have ok1: "registry_ok ?tm1 \<and> get_tool_by_name ?tm1 ''calculator'' = Some calc_tool"
    by (simp add: n)
  have bus1: "tm_bus ?tm1 = None"
    by (simp add: register_tool_def calc_tool_def new_tool_manager_def)
  then have d1: "event_delivered demo_lib ?tm1 calc_tool []"
    by (simp add: event_delivered_def)
  have dup: "already_registered ?tm1 calc_tool"
    using ok1 by (simp add: already_registered_def calc_tool_def tool_exists_def get_tool_by_name_def)
  with register_tool_fails_exactly_when[OF d1 calc_settled] calc_ok
  have s1: "fst (register_tool demo_lib ?tm1 calc_tool []) =
       Some (ValueError (''Tool '' @ apos @ ''calculator'' @ apos @ '' is already registered.''))"
    by (simp add: n)
  have "example_settled (calc_tool\<lparr>description := Str []\<rparr>)"
    using calc_settled by (simp add: example_settled_def)
  from register_tool_fails_exactly_when[OF d0 this]
  have s2: "fst (register_tool demo_lib ?tm0 (calc_tool\<lparr>description := Str []\<rparr>) []) =
       Some (ValueError ''[ToolManager] Invalid tool metadata: <CalculatorTool object>'')"
    by (simp add: missing_metadata_def unreadable_def calc_tool_def)
  have "example_settled (calc_tool\<lparr>name := NoAttr\<rparr>)"
    using calc_settled by (simp add: example_settled_def)
  from register_tool_fails_exactly_when[OF d0 this]
  have s3: "fst (register_tool demo_lib ?tm0 (calc_tool\<lparr>name := NoAttr\<rparr>) []) =
       Some (AttributeError ''name'')"
    by (simp add: missing_metadata_def unreadable_def calc_tool_def)
  from s0 ok1 s1 s2 s3 show ?thesis by simp
qed

text \<open>C9, as stated, fails in two ways. With an event bus whose subscriber to
  \<open>on_tool_registered\<close> raises, registering a complete, new tool raises although neither
  condition holds, and the tool is in the registry afterwards. And a tool whose example
  is \<open>None\<close> is registered although its example is missing.\<close>

theorem register_tool_raises_after_storing:
  "\<not> missing_metadata search_tool
   \<and> \<not> already_registered (new_tool_manager (Some boom_bus)) search_tool
   \<and> fst (register_tool demo_lib (new_tool_manager (Some boom_bus)) search_tool []) = Some (Raised ''boom'')
   \<and> map fst (tools (fst (snd (register_tool demo_lib (new_tool_manager (Some boom_bus)) search_tool []))))
        = [''search'']
   \<and> tools (new_tool_manager (Some boom_bus)) = []
   \<and> missing_metadata (calc_tool\<lparr>example_usage := PyNone\<rparr>)
   \<and> fst (register_tool demo_lib (new_tool_manager None) (calc_tool\<lparr>example_usage := PyNone\<rparr>)
           ([]::string list)) = None"
  by (simp add: missing_metadata_def already_registered_def tool_exists_def search_tool_def
      calc_tool_def new_tool_manager_def register_tool_def boom_bus_def subscribe_def new_bus_def
      emit_def raising_cb_def null_json_def)

section \<open>Properties of the inferred schema\<close>

text \<open>Whether an instance is valid does not depend on the library's choice among
  errors; and the error raised is one of those found.\<close>

lemma candidates_nonempty:
  assumes "errs \<noteq> []"
  shows "candidates errs \<noteq> []"
proof -
  let ?depths = "(\<lambda>e. length (fst e)) ` set errs"
  from assms have fin: "finite ?depths" and ne: "?depths \<noteq> {}" by auto
  from Min_in[OF fin ne] obtain e where e: "e \<in> set errs" and m: "length (fst e) = Min ?depths"
    by auto
  have "length (fst e) \<le> length (fst e')" if "e' \<in> set errs" for e'
    using that fin m by (simp add: Min_le)
  then have "list_all (\<lambda>e'. length (fst e) \<le> length (fst e')) errs"
    by (simp add: list_all_iff)
  with e have "e \<in> set (candidates errs)" by (simp add: candidates_def)
  then show ?thesis by auto
qed

lemma candidates_subset: "set (candidates errs) \<subseteq> set errs"
  by (auto simp: candidates_def)

lemma best_match_None_iff: "(best_match lib instance schema errs = None) = (errs = [])"
proof (cases "errs = []")
  case True
  then show ?thesis by (simp add: best_match_def candidates_def)
next
  case False
  from candidates_nonempty[OF this] obtain c cs where "candidates errs = c # cs"
    by (cases "candidates errs") auto
  with False show ?thesis by (simp add: best_match_def)
qed

lemma best_match_found:
  assumes "best_match lib instance schema errs = Some e"
  shows "e \<in> snd ` set errs"
proof (cases "candidates errs")
  case Nil
  with assms show ?thesis by (simp add: best_match_def)
next
  case (Cons c cs)
  let ?i = "tie_break lib instance schema (c # cs) mod length (c # cs)"
  have "?i < length (c # cs)" by simp
  then have "(c # cs) ! ?i \<in> set (c # cs)" by (rule nth_mem)
  moreover have "c \<in> set (c # cs)" by simp
  ultimately have "e \<in> snd ` set (c # cs)"
    using assms Cons by (auto simp: best_match_def split: if_splits)
  with Cons candidates_subset[of errs] show ?thesis by auto
qed

lemma type_ok_infer_type: "v \<noteq> JNull \<Longrightarrow> type_ok (infer_type v) v"
  by (cases v) auto

lemma required_errors_keys:
  "set ks \<subseteq> set (dict_keys d) \<Longrightarrow> required_errors (JArr (map JStr ks)) (JObj d) = []"
  by (induction ks) (auto simp: dict_has_def dict_keys_def map_of_eq_None_iff)

lemma property_errors_example:
  assumes "wf_dict d" "set ps \<subseteq> set d" "list_all (\<lambda>(k, v). v \<noteq> JNull) ps"
  shows "concat (map (\<lambda>(p, sub). case dict_get d p of
            Some v \<Rightarrow> map (\<lambda>(path, e). (p # path, e)) (schema_errors sub v)
          | None \<Rightarrow> [])
          (map (\<lambda>(k, v). (k, JObj [(''type'', JStr (infer_type v))])) ps)) = []"
  using assms
proof (induction ps)
  case Nil
  then show ?case by simp
next
  case (Cons kv ps)
  obtain k v where kv: "kv = (k, v)" by (cases kv)
  from Cons.prems kv have "(k, v) \<in> set d" and nn: "v \<noteq> JNull" by auto
  with Cons.prems(1) have "dict_get d k = Some v"
    by (simp add: dict_get_def wf_dict_def)
  moreover from nn have "schema_errors (JObj [(''type'', JStr (infer_type v))]) v = []"
    by (simp add: type_errors_def type_ok_infer_type)
  moreover from Cons have "concat (map (\<lambda>(p, sub). case dict_get d p of
            Some v \<Rightarrow> map (\<lambda>(path, e). (p # path, e)) (schema_errors sub v)
          | None \<Rightarrow> [])
          (map (\<lambda>(k, v). (k, JObj [(''type'', JStr (infer_type v))])) ps)) = []"
    by simp
  ultimately show ?case using kv by simp
qed

lemma schema_errors_own_example:
  assumes "wf_dict example" "list_all (\<lambda>(k, v). v \<noteq> JNull) example"
  shows "schema_errors (schema_of_example example) (JObj example) = []"
proof -
  have "required_errors (JArr (map JStr (dict_keys example))) (JObj example) = []"
    by (rule required_errors_keys) simp
  moreover note property_errors_example[OF assms(1) subset_refl assms(2)]
  ultimately show ?thesis
    by (simp add: schema_of_example_def type_errors_def)
qed

lemma effective_schema_of_example:
  "effective_schema (schema_of_example example) = schema_of_example example"
  by (simp add: effective_schema_def schema_of_example_def dict_has_def)

text \<open>
  C6 (as amended). For a registered tool whose example text parses to an object none of
  whose values is \<open>null\<close>, validating that object as the tool's input succeeds. The
  schema it is validated against is the one inferred from the example: its required
  fields are the example's keys, and each property's type is inferred from the example's
  value (boolean, integer, number, object, array, else string).
\<close>

theorem own_example_validates:
  assumes "get_tool_by_name tm tool_name = Some t"
    and "example_usage t = Str usage"
    and "loads lib (strip (replace usage ''Example:'' [])) = Inr (JObj example)"
    and "wf_dict example"
    and "list_all (\<lambda>(k, v). v \<noteq> JNull) example"
  shows "validate_input lib tm tool_name example = (True, [])
       \<and> example_schema lib t =
           JObj [(''type'', JStr ''object''),
                 (''required'', JArr (map JStr (dict_keys example))),
                 (''properties'',
                    JObj (map (\<lambda>(k, v). (k, JObj [(''type'', JStr (infer_type v))])) example))]"
proof -
  have sch: "example_schema lib t = schema_of_example example"
    using assms(2,3) by (simp add: example_schema_def)
  have "jsonschema_validate lib (JObj example) (effective_schema (example_schema lib t)) = None"
    using schema_errors_own_example[OF assms(4,5)]
    by (simp add: sch effective_schema_of_example jsonschema_validate_def best_match_def
        candidates_def)
  then have "validate_input lib tm tool_name example = (True, [])"
    using assms(1) by (simp add: validate_input_def)
  then show ?thesis using sch by (simp add: schema_of_example_def)
qed

lemma calc_example_parses:
  "loads demo_lib (strip (replace (''Example: '' @ calc_json) ''Example:'' [])) =
     Inr (JObj [(''expression'', JStr ''2+2'')])"
  by (simp add: demo_lib_def demo_loads_def calc_json_def null_json_def dquote_def replace_def
      strip_def is_space_def)

lemma null_example_parses:
  "loads demo_lib (strip (replace null_json ''Example:'' [])) = Inr (JObj [(''query'', JNull)])"
  by (simp add: demo_lib_def demo_loads_def calc_json_def null_json_def dquote_def replace_def
      strip_def is_space_def)

theorem own_example_validates_witness:
  "validate_input demo_lib demo_registry ''calculator'' [(''expression'', JStr ''2+2'')] = (True, [])
   \<and> example_schema demo_lib calc_tool =
       JObj [(''type'', JStr ''object''),
             (''required'', JArr [JStr ''expression'']),
             (''properties'', JObj [(''expression'', JObj [(''type'', JStr ''string'')])])]"
proof -
  have "get_tool_by_name demo_registry ''calculator'' = Some calc_tool"
    by (simp add: get_tool_by_name_def demo_registry_def)
  moreover have "example_usage calc_tool = Str (''Example: '' @ calc_json)"
    by (simp add: calc_tool_def)
  moreover have "wf_dict [(''expression'', JStr ''2+2'')]"
    by (simp add: wf_dict_def)
  moreover have "list_all (\<lambda>(k, v). v \<noteq> JNull) [(''expression'', JStr ''2+2'')]"
    by simp
  ultimately show ?thesis
    using own_example_validates[OF _ _ calc_example_parses, of demo_registry "''calculator''"]
    by (simp add: dict_keys_def)
qed

text \<open>C6, as stated, fails for an example with a \<open>null\<close> value: the type inferred
  for \<open>null\<close> is \<open>string\<close>, and \<open>null\<close> is not a string.\<close>

theorem null_example_fails_validation:
  "get_tool_by_name demo_registry ''search'' = Some search_tool
   \<and> example_usage search_tool = Str null_json
   \<and> loads demo_lib (strip (replace null_json ''Example:'' [])) = Inr (JObj [(''query'', JNull)])
   \<and> example_schema demo_lib search_tool =
       JObj [(''type'', JStr ''object''),
             (''required'', JArr [JStr ''query'']),
             (''properties'', JObj [(''query'', JObj [(''type'', JStr ''string'')])])]
   \<and> validate_input demo_lib demo_registry ''search'' [(''query'', JNull)] =
       (False, ''None is not of type '' @ apos @ ''string'' @ apos)"
proof -
  have g: "get_tool_by_name demo_registry ''search'' = Some search_tool"
    by (simp add: get_tool_by_name_def demo_registry_def calc_tool_def search_tool_def)
  have u: "example_usage search_tool = Str null_json"
    by (simp add: search_tool_def)
  have sch: "example_schema demo_lib search_tool = schema_of_example [(''query'', JNull)]"
    using null_example_parses by (simp add: example_schema_def u)
  have ve: "jsonschema_validate demo_lib (JObj [(''query'', JNull)])
              (effective_schema (schema_of_example [(''query'', JNull)])) =
            Some (NotOfType JNull [''string''])"
    unfolding effective_schema_of_example
    by (simp add: jsonschema_validate_def
        schema_of_example_def dict_keys_def dict_has_def dict_get_def type_errors_def
        best_match_def candidates_def)
  have "validate_input demo_lib demo_registry ''search'' [(''query'', JNull)] =
       (False, ''None is not of type '' @ apos @ ''string'' @ apos)"
    by (simp add: validate_input_def g sch ve del: verror_message.simps) (simp add: demo_lib_def)
  with g u sch null_example_parses show ?thesis
    by (simp add: schema_of_example_def dict_keys_def)
qed

section \<open>Properties of the reasoner\<close>

lemma andthen_ret [simp]: "andthen (ret a) f s = f a s"
  by (simp add: andthen_def ret_def)

lemma andthen_raise [simp]: "andthen (raise e) f s = (Inl e, s)"
  by (simp add: andthen_def raise_def)

lemma andthen_Inr:
  "fst (andthen m f s) = Inr x \<Longrightarrow> \<exists>a s'. m s = (Inr a, s') \<and> fst (f a s') = Inr x"
  by (cases "m s") (auto simp: andthen_def split: sum.splits)

lemma andthen_InrE:
  assumes "andthen m f s = (Inr x, t)"
  obtains a s' where "m s = (Inr a, s')" and "f a s' = (Inr x, t)"
  using assms by (cases "m s") (auto simp: andthen_def split: sum.splits)

lemma andthen_cases:
  "(\<exists>e s'. m s = (Inl e, s') \<and> andthen m f s = (Inl e, s'))
   \<or> (\<exists>a s'. m s = (Inr a, s') \<and> andthen m f s = f a s')"
  by (cases "m s") (auto simp: andthen_def split: sum.splits)

lemma chat_fallback [simp]: "is_chat_reply (fallback_response input)"
  by (simp add: is_chat_reply_def fallback_response_def dict_get_def dict_has_def)

lemma chat_error_fallback [simp]: "is_chat_reply (error_fallback input e)"
  by (simp add: is_chat_reply_def error_fallback_def fallback_response_def dict_get_def
      dict_has_def dict_set_def)

lemma chat_rephrased [simp]: "is_chat_reply (rephrased_envelope err s)"
  by (simp add: is_chat_reply_def rephrased_envelope_def dict_get_def dict_has_def)

lemma chat_raw [simp]: "is_chat_reply (raw_envelope err e s)"
  by (simp add: is_chat_reply_def raw_envelope_def dict_get_def dict_has_def)

lemma chat_reply_tool_name: "is_chat_reply envelope \<Longrightarrow> envelope_tool_name envelope = JStr ''chat''"
  by (auto simp: is_chat_reply_def envelope_tool_name_def split: json.splits)

lemma reprompt_result:
  "reprompt R lib bus input response_str err rs = (Inr envelope, rs') \<Longrightarrow> is_chat_reply envelope"
  unfolding reprompt_def
  by (auto simp: ret_def elim!: andthen_InrE split: prod.splits sum.splits)

text \<open>An envelope that the parsing step returns is a chat reply, or it is what the
  answer parsed to, after both checks.\<close>

lemma parse_response_result:
  assumes "parse_response R lib bus available_tools input response_str rs = (Inr envelope, rs')"
  shows "is_chat_reply envelope
         \<or> (loads lib (strip response_str) = Inr envelope
            \<and> jsonschema_validate lib envelope LLM_RESPONSE_SCHEMA = None
            \<and> validate_reasoning_result envelope available_tools)"
proof (cases "loads lib (strip response_str)")
  case (Inl e)
  with assms have "reprompt R lib bus input response_str (exn_str e) rs = (Inr envelope, rs')"
    by (cases "is_json_decode_error e") (simp_all add: parse_response_def raise_def)
  then show ?thesis using reprompt_result by blast
next
  case (Inr parsed)
  show ?thesis
  proof (cases "jsonschema_validate lib parsed LLM_RESPONSE_SCHEMA")
    case (Some e)
    with Inr assms have
      "reprompt R lib bus input response_str (validation_error_str lib (verror_message lib e)) rs
         = (Inr envelope, rs')"
      by (simp add: parse_response_def)
    then show ?thesis using reprompt_result by blast
  next
    case None
    show ?thesis
    proof (cases "validate_reasoning_result parsed available_tools")
      case False
      with Inr None assms have "envelope = fallback_response input"
        by (simp add: parse_response_def ret_def)
      then show ?thesis by simp
    next
      case True
      with Inr None assms have
        "andthen (debug_emit R bus ''on_thought'' parsed) (\<lambda>_. ret parsed) rs = (Inr envelope, rs')"
        by (simp add: parse_response_def)
      then have "envelope = parsed"
        by (auto simp: ret_def elim!: andthen_InrE)
      with Inr None True show ?thesis by simp
    qed
  qed
qed

lemma think_body_ask:
  "think_body R lib (Some manager) bus input rs =
     andthen (ask R lib manager bus input) (\<lambda>(response_str, transcript).
       andthen (save_rs ''llm_transcript'' (JStr (join nl transcript)) []) (\<lambda>_.
       andthen (emit_rs bus ''on_llm_response''
                  (if debug_mode R then JObj [(''response'', JStr response_str)]
                   else JObj [(''input'', JStr input),
                              (''prompt'', JStr (main_prompt R (get_all_tools manager) (mem rs) input)),
                              (''raw_response'', JStr response_str),
                              (''transcript'', JArr (map JStr transcript))])) (\<lambda>_.
       parse_response R lib bus (get_all_tools manager) input response_str))) rs"
  by (simp add: think_body_def ask_def Let_def andthen_def split: prod.splits sum.splits)

lemma think_body_answered:
  assumes "think_body R lib tm bus input rs = (Inr envelope, rs')"
  shows "is_chat_reply envelope \<or> answered_well R lib tm bus input rs envelope"
proof (cases tm)
  case None
  with assms show ?thesis by (simp add: think_body_def raise_def)
next
  case (Some manager)
  from assms[unfolded Some think_body_ask] obtain answered rs1 where
    a: "ask R lib manager bus input rs = (Inr answered, rs1)"
    and rest: "(case answered of (response_str, transcript) \<Rightarrow>
       andthen (save_rs ''llm_transcript'' (JStr (join nl transcript)) []) (\<lambda>_.
       andthen (emit_rs bus ''on_llm_response''
                  (if debug_mode R then JObj [(''response'', JStr response_str)]
                   else JObj [(''input'', JStr input),
                              (''prompt'', JStr (main_prompt R (get_all_tools manager) (mem rs) input)),
                              (''raw_response'', JStr response_str),
                              (''transcript'', JArr (map JStr transcript))])) (\<lambda>_.
       parse_response R lib bus (get_all_tools manager) input response_str))) rs1 = (Inr envelope, rs')"
    by (rule andthen_InrE)
  obtain response_str transcript where an: "answered = (response_str, transcript)"
    by (cases answered)
  from rest[unfolded an] obtain rs3 where
    "parse_response R lib bus (get_all_tools manager) input response_str rs3 = (Inr envelope, rs')"
    by (auto elim!: andthen_InrE)
  from parse_response_result[OF this] a an Some show ?thesis
    by (auto simp: answered_well_def)
qed

lemma answered_well_accepted:
  "answered_well R lib tm bus input rs envelope \<Longrightarrow> accepted lib tm envelope"
  by (auto simp: answered_well_def accepted_def split: option.splits sum.splits prod.splits)

lemma think_result:
  assumes "think R lib tm bus input rs = (Inr envelope, rs')"
  shows "is_chat_reply envelope \<or> answered_well R lib tm bus input rs envelope"
proof (cases "think_body R lib tm bus input rs")
  case (Pair r rs1)
  show ?thesis
  proof (cases r)
    case (Inr body_envelope)
    with Pair assms have "envelope = body_envelope" by (simp add: think_def)
    with Pair Inr think_body_answered show ?thesis by blast
  next
    case (Inl e)
    with Pair assms have
      "andthen (debug_emit R bus ''on_thought'' (error_fallback input e)) (\<lambda>_.
         ret (error_fallback input e)) rs1 = (Inr envelope, rs')"
      by (simp add: think_def)
    then have "envelope = error_fallback input e"
      by (auto simp: ret_def elim!: andthen_InrE)
    then show ?thesis by simp
  qed
qed

lemma registry_ok_demo: "registry_ok demo_registry"
  by (simp add: registry_ok_def demo_registry_def calc_tool_def search_tool_def)

lemma registry_names:
  assumes "registry_ok tm" "v \<in> set (map (\<lambda>t. attr_json (name t)) (get_all_tools tm))"
  shows "names_tool tm v"
proof -
  from assms(2) obtain k t where kt: "(k, t) \<in> set (tools tm)" and v: "v = attr_json (name t)"
    by (auto simp: get_all_tools_def)
  from assms(1) kt have "name t = Str k"
    by (auto simp: registry_ok_def list_all_iff)
  moreover from kt have "map_of (tools tm) k \<noteq> None"
    by (simp add: map_of_eq_None_iff) force
  ultimately show ?thesis using v by (simp add: names_tool_def tool_exists_def)
qed

lemma names_registry:
  assumes "registry_ok tm" "names_tool tm v"
  shows "v \<in> set (map (\<lambda>t. attr_json (name t)) (get_all_tools tm))"
proof -
  from assms(2) obtain n t where v: "v = JStr n" and m: "map_of (tools tm) n = Some t"
    by (auto simp: names_tool_def tool_exists_def split: json.splits)
  from m have kt: "(n, t) \<in> set (tools tm)" by (rule map_of_SomeD)
  with assms(1) have "name t = Str n" by (auto simp: registry_ok_def list_all_iff)
  with kt v show ?thesis by (force simp: get_all_tools_def)
qed

lemma accepted_names_tool:
  assumes "registry_ok tm" "accepted lib (Some tm) envelope"
  shows "names_tool tm (envelope_tool_name envelope)"
  using assms
  by (auto simp: accepted_def validate_reasoning_result_def envelope_tool_name_def
      intro: registry_names split: json.splits option.splits)

lemma rejected_not_validated:
  assumes "registry_ok tm" "\<not> names_tool tm (envelope_tool_name parsed)"
  shows "\<not> validate_reasoning_result parsed (get_all_tools tm)"
proof
  assume v: "validate_reasoning_result parsed (get_all_tools tm)"
  then have "envelope_tool_name parsed \<in> set (map (\<lambda>t. attr_json (name t)) (get_all_tools tm))"
    by (auto simp: validate_reasoning_result_def envelope_tool_name_def
        split: json.splits option.splits)
  with assms show False using registry_names by blast
qed

text \<open>
  C1. With a catalog whose names are those of its tools, every envelope that \<open>think\<close>
  returns names \<open>chat\<close> or a registered tool. A first answer that parses and fits the
  envelope schema but names no registered tool is rejected: the parsing step returns the
  fallback chat envelope in its place, and nothing else happens.
\<close>

theorem think_names_chat_or_registered_tool:
  assumes "registry_ok tm"
  shows "(think R lib (Some tm) bus input rs = (Inr envelope, rs') \<longrightarrow>
            envelope_tool_name envelope = JStr ''chat''
            \<or> names_tool tm (envelope_tool_name envelope))
       \<and> (loads lib (strip response_str) = Inr parsed
            \<and> jsonschema_validate lib parsed LLM_RESPONSE_SCHEMA = None
            \<and> \<not> names_tool tm (envelope_tool_name parsed) \<longrightarrow>
          parse_response R lib bus (get_all_tools tm) input response_str rs
            = (Inr (fallback_response input), rs))"
proof (intro conjI impI)
  assume "think R lib (Some tm) bus input rs = (Inr envelope, rs')"
  then have "is_chat_reply envelope \<or> accepted lib (Some tm) envelope"
    using think_result answered_well_accepted by blast
  then show "envelope_tool_name envelope = JStr ''chat''
            \<or> names_tool tm (envelope_tool_name envelope)"
    using accepted_names_tool[OF assms] chat_reply_tool_name by blast
next
  assume h: "loads lib (strip response_str) = Inr parsed
            \<and> jsonschema_validate lib parsed LLM_RESPONSE_SCHEMA = None
            \<and> \<not> names_tool tm (envelope_tool_name parsed)"
  then have "\<not> validate_reasoning_result parsed (get_all_tools tm)"
    using rejected_not_validated[OF assms] by blast
  with h show "parse_response R lib bus (get_all_tools tm) input response_str rs
            = (Inr (fallback_response input), rs)"
    by (simp add: parse_response_def ret_def)
qed

lemma debug_emit_safe:
  assumes "thought_safe R bus"
  shows "\<exists>rs'. debug_emit R bus ''on_thought'' d rs = (Inr (), rs')"
proof (cases "debug_mode R")
  case False
  then show ?thesis by (simp add: debug_emit_def ret_def)
next
  case True
  show ?thesis
  proof (cases bus)
    case None
    with True show ?thesis by (simp add: debug_emit_def emit_rs_def)
  next
    case (Some b)
    with True assms have "fst (emit b ''on_thought'' d (subs rs)) = None"
      by (simp add: thought_safe_def)
    with True Some show ?thesis
      by (cases "emit b ''on_thought'' d (subs rs)") (simp add: debug_emit_def emit_rs_def)
  qed
qed

text \<open>
  C4 (as amended). When debug mode is off, or there is no bus, or no subscriber to
  \<open>on_thought\<close> raises, \<open>think\<close> raises nothing, whatever the input, the memory, the
  catalog and the backend do: it returns an envelope. That envelope is a chat reply
  (tool name \<open>chat\<close>, a \<open>response\<close> in its tool input) in every case but structured
  success, where it is the first answer of the backend, parsed, fitting the envelope
  schema and naming a tool of the catalog. So whenever there is no catalog, the backend
  gives no answer within the retry ceiling, the answer does not parse or does not fit
  the schema, or it names no tool of the catalog, and whenever anything else raises
  inside, the caller gets a chat reply.
\<close>

theorem think_never_raises:
  assumes "thought_safe R bus"
  shows "\<exists>envelope rs'. think R lib tm bus input rs = (Inr envelope, rs')
           \<and> (is_chat_reply envelope \<or> answered_well R lib tm bus input rs envelope)"
proof (cases "think_body R lib tm bus input rs")
  case (Pair r rs1)
  show ?thesis
  proof (cases r)
    case (Inr envelope)
    with Pair have t: "think R lib tm bus input rs = (Inr envelope, rs1)"
      by (simp add: think_def)
    with think_result[OF t] show ?thesis by blast
  next
    case (Inl e)
    from debug_emit_safe[OF assms] obtain rs2
      where "debug_emit R bus ''on_thought'' (error_fallback input e) rs1 = (Inr (), rs2)"
      by blast
    with Pair Inl have "think R lib tm bus input rs = (Inr (error_fallback input e), rs2)"
      by (simp add: think_def andthen_def ret_def)
    then show ?thesis by (metis chat_error_fallback)
  qed
qed

lemma try_attempts_first_ok:
  "0 < n \<Longrightarrow> be (length reqs) prompt = resp \<Longrightarrow> call_llm_stream lib resp cb c = (Inr text, c')
   \<Longrightarrow> try_attempts lib be prompt cb n last_error (reqs, c) = (Inr text, reqs @ [prompt], c')"
  by (cases n) auto

lemma try_attempts_connect_failed:
  "(\<And>m p. be m p = ConnectFailed e) \<Longrightarrow>
   try_attempts lib be prompt cb n last_error (reqs, c) =
     (Inl (if n = 0 then last_error else Some e), reqs @ replicate n prompt, c)"
proof (induction n arbitrary: last_error reqs)
  case 0
  then show ?case by simp
next
  case (Suc n)
  then show ?case
    by (simp add: call_llm_stream_def replicate_app_Cons_same)
qed

lemma calc_stream:
  "call_llm_stream stub_lib (Response 200 [''chunk 1''] None) (Some (stream_callback None)) ([], s)
     = (Inr calc_envelope_text, [calc_envelope_text], s)"
  by (simp add: call_llm_stream_def chunk_step_def stub_lib_def stub_loads_def strip_def
      is_space_def dict_get_def calc_envelope_text_def q_def dquote_def stream_callback_def)

lemma calc_first_call:
  "first_call (stub_reasoner False calc_backend) stub_lib None p rs0 =
     (Inr (calc_envelope_text, [calc_envelope_text]), rs0\<lparr>requests := [p]\<rparr>)"
proof -
  have "try_attempts stub_lib calc_backend p (Some (stream_callback None)) 3 None
          ([], [], [] :: string list) = (Inr calc_envelope_text, [p], [calc_envelope_text], [])"
    using try_attempts_first_ok[where n = 3 and be = calc_backend and prompt = p and reqs = "[]"
        and resp = "Response 200 [''chunk 1''] None" and last_error = None, OF _ _ calc_stream]
    by (simp add: calc_backend_def)
  then show ?thesis
    by (simp add: first_call_def try_call_llm_def stub_reasoner_def rs0_def)
qed

lemma calc_parse:
  "parse_response (stub_reasoner False calc_backend) stub_lib None (get_all_tools demo_registry)
      input calc_envelope_text rs = (Inr calc_envelope, rs)"
proof -
  have l: "loads stub_lib (strip calc_envelope_text) = Inr calc_envelope"
    by (simp add: stub_lib_def stub_loads_def strip_def is_space_def calc_envelope_text_def
        q_def dquote_def)
  have v: "jsonschema_validate stub_lib calc_envelope LLM_RESPONSE_SCHEMA = None"
    by (simp add: jsonschema_validate_def LLM_RESPONSE_SCHEMA_def calc_envelope_def
        type_errors_def dict_has_def dict_get_def best_match_def candidates_def)
  have r: "validate_reasoning_result calc_envelope (get_all_tools demo_registry)"
    by (simp add: validate_reasoning_result_def calc_envelope_def dict_has_def dict_get_def
        get_all_tools_def demo_registry_def calc_tool_def search_tool_def)
  show ?thesis
    by (simp add: parse_response_def l v r debug_emit_def stub_reasoner_def ret_def)
qed

lemma calc_think:
  "fst (think (stub_reasoner False calc_backend) stub_lib (Some demo_registry) None ''What is 2+2?'' rs0)
     = Inr calc_envelope"
  by (simp add: think_def think_body_def Let_def debug_emit_def calc_first_call andthen_def
      save_rs_def emit_rs_def calc_parse ret_def)

theorem think_names_chat_or_registered_tool_witness:
  "fst (think (stub_reasoner False calc_backend) stub_lib (Some demo_registry) None ''What is 2+2?'' rs0)
     = Inr calc_envelope
   \<and> envelope_tool_name calc_envelope = JStr ''calculator''
   \<and> names_tool demo_registry (envelope_tool_name calc_envelope)"
proof -
  let ?t = "think (stub_reasoner False calc_backend) stub_lib (Some demo_registry) None ''What is 2+2?'' rs0"
  have "?t = (Inr calc_envelope, snd ?t)"
    using calc_think by (metis prod.collapse)
  with think_names_chat_or_registered_tool[OF registry_ok_demo]
  have "envelope_tool_name calc_envelope = JStr ''chat''
        \<or> names_tool demo_registry (envelope_tool_name calc_envelope)"
    by blast
  moreover have "envelope_tool_name calc_envelope = JStr ''calculator''"
    by (simp add: envelope_tool_name_def calc_envelope_def dict_get_def)
  ultimately show ?thesis using calc_think by simp
qed

lemma int_str_3: "int_str 3 = ''3''"
  by code_simp

lemma unreachable_first_call:
  "first_call (stub_reasoner dbg unreachable_backend) stub_lib bus p rs =
     (Inl (RuntimeError ''LLM failed after 3 retries: connection refused''),
      rs\<lparr>requests := requests rs @ [p, p, p]\<rparr>)"
proof -
  have "try_attempts stub_lib unreachable_backend p (Some (stream_callback bus)) 3 None
          (requests rs, [], subs rs) =
        (Inl (Some (Raised ''connection refused'')), requests rs @ replicate 3 p, [], subs rs)"
    using try_attempts_connect_failed[where be = unreachable_backend and n = 3
        and e = "Raised ''connection refused''"]
    by (simp add: unreachable_backend_def)
  then show ?thesis
    by (simp add: first_call_def try_call_llm_def stub_reasoner_def int_str_3 del: try_attempts.simps)
       (simp add: numeral_3_eq_3)
qed

lemma unreachable_think_body:
  "think_body (stub_reasoner dbg unreachable_backend) stub_lib (Some demo_registry)
      (Some thought_boom_bus) ''hi'' rs0 =
     (Inl (RuntimeError ''LLM failed after 3 retries: connection refused''),
      rs0\<lparr>requests := [''hi'', ''hi'', ''hi'']\<rparr>)"
proof -
  have e: "emit_rs (Some thought_boom_bus) ''on_llm_prompt'' d rs0 = (Inr (), rs0)" for d
    by (simp add: emit_rs_def emit_def thought_boom_bus_def subscribe_def new_bus_def rs0_def)
  have p: "main_prompt (stub_reasoner dbg unreachable_backend) a m ''hi'' = ''hi''" for a m
    by (simp add: main_prompt_def stub_reasoner_def)
  show ?thesis
    by (simp add: think_body_def Let_def p debug_emit_def e unreachable_first_call andthen_def
        ret_def)
       (simp add: rs0_def)
qed

theorem think_never_raises_witness:
  "think (stub_reasoner False unreachable_backend) stub_lib (Some demo_registry)
      (Some thought_boom_bus) ''hi'' rs0 =
     (Inr (error_fallback ''hi'' (RuntimeError ''LLM failed after 3 retries: connection refused'')),
      rs0\<lparr>requests := [''hi'', ''hi'', ''hi'']\<rparr>)
   \<and> is_chat_reply (error_fallback ''hi'' (RuntimeError ''LLM failed after 3 retries: connection refused''))"
proof -
  have "thought_safe (stub_reasoner False unreachable_backend) (Some thought_boom_bus)"
    by (simp add: thought_safe_def stub_reasoner_def)
  from think_never_raises[OF this, of stub_lib "Some demo_registry" "''hi''" rs0]
  have "\<exists>envelope rs'.
    think (stub_reasoner False unreachable_backend) stub_lib (Some demo_registry)
       (Some thought_boom_bus) ''hi'' rs0 = (Inr envelope, rs')"
    by blast
  moreover have "think (stub_reasoner False unreachable_backend) stub_lib (Some demo_registry)
      (Some thought_boom_bus) ''hi'' rs0 =
     (Inr (error_fallback ''hi'' (RuntimeError ''LLM failed after 3 retries: connection refused'')),
      rs0\<lparr>requests := [''hi'', ''hi'', ''hi'']\<rparr>)"
    by (simp add: think_def unreachable_think_body debug_emit_def)
       (simp add: stub_reasoner_def ret_def)
  ultimately show ?thesis by simp
qed

text \<open>C4, as stated, fails in debug mode: the handler of the outer \<open>try\<close> emits
  \<open>on_thought\<close> itself, and a subscriber that raises there makes \<open>think\<close> raise. Here
  the backend is unreachable; \<open>think\<close> raises after three requests.\<close>

theorem think_raises_in_debug_mode:
  "think (stub_reasoner True unreachable_backend) stub_lib (Some demo_registry)
      (Some thought_boom_bus) ''hi'' rs0 =
     (Inl (Raised ''boom''), rs0\<lparr>subs := [''t''], requests := [''hi'', ''hi'', ''hi'']\<rparr>)"
  by (simp add: think_def unreachable_think_body debug_emit_def)
     (simp add: stub_reasoner_def emit_rs_def emit_def thought_boom_bus_def subscribe_def
        new_bus_def raising_cb_def rs0_def andthen_def)

lemma chunk_step_text:
  "fst (chunk_step lib cb (full_text, line_buffer, c) chunk) = full_text @ chunk_token lib chunk"
  by (auto simp: chunk_step_def chunk_token_def split: sum.splits json.splits option.splits prod.splits)

lemma foldl_chunk_step_text:
  "fst (foldl (chunk_step lib cb) (full_text, line_buffer, c) chunks) = full_text @ stream_text lib chunks"
proof (induction chunks arbitrary: full_text line_buffer c)
  case Nil
  then show ?case by (simp add: stream_text_def)
next
  case (Cons chunk chunks)
  obtain f b c' where st: "chunk_step lib cb (full_text, line_buffer, c) chunk = (f, b, c')"
    by (cases "chunk_step lib cb (full_text, line_buffer, c) chunk") auto
  with chunk_step_text[of lib cb full_text line_buffer c chunk]
  have "f = full_text @ chunk_token lib chunk" by simp
  with Cons.IH[of f b c'] st show ?case by (simp add: stream_text_def)
qed

lemma call_llm_stream_no_callback:
  "\<exists>c'. call_llm_stream lib (Response 200 chunks None) None c = (Inr (stream_text lib chunks), c')"
proof -
  obtain f b c' where st: "foldl (chunk_step lib None) ([], [], c) chunks = (f, b, c')"
    by (cases "foldl (chunk_step lib None) ([], [], c) chunks") auto
  with foldl_chunk_step_text[of lib None "[]" "[]" c chunks] have "f = stream_text lib chunks"
    by simp
  with st show ?thesis by (simp add: call_llm_stream_def)
qed

lemma call_llm_stream_quiet_callback:
  assumes "\<And>line c. fst (cb line c) = None"
  shows "\<exists>c'. call_llm_stream lib (Response 200 chunks None) (Some cb) c = (Inr (stream_text lib chunks), c')"
proof -
  obtain f b c' where st: "foldl (chunk_step lib (Some cb)) ([], [], c) chunks = (f, b, c')"
    by (cases "foldl (chunk_step lib (Some cb)) ([], [], c) chunks") auto
  with foldl_chunk_step_text[of lib "Some cb" "[]" "[]" c chunks] have f: "f = stream_text lib chunks"
    by simp
  obtain c'' where "cb b c' = (None, c'')"
    using assms[of b c'] by (cases "cb b c'") auto
  with st f show ?thesis by (simp add: call_llm_stream_def)
qed

lemma never_raises_emit_rs:
  assumes "never_raises bus"
  shows "\<exists>s'. emit_rs bus n d rs = (Inr (), rs\<lparr>subs := s'\<rparr>)"
proof (cases bus)
  case None
  then have "emit_rs bus n d rs = (Inr (), rs\<lparr>subs := subs rs\<rparr>)" by (simp add: emit_rs_def)
  then show ?thesis by blast
next
  case (Some b)
  with assms have "fst (emit b n d (subs rs)) = None" by (simp add: never_raises_def)
  then obtain s' where "emit b n d (subs rs) = (None, s')"
    by (cases "emit b n d (subs rs)") auto
  with Some have "emit_rs bus n d rs = (Inr (), rs\<lparr>subs := s'\<rparr>)" by (simp add: emit_rs_def)
  then show ?thesis ..
qed

lemma never_raises_debug_emit:
  assumes "never_raises bus"
  shows "\<exists>s'. debug_emit R bus n d rs = (Inr (), rs\<lparr>subs := s'\<rparr>)"
proof (cases "debug_mode R")
  case True
  then show ?thesis using never_raises_emit_rs[OF assms] by (simp add: debug_emit_def)
next
  case False
  then have "debug_emit R bus n d rs = (Inr (), rs\<lparr>subs := subs rs\<rparr>)"
    by (simp add: debug_emit_def ret_def)
  then show ?thesis by blast
qed

lemma never_raises_stream_callback:
  assumes "never_raises bus"
  shows "fst (stream_callback bus line c) = None"
proof (cases bus)
  case None
  then show ?thesis by (cases c) (simp add: stream_callback_def)
next
  case (Some b)
  obtain transcript s where c: "c = (transcript, s)" by (cases c)
  from assms Some have "fst (emit b ''on_llm_stream_line'' (JObj [(''line'', JStr line)]) s) = None"
    by (simp add: never_raises_def)
  with Some c show ?thesis
    by (cases "emit b ''on_llm_stream_line'' (JObj [(''line'', JStr line)]) s")
       (simp add: stream_callback_def)
qed

lemma always_unparsable_backend:
  assumes "always_unparsable R lib"
  shows "\<exists>chunks. backend R n prompt = Response 200 chunks None
           \<and> unparsable lib (stream_text lib chunks)"
proof -
  from assms have "case backend R n prompt of
          Response status chunks broken \<Rightarrow>
            status = 200 \<and> broken = None \<and> unparsable lib (stream_text lib chunks)
        | ConnectFailed e \<Rightarrow> False"
    unfolding always_unparsable_def by blast
  then show ?thesis by (cases "backend R n prompt") auto
qed

lemma unparsable_first_call:
  assumes "0 < retries R" "never_raises bus" "always_unparsable R lib"
  shows "\<exists>transcript s'.
           first_call R lib bus prompt rs =
             (Inr (answer R lib (length (requests rs)) prompt, transcript),
              rs\<lparr>subs := s', requests := requests rs @ [prompt]\<rparr>)"
proof -
  from always_unparsable_backend[OF assms(3)] obtain chunks where
    b: "backend R (length (requests rs)) prompt = Response 200 chunks None"
    by blast
  then have a: "answer R lib (length (requests rs)) prompt = stream_text lib chunks"
    by (simp add: answer_def)
  from call_llm_stream_quiet_callback[of "stream_callback bus" lib chunks "([], subs rs)"]
    never_raises_stream_callback[OF assms(2)]
  obtain c' where
    "call_llm_stream lib (Response 200 chunks None) (Some (stream_callback bus)) ([], subs rs)
       = (Inr (stream_text lib chunks), c')"
    by blast
  with b assms(1) have
    "try_attempts lib (backend R) prompt (Some (stream_callback bus)) (nat (retries R)) None
       (requests rs, [], subs rs) = (Inr (stream_text lib chunks), requests rs @ [prompt], c')"
    by (intro try_attempts_first_ok) auto
  then have "first_call R lib bus prompt rs =
             (Inr (answer R lib (length (requests rs)) prompt, fst c'),
              rs\<lparr>subs := snd c', requests := requests rs @ [prompt]\<rparr>)"
    by (cases c') (simp add: first_call_def try_call_llm_def a)
  then show ?thesis by blast
qed

lemma unparsable_second_call:
  assumes "0 < retries R" "always_unparsable R lib"
  shows "second_call R lib prompt rs =
             (Inr (answer R lib (length (requests rs)) prompt),
              rs\<lparr>requests := requests rs @ [prompt]\<rparr>)"
proof -
  from always_unparsable_backend[OF assms(2)] obtain chunks where
    b: "backend R (length (requests rs)) prompt = Response 200 chunks None"
    by blast
  then have a: "answer R lib (length (requests rs)) prompt = stream_text lib chunks"
    by (simp add: answer_def)
  from call_llm_stream_no_callback[of lib chunks "()"]
  have "call_llm_stream lib (Response 200 chunks None) None () = (Inr (stream_text lib chunks), ())"
    by simp
  with b assms(1) have
    "try_attempts lib (backend R) prompt None (nat (retries R)) None
       (requests rs, ()) = (Inr (stream_text lib chunks), requests rs @ [prompt], ())"
    by (intro try_attempts_first_ok) auto
  then show ?thesis
    by (simp add: second_call_def try_call_llm_def a)
qed

lemma unparsable_parse_response:
  assumes "unparsable lib text"
  shows "parse_response R lib bus available_tools input text rs =
           reprompt R lib bus input text (parse_error lib text) rs"
  using assms
  by (auto simp: parse_response_def unparsable_def parse_error_def split: sum.splits option.splits)

lemma unparsable_reprompt:
  assumes "0 < retries R" "never_raises bus" "always_unparsable R lib"
  shows "\<exists>s'. reprompt R lib bus input text err rs =
           (Inr (rephrased_envelope err
                   (answer R lib (length (requests rs)) (fallback_prompt input text))),
            rs\<lparr>subs := s', requests := requests rs @ [fallback_prompt input text]\<rparr>)"
proof -
  let ?p = "fallback_prompt input text"
  let ?a = "answer R lib (length (requests rs)) ?p"
  let ?rs1 = "rs\<lparr>requests := requests rs @ [?p]\<rparr>"
  have c2: "second_call R lib ?p rs = (Inr ?a, ?rs1)"
    using assms(1,3) by (rule unparsable_second_call)
  obtain s1 where e1: "debug_emit R bus ''on_llm_response''
       (JObj [(''response'', JStr ?a), (''note'', JStr ''Fallback due to parsing error'')]) ?rs1
       = (Inr (), ?rs1\<lparr>subs := s1\<rparr>)"
    using never_raises_debug_emit[OF assms(2)] by blast
  obtain s2 where e2: "debug_emit R bus ''on_thought'' (rephrased_envelope err ?a) (?rs1\<lparr>subs := s1\<rparr>)
       = (Inr (), ?rs1\<lparr>subs := s1\<rparr>\<lparr>subs := s2\<rparr>)"
    using never_raises_debug_emit[OF assms(2)] by blast
  have "reprompt R lib bus input text err rs =
          (Inr (rephrased_envelope err ?a), rs\<lparr>subs := s2, requests := requests rs @ [?p]\<rparr>)"
    by (simp add: reprompt_def andthen_def c2 e1 e2 ret_def)
  then show ?thesis ..
qed

lemma unparsable_think_body:
  assumes "0 < retries R" "never_raises bus" "always_unparsable R lib"
  shows "\<exists>rs'. think_body R lib (Some tm) bus input rs =
           (Inr (rephrased_envelope
                   (parse_error lib
                      (answer R lib (length (requests rs))
                         (main_prompt R (get_all_tools tm) (mem rs) input)))
                   (answer R lib (Suc (length (requests rs)))
                      (fallback_prompt input
                         (answer R lib (length (requests rs))
                            (main_prompt R (get_all_tools tm) (mem rs) input))))), rs')
         \<and> requests rs' = requests rs @
               [main_prompt R (get_all_tools tm) (mem rs) input,
                fallback_prompt input
                  (answer R lib (length (requests rs))
                     (main_prompt R (get_all_tools tm) (mem rs) input))]"
proof -
  let ?p1 = "main_prompt R (get_all_tools tm) (mem rs) input"
  let ?t1 = "answer R lib (length (requests rs)) ?p1"
  let ?p2 = "fallback_prompt input ?t1"
  obtain s0 where e0: "debug_emit R bus ''on_llm_prompt'' (JObj [(''prompt'', JStr ?p1)]) rs
       = (Inr (), rs\<lparr>subs := s0\<rparr>)"
    using never_raises_debug_emit[OF assms(2)] by blast
  let ?rs0 = "rs\<lparr>subs := s0\<rparr>"
  obtain transcript s1 where f: "first_call R lib bus ?p1 ?rs0 =
       (Inr (?t1, transcript), ?rs0\<lparr>subs := s1, requests := requests rs @ [?p1]\<rparr>)"
    using unparsable_first_call[OF assms, of ?p1 ?rs0] by auto
  let ?rs1 = "?rs0\<lparr>subs := s1, requests := requests rs @ [?p1]\<rparr>"
  let ?rs2 = "?rs1\<lparr>mem := save (mem ?rs1) ''llm_transcript'' (JStr (join nl transcript)) []\<rparr>"
  have sv: "save_rs ''llm_transcript'' (JStr (join nl transcript)) [] ?rs1 = (Inr (), ?rs2)"
    by (simp add: save_rs_def)
  obtain s3 where e3: "emit_rs bus ''on_llm_response''
       (if debug_mode R then JObj [(''response'', JStr ?t1)]
        else JObj [(''input'', JStr input), (''prompt'', JStr ?p1),
                   (''raw_response'', JStr ?t1),
                   (''transcript'', JArr (map JStr transcript))]) ?rs2
       = (Inr (), ?rs2\<lparr>subs := s3\<rparr>)"
    using never_raises_emit_rs[OF assms(2)] by blast
  let ?rs3 = "?rs2\<lparr>subs := s3\<rparr>"
  have u: "unparsable lib ?t1"
    using always_unparsable_backend[OF assms(3), of "length (requests rs)" ?p1]
    by (auto simp: answer_def)
  have len: "length (requests ?rs3) = Suc (length (requests rs))" by simp
  obtain s4 where r: "reprompt R lib bus input ?t1 (parse_error lib ?t1) ?rs3 =
       (Inr (rephrased_envelope (parse_error lib ?t1)
               (answer R lib (length (requests ?rs3)) ?p2)),
        ?rs3\<lparr>subs := s4, requests := requests ?rs3 @ [?p2]\<rparr>)"
    using unparsable_reprompt[OF assms, of input ?t1 "parse_error lib ?t1" ?rs3] by blast
  have "think_body R lib (Some tm) bus input rs =
       (Inr (rephrased_envelope (parse_error lib ?t1)
               (answer R lib (Suc (length (requests rs))) ?p2)),
        ?rs3\<lparr>subs := s4, requests := requests ?rs3 @ [?p2]\<rparr>)"
  proof -
    have pr: "parse_response R lib bus (get_all_tools tm) input ?t1 ?rs3 =
       (Inr (rephrased_envelope (parse_error lib ?t1)
               (answer R lib (Suc (length (requests rs))) ?p2)),
        ?rs3\<lparr>subs := s4, requests := requests ?rs3 @ [?p2]\<rparr>)"
      using r len unparsable_parse_response[OF u, of R bus "get_all_tools tm" input ?rs3]
      by simp
    show ?thesis
      unfolding think_body_def Let_def
      by (simp only: andthen_def e0 f sv e3 pr prod.case sum.case option.case)
  qed
  then show ?thesis by auto
qed

text \<open>What the handler of the re-prompt does not catch goes to the outer handler: when
  \<open>json.loads\<close> raises anything but \<open>JSONDecodeError\<close> on the first answer, the parsing
  step raises it, and no re-prompt is sent.\<close>

lemma parse_response_other_exception:
  assumes "loads lib (strip response_str) = Inl e" and "\<not> is_json_decode_error e"
  shows "parse_response R lib bus available_tools input response_str rs = (Inl e, rs)"
  using assms by (simp add: parse_response_def raise_def)

text \<open>
  C2 (as amended). Let every answer of the backend arrive whole and be unparsable: on
  it \<open>json.loads\<close> raises \<open>JSONDecodeError\<close>, or reads a value that does not fit the
  envelope schema. Let the retry ceiling be at least one, and let no event subscriber
  raise. Then \<open>think\<close> sends exactly two requests, the main prompt and one corrective
  re-prompt built from the input and the first answer, and returns the chat envelope
  whose response is the (trimmed) answer to the re-prompt: the ladder ends at its
  second tier. The raw text of the first answer is in that envelope only as far as the
  parser's message or the second answer repeat it.
\<close>

theorem think_reprompts_exactly_once:
  assumes "0 < retries R" and "never_raises bus" and "always_unparsable R lib"
  shows "fst (think R lib (Some tm) bus input rs) =
           Inr (rephrased_envelope
                  (parse_error lib
                     (answer R lib (length (requests rs))
                        (main_prompt R (get_all_tools tm) (mem rs) input)))
                  (answer R lib (Suc (length (requests rs)))
                     (fallback_prompt input
                        (answer R lib (length (requests rs))
                           (main_prompt R (get_all_tools tm) (mem rs) input)))))
       \<and> requests (snd (think R lib (Some tm) bus input rs)) =
           requests rs @
             [main_prompt R (get_all_tools tm) (mem rs) input,
              fallback_prompt input
                (answer R lib (length (requests rs))
                   (main_prompt R (get_all_tools tm) (mem rs) input))]"
proof -
  from unparsable_think_body[OF assms, of tm input rs] obtain rs' where
    b: "think_body R lib (Some tm) bus input rs =
           (Inr (rephrased_envelope
                   (parse_error lib
                      (answer R lib (length (requests rs))
                         (main_prompt R (get_all_tools tm) (mem rs) input)))
                   (answer R lib (Suc (length (requests rs)))
                      (fallback_prompt input
                         (answer R lib (length (requests rs))
                            (main_prompt R (get_all_tools tm) (mem rs) input))))), rs')"
    and q: "requests rs' = requests rs @
               [main_prompt R (get_all_tools tm) (mem rs) input,
                fallback_prompt input
                  (answer R lib (length (requests rs))
                     (main_prompt R (get_all_tools tm) (mem rs) input))]"
    by blast
  show ?thesis
    by (simp add: think_def b q)
qed

lemma garbage_always_unparsable: "always_unparsable (stub_reasoner False garbage_backend) stub_lib"
  by (simp add: always_unparsable_def stub_reasoner_def garbage_backend_def unparsable_def
      stream_text_def chunk_token_def stub_lib_def stub_loads_def strip_def is_space_def
      dict_get_def calc_envelope_text_def q_def dquote_def)

lemma garbage_answers:
  "answer (stub_reasoner False garbage_backend) stub_lib 0 p = ''not json''"
  "answer (stub_reasoner False garbage_backend) stub_lib (Suc n) p = ''Hello there''"
  by (simp_all add: answer_def stub_reasoner_def garbage_backend_def
      stream_text_def chunk_token_def stub_lib_def stub_loads_def strip_def is_space_def
      dict_get_def calc_envelope_text_def q_def dquote_def)

lemma garbage_parse_error:
  "parse_error stub_lib ''not json'' = ''Expecting value: line 1 column 1 (char 0)''"
  by (simp add: parse_error_def stub_lib_def stub_loads_def strip_def is_space_def
      calc_envelope_text_def q_def dquote_def)

lemma stub_main_prompt: "main_prompt (stub_reasoner dbg be) available_tools m input = input"
  by (simp add: main_prompt_def stub_reasoner_def)

lemma never_raises_None: "never_raises None"
  by (simp add: never_raises_def)

theorem think_reprompts_exactly_once_witness:
  "fst (think (stub_reasoner False garbage_backend) stub_lib (Some demo_registry) None ''hi'' rs0) =
     Inr (rephrased_envelope ''Expecting value: line 1 column 1 (char 0)'' ''Hello there'')
   \<and> requests (snd (think (stub_reasoner False garbage_backend) stub_lib (Some demo_registry) None ''hi'' rs0))
       = [''hi'', fallback_prompt ''hi'' ''not json'']"
proof -
  have r: "0 < retries (stub_reasoner False garbage_backend)"
    by (simp add: stub_reasoner_def)
  show ?thesis
    using think_reprompts_exactly_once[OF r never_raises_None garbage_always_unparsable,
        of demo_registry "''hi''" rs0]
    by (simp add: stub_main_prompt garbage_answers garbage_parse_error rs0_def)
qed

lemma garbage_think_body:
  "\<exists>rs'. think_body (stub_reasoner False garbage_backend) stub_lib (Some demo_registry) None ''hi'' rs0 =
     (Inr (rephrased_envelope ''Expecting value: line 1 column 1 (char 0)'' ''Hello there''), rs')
   \<and> requests rs' = [''hi'', fallback_prompt ''hi'' ''not json'']"
proof -
  have r: "0 < retries (stub_reasoner False garbage_backend)"
    by (simp add: stub_reasoner_def)
  show ?thesis
    using unparsable_think_body[OF r never_raises_None garbage_always_unparsable,
        of demo_registry "''hi''" rs0]
    by (simp add: stub_main_prompt garbage_answers garbage_parse_error rs0_def)
qed

text \<open>C2, as stated, fails: the backend below is always unparsable, answering \<open>not
  json\<close> and then \<open>Hello there\<close>. \<open>think\<close> returns the envelope of the re-prompt's
  answer; neither its response nor its thoughts contain the first answer.\<close>

theorem unparsable_backend_ends_at_rephrased_answer:
  "always_unparsable (stub_reasoner False garbage_backend) stub_lib
   \<and> answer (stub_reasoner False garbage_backend) stub_lib 0 ''hi'' = ''not json''
   \<and> fst (think (stub_reasoner False garbage_backend) stub_lib (Some demo_registry) None ''hi'' rs0) =
       Inr (JObj [(''thoughts'', JStr ''Invalid LLM output, attempted rephrasing. Original error: Expecting value: line 1 column 1 (char 0)''),
                  (''tool_name'', JStr ''chat''),
                  (''tool_input'', JObj [(''response'', JStr ''Hello there'')])])
   \<and> \<not> contains ''Hello there'' ''not json''
   \<and> \<not> contains ''Invalid LLM output, attempted rephrasing. Original error: Expecting value: line 1 column 1 (char 0)'' ''not json''"
proof -
  from garbage_think_body obtain rs' where
    "think_body (stub_reasoner False garbage_backend) stub_lib (Some demo_registry) None ''hi'' rs0 =
     (Inr (rephrased_envelope ''Expecting value: line 1 column 1 (char 0)'' ''Hello there''), rs')"
    by blast
  then have "fst (think (stub_reasoner False garbage_backend) stub_lib (Some demo_registry) None ''hi'' rs0) =
     Inr (rephrased_envelope ''Expecting value: line 1 column 1 (char 0)'' ''Hello there'')"
    by (simp add: think_def)
  moreover have "strip ''Hello there'' = ''Hello there''"
    by (simp add: strip_def is_space_def)
  moreover have "\<not> contains ''Hello there'' ''not json''" by simp
  moreover have "\<not> contains ''Invalid LLM output, attempted rephrasing. Original error: Expecting value: line 1 column 1 (char 0)'' ''not json''"
    by simp
  ultimately show ?thesis
    using garbage_always_unparsable garbage_answers(1)
    by (simp add: rephrased_envelope_def)
qed

section \<open>Properties of the field completer\<close>

lemma coerce_boolean: "coerce lib r (JStr ''boolean'') = Inr (JBool (lower r \<in> {''true'', ''yes'', ''1'', ''on''}))"
  by (simp add: coerce_def)

lemma coerce_integer: "coerce lib r (JStr ''integer'') =
   (case py_int lib r of Some i \<Rightarrow> Inr (JInt i) | None \<Rightarrow> Inl (ValueError ''invalid literal for int()''))"
  by (simp add: coerce_def)

lemma coerce_number: "coerce lib r (JStr ''number'') =
   (case py_float lib r of Some x \<Rightarrow> Inr (JFloat x) | None \<Rightarrow> Inl (ValueError ''could not convert string to float''))"
  by (simp add: coerce_def)

lemma coerce_array: "coerce lib r (JStr ''array'') = loads lib r"
  by (simp add: coerce_def)

lemma coerce_object: "coerce lib r (JStr ''object'') = loads lib r"
  by (simp add: coerce_def)

lemma coerce_text:
  "field_type \<notin> {JStr ''boolean'', JStr ''integer'', JStr ''number'', JStr ''array'', JStr ''object''}
   \<Longrightarrow> coerce lib r field_type = Inr (JStr r)"
  by (simp add: coerce_def)

text \<open>
  What \<open>_parse_field_value\<close> does, type by type. For \<open>boolean\<close> the result is true
  exactly when the trimmed answer, lowercased, is one of \<open>true\<close>, \<open>yes\<close>, \<open>1\<close>, \<open>on\<close>.
  For \<open>integer\<close> and \<open>number\<close> it is the number that \<open>int\<close> or \<open>float\<close> reads from
  the trimmed answer, and the trimmed answer itself where they fail. For \<open>array\<close> and
  \<open>object\<close> it is what \<open>json.loads\<close> reads, the trimmed answer where \<open>json.loads\<close>
  raises a \<open>ValueError\<close>, and any other exception of \<open>json.loads\<close> is raised to the
  caller. Any other type gives the trimmed answer.
\<close>

lemma parse_field_value_by_type:
  "parse_field_value lib response (JStr ''boolean'') =
       Inr (JBool (lower (strip response) \<in> {''true'', ''yes'', ''1'', ''on''}))"
  "parse_field_value lib response (JStr ''integer'') =
       Inr (case py_int lib (strip response) of Some i \<Rightarrow> JInt i | None \<Rightarrow> JStr (strip response))"
  "parse_field_value lib response (JStr ''number'') =
       Inr (case py_float lib (strip response) of Some x \<Rightarrow> JFloat x | None \<Rightarrow> JStr (strip response))"
  "parse_field_value lib response (JStr ''array'') =
       (case loads lib (strip response) of
          Inr v \<Rightarrow> Inr v
        | Inl e \<Rightarrow> if is_value_error e then Inr (JStr (strip response)) else Inl e)"
  "parse_field_value lib response (JStr ''object'') =
       (case loads lib (strip response) of
          Inr v \<Rightarrow> Inr v
        | Inl e \<Rightarrow> if is_value_error e then Inr (JStr (strip response)) else Inl e)"
proof -
  show "parse_field_value lib response (JStr ''boolean'') =
       Inr (JBool (lower (strip response) \<in> {''true'', ''yes'', ''1'', ''on''}))"
    by (simp add: parse_field_value_def coerce_boolean)
  show "parse_field_value lib response (JStr ''integer'') =
       Inr (case py_int lib (strip response) of Some i \<Rightarrow> JInt i | None \<Rightarrow> JStr (strip response))"
    by (cases "py_int lib (strip response)") (simp_all add: parse_field_value_def coerce_integer)
  show "parse_field_value lib response (JStr ''number'') =
       Inr (case py_float lib (strip response) of Some x \<Rightarrow> JFloat x | None \<Rightarrow> JStr (strip response))"
    by (cases "py_float lib (strip response)") (simp_all add: parse_field_value_def coerce_number)
  show "parse_field_value lib response (JStr ''array'') =
       (case loads lib (strip response) of
          Inr v \<Rightarrow> Inr v
        | Inl e \<Rightarrow> if is_value_error e then Inr (JStr (strip response)) else Inl e)"
    by (simp add: parse_field_value_def coerce_array)
  show "parse_field_value lib response (JStr ''object'') =
       (case loads lib (strip response) of
          Inr v \<Rightarrow> Inr v
        | Inl e \<Rightarrow> if is_value_error e then Inr (JStr (strip response)) else Inl e)"
    by (simp add: parse_field_value_def coerce_object)
qed

lemma parse_field_value_text:
  "field_type \<notin> {JStr ''boolean'', JStr ''integer'', JStr ''number'', JStr ''array'', JStr ''object''}
   \<Longrightarrow> parse_field_value lib response field_type = Inr (JStr (strip response))"
  by (simp add: parse_field_value_def coerce_text)

lemma lower_strip_examples:
  "lower (strip ''  Yes '') = ''yes''"
  "lower (strip ''ON'') = ''on''"
  "lower (strip ''no'') = ''no''"
  "strip '' seven '' = ''seven''"
  by code_simp+

lemma parse_field_value_examples:
  "parse_field_value demo_lib ''  Yes '' (JStr ''boolean'') = Inr (JBool True)"
  "parse_field_value demo_lib ''ON'' (JStr ''boolean'') = Inr (JBool True)"
  "parse_field_value demo_lib ''no'' (JStr ''boolean'') = Inr (JBool False)"
  "parse_field_value demo_lib '' seven '' (JStr ''integer'') = Inr (JStr ''seven'')"
  by (simp_all add: parse_field_value_by_type lower_strip_examples demo_lib_def)

lemma strip_replicate: "\<not> is_space c \<Longrightarrow> strip (replicate n c) = replicate n c"
  by (cases n) (simp_all add: strip_def replicate_append_same)

text \<open>
  C8: the code raises where the claim says it falls back. On an answer nested deeper
  than the parser can follow, \<open>json.loads\<close> raises \<open>RecursionError\<close>, which is not a
  \<open>ValueError\<close>: the handler of \<open>_parse_field_value\<close> does not catch it, and the
  coercion to \<open>array\<close> raises instead of returning the trimmed answer.
\<close>

theorem parse_field_value_raises_on_deep_nesting:
  "loads deep_lib (strip deep_text) =
     Inl (RecursionError
            ''maximum recursion depth exceeded while decoding a JSON array from a unicode string'')
   \<and> parse_field_value deep_lib deep_text (JStr ''array'') =
       Inl (RecursionError
              ''maximum recursion depth exceeded while decoding a JSON array from a unicode string'')
   \<and> parse_field_value deep_lib deep_text (JStr ''array'') \<noteq> Inr (JStr (strip deep_text))"
proof -
  have s: "strip deep_text = deep_text"
    unfolding deep_text_def by (rule strip_replicate) (simp add: is_space_def)
  have l: "loads deep_lib deep_text =
     Inl (RecursionError
            ''maximum recursion depth exceeded while decoding a JSON array from a unicode string'')"
    by (simp add: deep_lib_def deep_loads_def demo_lib_def)
  show ?thesis
    by (simp add: parse_field_value_by_type s l)
qed

lemma ensure_list_strings: "ensure_list (JArr (map JStr ks)) = ks"
  by (induction ks) auto

lemma schema_required_of_example: "schema_required (schema_of_example example) = dict_keys example"
  by (simp add: schema_required_def schema_of_example_def dict_get_def ensure_list_strings
      del: ensure_list.simps)

lemma calc_tool_schema:
  "example_schema demo_lib calc_tool = schema_of_example [(''expression'', JStr ''2+2'')]"
  using calc_example_parses by (simp add: example_schema_def calc_tool_def)

lemma calc_property:
  "schema_property (schema_of_example [(''expression'', JStr ''2+2'')]) ''expression''
     = JObj [(''type'', JStr ''string'')]"
  by (simp add: schema_property_def schema_of_example_def dict_get_def)

lemma calc_registry_lookup: "get_tool_by_name calc_registry ''calculator'' = Some calc_tool"
  by (simp add: get_tool_by_name_def calc_registry_def)

text \<open>Completing the one required field of the calculator, absent from the input: the
  result of \<open>fill_missing_fields\<close> is decided by the single completion call.\<close>

lemma calc_fill_missing:
  "fill_missing_fields demo_lib reasoner [] calc_registry ''calculator'' [] user_input rs =
     (case fill_single_field demo_lib reasoner ''calculator'' ''expression''
             (JObj [(''type'', JStr ''string'')]) user_input (JObj []) [] rs of
        (Inl e, rs') \<Rightarrow> (Inl e, rs')
      | (Inr v, rs') \<Rightarrow> (Inr (if v \<noteq> JNull then [(''expression'', v)] else []), rs'))"
  by (simp add: fill_missing_fields_def calc_registry_lookup Let_def calc_tool_schema
      schema_required_of_example dict_keys_def get_tool_prompt_def calc_property
      missing_or_falsy_def dict_get_def dict_set_def andthen_def ret_def
      split: prod.splits sum.splits)

lemma calc_accepts_any_string:
  "validate_input demo_lib calc_registry ''calculator'' [(''expression'', JStr s)] = (True, [])"
proof -
  have "jsonschema_validate demo_lib (JObj [(''expression'', JStr s)])
             (effective_schema (schema_of_example [(''expression'', JStr ''2+2'')])) = None"
    unfolding effective_schema_of_example
    by (simp add: jsonschema_validate_def schema_of_example_def dict_keys_def dict_has_def
        dict_get_def type_errors_def best_match_def candidates_def)
  then show ?thesis
    by (simp add: validate_input_def calc_registry_lookup calc_tool_schema)
qed

lemma calc_reports_absent:
  "validate_input demo_lib calc_registry ''calculator'' [] =
     (False, apos @ ''expression'' @ apos @ '' is a required property'')"
proof -
  have "jsonschema_validate demo_lib (JObj [])
             (effective_schema (schema_of_example [(''expression'', JStr ''2+2'')]))
          = Some (RequiredProperty ''expression'')"
    unfolding effective_schema_of_example
    by (simp add: jsonschema_validate_def schema_of_example_def dict_keys_def dict_has_def
        dict_get_def type_errors_def best_match_def candidates_def)
  then show ?thesis
    by (simp add: validate_input_def calc_registry_lookup calc_tool_schema del: verror_message.simps)
       (simp add: demo_lib_def)
qed

text \<open>A completion that raises leaves the field absent, and validation reports it.\<close>

lemma raising_completion_leaves_absent:
  "fill_missing_fields demo_lib down_reasoner [] calc_registry ''calculator'' []
      ''add two and two'' rs0 = (Inr [], rs0)"
  by (simp add: calc_fill_missing fill_single_field_def dict_get_def Let_def down_reasoner_def
      field_value_of_def)

text \<open>
  With the repository's own reasoner the completion never carries an answer of the
  backend. The completer calls \<open>think\<close> with \<open>tools=None\<close>, so the body of \<open>think\<close>
  raises at its first statement and the handler answers with the apology envelope,
  which is a chat envelope: its text becomes the value of the field.
\<close>

lemma think_without_catalog:
  assumes "thought_safe R bus"
  shows "\<exists>rs'. think R lib None bus input rs =
           (Inr (error_fallback input (AttributeError ''get_all_tools'')), rs')"
proof -
  from debug_emit_safe[OF assms] obtain rs2 where
    "debug_emit R bus ''on_thought'' (error_fallback input (AttributeError ''get_all_tools'')) rs
       = (Inr (), rs2)"
    by blast
  then have "think R lib None bus input rs =
           (Inr (error_fallback input (AttributeError ''get_all_tools'')), rs2)"
    by (simp add: think_def think_body_def raise_def andthen_def ret_def)
  then show ?thesis ..
qed

lemma apology_field_value:
  "field_value_of lib (JStr ''string'') (Inr (error_fallback input e)) =
     JStr (strip (''I'' @ apos @ ''m having trouble processing that request. Could you rephrase it? You asked: '' @ input))"
  by (simp add: field_value_of_def error_fallback_def fallback_response_def dict_set_def
      dict_get_def parse_field_value_text)

lemma llm_completion_stores_the_apology:
  assumes "thought_safe R bus"
  shows "fst (fill_missing_fields demo_lib (llm_think R demo_lib bus) [] calc_registry
                ''calculator'' [] user_input rs) =
           Inr [(''expression'',
                 JStr (strip (''I'' @ apos @ ''m having trouble processing that request. Could you rephrase it? You asked: ''
                              @ build_field_prompt demo_lib ''calculator'' ''expression'' (JStr ''string'')
                                  (JStr ''expression field'') user_input [] (JStr []))))]"
proof -
  let ?prompt = "build_field_prompt demo_lib ''calculator'' ''expression'' (JStr ''string'')
                   (JStr ''expression field'') user_input [] (JStr [])"
  let ?text = "strip (''I'' @ apos @ ''m having trouble processing that request. Could you rephrase it? You asked: '' @ ?prompt)"
  from think_without_catalog[OF assms, of demo_lib ?prompt rs] obtain rs' where
    t: "think R demo_lib None bus ?prompt rs =
          (Inr (error_fallback ?prompt (AttributeError ''get_all_tools'')), rs')"
    by blast
  have "fill_single_field demo_lib (llm_think R demo_lib bus) ''calculator'' ''expression''
          (JObj [(''type'', JStr ''string'')]) user_input (JObj []) [] rs = (Inr (JStr ?text), rs')"
    by (simp add: fill_single_field_def dict_get_def Let_def llm_think_def t apology_field_value)
  then show ?thesis
    by (simp add: calc_fill_missing)
qed

text \<open>
  C3: the code sets the field where the claim says it stays absent. The calculator
  requires \<open>expression\<close>, which the input lacks. First, the completion comes back as a
  chat envelope that carries no value: no \<open>response\<close> at all, or a blank one. The
  default of the lookup (\<open>.get("response", "")\<close>) and the trimming make the empty string
  of both, the empty string is not \<open>None\<close>, so it is stored as the field's value.
  Second, the completer asks the repository's own reasoner (here with a backend that
  would answer well): the call fails inside \<open>think\<close>, and the apology is stored as the
  field's value. In each case validation accepts the filled input instead of reporting
  the field as missing, as it does for the input itself.
\<close>

theorem unresolved_field_is_set_not_left_absent:
  "''expression'' \<in> set (schema_required (example_schema demo_lib calc_tool))
   \<and> \<not> dict_has [] ''expression''
   \<and> fill_missing_fields demo_lib (const_reasoner silent_envelope) [] calc_registry ''calculator'' []
       ''add two and two'' rs0 = (Inr [(''expression'', JStr [])], rs0)
   \<and> fill_missing_fields demo_lib (const_reasoner blank_envelope) [] calc_registry ''calculator'' []
       ''add two and two'' rs0 = (Inr [(''expression'', JStr [])], rs0)
   \<and> validate_input demo_lib calc_registry ''calculator'' [(''expression'', JStr [])] = (True, [])
   \<and> fst (fill_missing_fields demo_lib (llm_think (stub_reasoner False calc_backend) demo_lib None) []
            calc_registry ''calculator'' [] ''add two and two'' rs0) =
       Inr [(''expression'',
             JStr (strip (''I'' @ apos @ ''m having trouble processing that request. Could you rephrase it? You asked: ''
                          @ build_field_prompt demo_lib ''calculator'' ''expression'' (JStr ''string'')
                              (JStr ''expression field'') ''add two and two'' [] (JStr []))))]
   \<and> validate_input demo_lib calc_registry ''calculator''
         [(''expression'',
           JStr (strip (''I'' @ apos @ ''m having trouble processing that request. Could you rephrase it? You asked: ''
                        @ build_field_prompt demo_lib ''calculator'' ''expression'' (JStr ''string'')
                            (JStr ''expression field'') ''add two and two'' [] (JStr []))))] = (True, [])
   \<and> validate_input demo_lib calc_registry ''calculator'' [] =
       (False, apos @ ''expression'' @ apos @ '' is a required property'')"
proof -
  have r: "''expression'' \<in> set (schema_required (example_schema demo_lib calc_tool))"
    by (simp add: calc_tool_schema schema_required_of_example dict_keys_def)
  have a: "\<not> dict_has [] ''expression''" by (simp add: dict_has_def)
  have b: "strip ''  '' = []" by (simp add: strip_def is_space_def)
  have e: "strip [] = []" by (simp add: strip_def)
  have s: "fill_missing_fields demo_lib (const_reasoner silent_envelope) [] calc_registry
             ''calculator'' [] ''add two and two'' rs0 = (Inr [(''expression'', JStr [])], rs0)"
    by (simp add: calc_fill_missing fill_single_field_def dict_get_def Let_def const_reasoner_def
        silent_envelope_def field_value_of_def parse_field_value_text e)
  have k: "fill_missing_fields demo_lib (const_reasoner blank_envelope) [] calc_registry
             ''calculator'' [] ''add two and two'' rs0 = (Inr [(''expression'', JStr [])], rs0)"
    by (simp add: calc_fill_missing fill_single_field_def dict_get_def Let_def const_reasoner_def
        blank_envelope_def field_value_of_def parse_field_value_text b)
  have t: "thought_safe (stub_reasoner False calc_backend) (None :: string list event_bus option)"
    by (simp add: thought_safe_def)
  note l = llm_completion_stores_the_apology[OF t, of "''add two and two''" rs0]
  show ?thesis
    by (intro conjI r a s k calc_accepts_any_string l calc_reports_absent)
qed

section \<open>The orchestration loop: chat replies and unregistered tools\<close>

lemma quiet_emit_k:
  assumes "never_raises (Some (k_bus K))"
  shows "\<exists>s'. emit_k K n d ks = (Inr (), ks\<lparr>reasoning := (reasoning ks)\<lparr>subs := s'\<rparr>\<rparr>)"
proof -
  from never_raises_emit_rs[OF assms, of n d "reasoning ks"] obtain s'
    where "emit_rs (Some (k_bus K)) n d (reasoning ks) = (Inr (), (reasoning ks)\<lparr>subs := s'\<rparr>)"
    by blast
  then have "emit_k K n d ks = (Inr (), ks\<lparr>reasoning := (reasoning ks)\<lparr>subs := s'\<rparr>\<rparr>)"
    by (simp add: emit_k_def on_reasoning_def)
  then show ?thesis ..
qed

lemma same_log_refl [simp]: "same_log ks ks"
  by (simp add: same_log_def)

lemma same_log_trans: "same_log a b \<Longrightarrow> same_log b c \<Longrightarrow> same_log a c"
  by (simp add: same_log_def)

lemma quiet_emit_k_log:
  assumes "never_raises (Some (k_bus K))"
  shows "\<exists>ks'. emit_k K n d ks = (Inr (), ks') \<and> same_log ks ks' \<and> mem (reasoning ks') = mem (reasoning ks)"
proof -
  from quiet_emit_k[OF assms, of n d ks] obtain s' where
    "emit_k K n d ks = (Inr (), ks\<lparr>reasoning := (reasoning ks)\<lparr>subs := s'\<rparr>\<rparr>)" by blast
  then show ?thesis by (simp add: same_log_def)
qed

lemma quiet_emit_used_log:
  assumes "never_raises (Some (k_bus K))"
  shows "\<exists>ks'. emit_used K label ti out ks = (Inr (), ks') \<and> same_log ks ks'"
  using quiet_emit_k_log[OF assms] unfolding emit_used_def by (cases "k_debug K") (simp; blast)+

lemma save_context_k_log:
  "\<exists>ks'. save_context_k k v c ks = (Inr (), ks') \<and> same_log ks ks'"
  by (simp add: save_context_k_def on_reasoning_def save_context_def same_log_def Let_def)

lemma save_learned_log:
  "\<exists>ks'. save_learned infos ks = (Inr (), ks') \<and> same_log ks ks'"
proof (induction infos arbitrary: ks)
  case Nil
  then show ?case by (simp add: ret_def)
next
  case (Cons kv infos)
  obtain k v where kv: "kv = (k, v)" by (cases kv)
  from save_context_k_log[of "''learned_'' @ k" v "''learned_facts''" ks] obtain ks1 where
    s1: "save_context_k (''learned_'' @ k) v ''learned_facts'' ks = (Inr (), ks1)"
    and l1: "same_log ks ks1" by blast
  from Cons.IH[of ks1] obtain ks2 where
    s2: "save_learned infos ks1 = (Inr (), ks2)" and l2: "same_log ks1 ks2" by blast
  from s1 s2 kv have "save_learned (kv # infos) ks = (Inr (), ks2)"
    by (simp add: andthen_def)
  with same_log_trans[OF l1 l2] show ?case by blast
qed

lemma save_k_appended:
  "\<exists>ks'. save_k r c md ks = (Inr (), ks') \<and> appended ks r c md ks'"
  by (simp add: save_k_def on_reasoning_def save_rs_def save_def appended_def)

lemma appended_then_same: "appended ks r c md ks1 \<Longrightarrow> same_log ks1 ks2 \<Longrightarrow> appended ks r c md ks2"
  by (simp add: appended_def same_log_def)

lemma chat_reply_log:
  assumes quiet: "never_raises (Some (k_bus K))"
  shows "\<exists>ks'. chat_reply K user_input ti (JStr R) ks = (Inr (), ks')
           \<and> appended (ks\<lparr>outputs := outputs ks @ [JStr R]\<rparr>) ''agent'' (JStr R)
               [(''type'', JStr ''chat_response''), (''response_length'', JInt (int (length R)))] ks'"
proof -
  let ?md = "[(''type'', JStr ''chat_response''), (''response_length'', JInt (int (length R)))]"
  let ?ks1 = "ks\<lparr>outputs := outputs ks @ [JStr R]\<rparr>"
  from save_k_appended[of "''agent''" "JStr R" ?md ?ks1] obtain ks2 where
    s2: "save_k ''agent'' (JStr R) ?md ?ks1 = (Inr (), ks2)"
    and a2: "appended ?ks1 ''agent'' (JStr R) ?md ks2" by blast
  from save_learned_log[of "extract_learnable_info user_input (JStr R)" ks2] obtain ks3 where
    s3: "save_learned (extract_learnable_info user_input (JStr R)) ks2 = (Inr (), ks3)"
    and l3: "same_log ks2 ks3" by blast
  from quiet_emit_used_log[OF quiet, of "''chat''" "JObj ti" "JStr R" ks3] obtain ks4 where
    s4: "emit_used K ''chat'' (JObj ti) (JStr R) ks3 = (Inr (), ks4)"
    and l4: "same_log ks3 ks4" by blast
  have "chat_reply K user_input ti (JStr R) ks = (Inr (), ks4)"
    by (simp add: chat_reply_def save_conversation_with_learning_def output_k_def andthen_def
        s2 s3 s4)
  moreover have "appended ?ks1 ''agent'' (JStr R) ?md ks4"
    using appended_then_same[OF appended_then_same[OF a2 l3] l4] .
  ultimately show ?thesis by blast
qed

lemma tool_not_found_log:
  assumes quiet: "never_raises (Some (k_bus K))"
  shows "\<exists>ks'. tool_not_found K lib v ks = (Inr (), ks')
           \<and> appended (ks\<lparr>outputs := outputs ks @ [not_found_message lib v]\<rparr>) ''agent''
               (not_found_message lib v)
               [(''type'', JStr ''error''), (''error_type'', JStr ''tool_not_found'')] ks'"
proof -
  let ?md = "[(''type'', JStr ''error''), (''error_type'', JStr ''tool_not_found'')]"
  let ?msg = "not_found_message lib v"
  let ?ks1 = "ks\<lparr>outputs := outputs ks @ [?msg]\<rparr>"
  from save_k_appended[of "''agent''" ?msg ?md ?ks1] obtain ks2 where
    s2: "save_k ''agent'' ?msg ?md ?ks1 = (Inr (), ks2)"
    and a2: "appended ?ks1 ''agent'' ?msg ?md ks2" by blast
  show ?thesis
  proof (cases "k_debug K")
    case True
    from quiet_emit_k_log[OF quiet, of "''on_tool_output''"
        "JObj [(''tool_name'', JStr ''error_tool_not_found''), (''output'', ?msg)]" ks2]
    obtain ks3 where
      s3: "emit_k K ''on_tool_output''
             (JObj [(''tool_name'', JStr ''error_tool_not_found''), (''output'', ?msg)]) ks2
           = (Inr (), ks3)"
      and l3: "same_log ks2 ks3" by blast
    from True have "tool_not_found K lib v ks = (Inr (), ks3)"
      by (simp add: tool_not_found_def output_k_def andthen_def s2 s3)
    with appended_then_same[OF a2 l3] show ?thesis by blast
  next
    case False
    then have "tool_not_found K lib v ks = (Inr (), ks2)"
      by (simp add: tool_not_found_def output_k_def andthen_def s2 ret_def)
    with a2 show ?thesis by blast
  qed
qed

text \<open>The emission of \<open>on_thought\<close> (outside debug mode) and of \<open>on_tool_selected\<close> (in
  debug mode), when no subscriber raises.\<close>

lemma quiet_optional_emit:
  assumes quiet: "never_raises (Some (k_bus K))"
  shows "\<exists>ks'. (if c then emit_k K n d else ret ()) ks = (Inr (), ks')
           \<and> same_log ks ks' \<and> mem (reasoning ks') = mem (reasoning ks)"
  using quiet_emit_k_log[OF quiet, of n d ks] by (cases c) (simp_all add: ret_def)

lemma after_think_dispatch:
  assumes quiet: "never_raises (Some (k_bus K))"
  shows "\<exists>ks'. same_log ks ks' \<and> mem (reasoning ks') = mem (reasoning ks)
           \<and> after_think K lib user_input (JObj envelope) ks =
               (case (case dict_get envelope ''tool_input'' of None \<Rightarrow> JObj [] | Some v \<Rightarrow> v) of
                  JObj ti \<Rightarrow>
                    dispatch K lib user_input
                      (case dict_get envelope ''tool_name'' of None \<Rightarrow> JNull | Some v \<Rightarrow> v) ti ks'
                | _ \<Rightarrow> (Inl (TypeError ''tool_input is not a dict''), ks'))"
proof -
  let ?name = "case dict_get envelope ''tool_name'' of None \<Rightarrow> JNull | Some v \<Rightarrow> v"
  let ?input = "case dict_get envelope ''tool_input'' of None \<Rightarrow> JObj [] | Some v \<Rightarrow> v"
  from quiet_optional_emit[OF quiet, of "\<not> k_debug K" "''on_thought''" "JObj envelope" ks]
  obtain ks1 where
    e1: "(if \<not> k_debug K then emit_k K ''on_thought'' (JObj envelope) else ret ()) ks = (Inr (), ks1)"
    and l1: "same_log ks ks1" and m1: "mem (reasoning ks1) = mem (reasoning ks)" by blast
  from quiet_optional_emit[OF quiet, of "k_debug K" "''on_tool_selected''"
      "JObj [(''tool_name'', ?name), (''tool_input'', ?input)]" ks1]
  obtain ks2 where
    e2: "(if k_debug K then emit_k K ''on_tool_selected''
            (JObj [(''tool_name'', ?name), (''tool_input'', ?input)]) else ret ()) ks1 = (Inr (), ks2)"
    and l2: "same_log ks1 ks2" and m2: "mem (reasoning ks2) = mem (reasoning ks1)" by blast
  have "after_think K lib user_input (JObj envelope) ks =
          (case ?input of
             JObj ti \<Rightarrow> dispatch K lib user_input ?name ti ks2
           | _ \<Rightarrow> (Inl (TypeError ''tool_input is not a dict''), ks2))"
    unfolding after_think_def Let_def
    by (simp only: andthen_def e1 e2 prod.case sum.case json.case)
       (simp add: raise_def split: json.splits)
  with same_log_trans[OF l1 l2] m1 m2 show ?thesis by auto
qed

lemma before_think_log:
  assumes quiet: "never_raises (Some (k_bus K))"
  shows "\<exists>ks'. before_think K user_input ks = (Inr (), ks')
           \<and> outputs ks' = outputs ks \<and> runs ks' = runs ks"
proof -
  let ?md = "[(''input_length'', JInt (int (length user_input))),
              (''tool_context'', JStr ''conversation_start'')]"
  from quiet_emit_k_log[OF quiet, of "''on_input''" "JObj [(''input'', JStr user_input)]" ks]
  obtain ks1 where
    e1: "emit_k K ''on_input'' (JObj [(''input'', JStr user_input)]) ks = (Inr (), ks1)"
    and l1: "same_log ks ks1" by blast
  from save_k_appended[of "''user''" "JStr user_input" ?md ks1] obtain ks2 where
    s2: "save_k ''user'' (JStr user_input) ?md ks1 = (Inr (), ks2)"
    and a2: "appended ks1 ''user'' (JStr user_input) ?md ks2" by blast
  have "before_think K user_input ks = (Inr (), ks2)"
    by (simp add: before_think_def andthen_def e1 s2)
  with l1 a2 show ?thesis by (simp add: same_log_def appended_def)
qed

lemma reasoning_step_frame:
  "reasoning_step K lib user_input ks = (r, ks') \<Longrightarrow> outputs ks' = outputs ks \<and> runs ks' = runs ks"
  by (auto simp: reasoning_step_def on_reasoning_def split: prod.splits)

text \<open>A turn in which nothing raises before the dispatch ends as the dispatch does.\<close>

lemma turn_body_after_think:
  assumes quiet: "never_raises (Some (k_bus K))"
    and think: "reasoning_step K lib user_input (snd (before_think K user_input ks)) = (Inr r, ks2)"
  shows "turn_body K lib user_input ks = after_think K lib user_input r ks2"
proof -
  from before_think_log[OF quiet, of user_input ks] obtain ks1 where
    b: "before_think K user_input ks = (Inr (), ks1)" by blast
  with think have "reasoning_step K lib user_input ks1 = (Inr r, ks2)" by simp
  with b show ?thesis by (simp add: turn_body_def andthen_def)
qed

lemma turn_of_body:
  "turn_body K lib user_input ks = (Inr (), ks') \<Longrightarrow> turn K lib user_input ks = (None, ks')"
  by (simp add: turn_def)

lemma thought_outputs:
  assumes quiet: "never_raises (Some (k_bus K))"
    and think: "reasoning_step K lib user_input (snd (before_think K user_input ks)) = (Inr r, ks2)"
  shows "outputs ks2 = outputs ks \<and> runs ks2 = runs ks"
proof -
  from before_think_log[OF quiet, of user_input ks] obtain ks1 where
    b: "before_think K user_input ks = (Inr (), ks1)"
    and o: "outputs ks1 = outputs ks \<and> runs ks1 = runs ks" by blast
  with think have "reasoning_step K lib user_input ks1 = (Inr r, ks2)" by simp
  from reasoning_step_frame[OF this] o show ?thesis by simp
qed

lemma listening_bus_quiet: "never_raises (Some listening_bus)"
  by (simp add: never_raises_def emit_def listening_bus_def subscribe_def new_bus_def logging_cb_def)

lemma const_reasoning_step:
  "reasoning_step (demo_kernel envelope bus) lib user_input ks = (Inr envelope, ks)"
  by (simp add: reasoning_step_def on_reasoning_def demo_kernel_def const_reasoner_def)

lemma listening_before_think:
  "snd (before_think (demo_kernel envelope listening_bus) ''hi'' ks0) =
     \<lparr>reasoning = \<lparr>subs = [''input''],
        mem = empty_memory\<lparr>history :=
                [\<lparr>timestamp = 0, session_id = ''20250101_000000'', role = ''user'',
                  content = JStr ''hi'',
                  metadata = [(''input_length'', JInt 2),
                              (''tool_context'', JStr ''conversation_start'')]\<rparr>],
              now := 1\<rparr>,
        requests = []\<rparr>,
      outputs = [], runs = []\<rparr>"
  by (simp add: before_think_def andthen_def emit_k_def on_reasoning_def emit_rs_def emit_def
      demo_kernel_def listening_bus_def subscribe_def new_bus_def logging_cb_def save_k_def
      save_rs_def save_def keep_last_def new_entry_def ks0_def rs0_def empty_memory_def)

lemma teleport_not_registered: "no_such_tool (demo_kernel envelope bus) (JStr ''teleport'')"
  by (simp add: no_such_tool_def lookup_tool_def demo_kernel_def get_tool_by_name_def
      demo_registry_def)

text \<open>
  C5 (as amended). In a turn in which no subscriber of the bus raises and the reasoner
  returns the envelope \<open>{tool_name: "chat", tool_input: {response: R, ...}}\<close> with \<open>R\<close> a
  string, the loop goes on to the next input, having output exactly \<open>R\<close>, appended to
  the history as it was after the reasoning call exactly one entry, of role \<open>agent\<close> and
  content \<open>R\<close> (the history then keeps its last \<open>limit\<close> entries), and run no tool.
\<close>

theorem chat_envelope_is_output_and_saved:
  assumes quiet: "never_raises (Some (k_bus K))"
    and think: "reasoning_step K lib user_input (snd (before_think K user_input ks))
                  = (Inr (JObj envelope), ks2)"
    and name: "dict_get envelope ''tool_name'' = Some (JStr ''chat'')"
    and input: "dict_get envelope ''tool_input'' = Some (JObj tool_input)"
    and response: "dict_get tool_input ''response'' = Some (JStr R)"
  shows "fst (turn K lib user_input ks) = None
       \<and> outputs (snd (turn K lib user_input ks)) = outputs ks @ [JStr R]
       \<and> history (mem (reasoning (snd (turn K lib user_input ks)))) =
           keep_last (limit (mem (reasoning ks2)))
             (history (mem (reasoning ks2))
              @ [new_entry (mem (reasoning ks2)) ''agent'' (JStr R)
                   [(''type'', JStr ''chat_response''),
                    (''response_length'', JInt (int (length R)))]])
       \<and> runs (snd (turn K lib user_input ks)) = runs ks"
proof -
  let ?md = "[(''type'', JStr ''chat_response''), (''response_length'', JInt (int (length R)))]"
  from after_think_dispatch[OF quiet, of ks2 lib user_input envelope] name input
  obtain ks3 where l3: "same_log ks2 ks3" and m3: "mem (reasoning ks3) = mem (reasoning ks2)"
    and a: "after_think K lib user_input (JObj envelope) ks2 =
              dispatch K lib user_input (JStr ''chat'') tool_input ks3"
    by auto
  from chat_reply_log[OF quiet, of user_input tool_input R ks3] obtain ks4 where
    c: "chat_reply K user_input tool_input (JStr R) ks3 = (Inr (), ks4)"
    and a4: "appended (ks3\<lparr>outputs := outputs ks3 @ [JStr R]\<rparr>) ''agent'' (JStr R) ?md ks4"
    by blast
  from response c have "dispatch K lib user_input (JStr ''chat'') tool_input ks3 = (Inr (), ks4)"
    by (simp add: dispatch_def)
  with a turn_body_after_think[OF quiet think]
  have "turn_body K lib user_input ks = (Inr (), ks4)" by simp
  then have t: "turn K lib user_input ks = (None, ks4)" by (rule turn_of_body)
  from thought_outputs[OF quiet think] l3 m3 a4 show ?thesis
    unfolding t by (simp add: appended_def same_log_def)
qed

theorem chat_envelope_is_output_and_saved_witness:
  "fst (turn (demo_kernel chat_envelope listening_bus) demo_lib ''hi'' ks0) = None
   \<and> outputs (snd (turn (demo_kernel chat_envelope listening_bus) demo_lib ''hi'' ks0))
       = [JStr ''Hello!'']
   \<and> map (\<lambda>e. (role e, content e, metadata e))
       (history (mem (reasoning (snd (turn (demo_kernel chat_envelope listening_bus) demo_lib ''hi'' ks0)))))
       = [(''user'', JStr ''hi'',
           [(''input_length'', JInt 2), (''tool_context'', JStr ''conversation_start'')]),
          (''agent'', JStr ''Hello!'',
           [(''type'', JStr ''chat_response''), (''response_length'', JInt 6)])]
   \<and> runs (snd (turn (demo_kernel chat_envelope listening_bus) demo_lib ''hi'' ks0)) = []"
proof -
  have q: "never_raises (Some (k_bus (demo_kernel chat_envelope listening_bus)))"
    by (simp add: demo_kernel_def listening_bus_quiet)
  have t: "reasoning_step (demo_kernel chat_envelope listening_bus) demo_lib ''hi''
             (snd (before_think (demo_kernel chat_envelope listening_bus) ''hi'' ks0))
           = (Inr (JObj [(''tool_name'', JStr ''chat''),
                         (''tool_input'', JObj [(''response'', JStr ''Hello!'')])]),
              snd (before_think (demo_kernel chat_envelope listening_bus) ''hi'' ks0))"
    by (simp add: const_reasoning_step chat_envelope_def)
  have n: "dict_get [(''tool_name'', JStr ''chat''),
                     (''tool_input'', JObj [(''response'', JStr ''Hello!'')])] ''tool_name''
           = Some (JStr ''chat'')"
    by (simp add: dict_get_def)
  have i: "dict_get [(''tool_name'', JStr ''chat''),
                     (''tool_input'', JObj [(''response'', JStr ''Hello!'')])] ''tool_input''
           = Some (JObj [(''response'', JStr ''Hello!'')])"
    by (simp add: dict_get_def)
  have r: "dict_get [(''response'', JStr ''Hello!'')] ''response'' = Some (JStr ''Hello!'')"
    by (simp add: dict_get_def)
  show ?thesis
    using chat_envelope_is_output_and_saved[OF q t n i r]
    unfolding listening_before_think
    by (simp add: ks0_def empty_memory_def keep_last_def new_entry_def)
qed

text \<open>C5, as stated, fails when a subscriber of \<open>on_thought\<close> raises: the envelope is the
  chat envelope, but the turn leaves the \<open>try\<close> block before the reply is sent. What is
  output and saved (as a \<open>system\<close> entry) is the crash report.\<close>

theorem raising_subscriber_replaces_chat_reply:
  "reasoning_step (demo_kernel chat_envelope thought_boom_bus) demo_lib ''hi''
       (snd (before_think (demo_kernel chat_envelope thought_boom_bus) ''hi'' ks0))
     = (Inr (JObj [(''tool_name'', JStr ''chat''),
                   (''tool_input'', JObj [(''response'', JStr ''Hello!'')])]),
        snd (before_think (demo_kernel chat_envelope thought_boom_bus) ''hi'' ks0))
   \<and> outputs (snd (turn (demo_kernel chat_envelope thought_boom_bus) demo_lib ''hi'' ks0))
       = [JStr (''[ERROR] Agent crashed: boom'' @ nl @ ''Traceback'')]
   \<and> map (\<lambda>e. (role e, content e))
       (history (mem (reasoning (snd (turn (demo_kernel chat_envelope thought_boom_bus) demo_lib ''hi'' ks0)))))
       = [(''user'', JStr ''hi''),
          (''system'', JStr (''[ERROR] Agent crashed: boom'' @ nl @ ''Traceback''))]"
proof -
  have t: "turn_body (demo_kernel chat_envelope thought_boom_bus) demo_lib ''hi'' ks0 =
        (Inl (Raised ''boom''),
         \<lparr>reasoning = \<lparr>subs = [''t''],
            mem = empty_memory\<lparr>history :=
                [\<lparr>timestamp = 0, session_id = ''20250101_000000'', role = ''user'',
                  content = JStr ''hi'',
                  metadata = [(''input_length'', JInt 2),
                              (''tool_context'', JStr ''conversation_start'')]\<rparr>],
              now := 1\<rparr>,
            requests = []\<rparr>,
          outputs = [], runs = []\<rparr>)"
    by (simp add: turn_body_def before_think_def after_think_def andthen_def emit_k_def
        on_reasoning_def emit_rs_def emit_def reasoning_step_def const_reasoner_def
        demo_kernel_def thought_boom_bus_def subscribe_def new_bus_def raising_cb_def save_k_def
        save_rs_def save_def keep_last_def new_entry_def ks0_def rs0_def empty_memory_def
        chat_envelope_def)
  have u: "turn (demo_kernel chat_envelope thought_boom_bus) demo_lib ''hi'' ks0 =
        (None,
         \<lparr>reasoning = \<lparr>subs = [''t''],
            mem = empty_memory\<lparr>history :=
                [\<lparr>timestamp = 0, session_id = ''20250101_000000'', role = ''user'',
                  content = JStr ''hi'',
                  metadata = [(''input_length'', JInt 2),
                              (''tool_context'', JStr ''conversation_start'')]\<rparr>,
                 \<lparr>timestamp = 1, session_id = ''20250101_000000'', role = ''system'',
                  content = JStr (''[ERROR] Agent crashed: boom'' @ nl @ ''Traceback''),
                  metadata = [(''type'', JStr ''system_error''),
                              (''exception_type'', JStr ''Exception'')]\<rparr>],
              now := 2\<rparr>,
            requests = []\<rparr>,
          outputs = [JStr (''[ERROR] Agent crashed: boom'' @ nl @ ''Traceback'')], runs = []\<rparr>)"
    unfolding turn_def t
    by (simp add: andthen_def output_k_def save_k_def
        on_reasoning_def save_rs_def save_def keep_last_def new_entry_def emit_k_def emit_rs_def
        emit_def demo_kernel_def thought_boom_bus_def subscribe_def new_bus_def
        crash_message_def demo_lib_def empty_memory_def)
  have c: "reasoning_step (demo_kernel chat_envelope thought_boom_bus) demo_lib ''hi''
       (snd (before_think (demo_kernel chat_envelope thought_boom_bus) ''hi'' ks0))
     = (Inr (JObj [(''tool_name'', JStr ''chat''),
                   (''tool_input'', JObj [(''response'', JStr ''Hello!'')])]),
        snd (before_think (demo_kernel chat_envelope thought_boom_bus) ''hi'' ks0))"
    by (simp add: const_reasoning_step chat_envelope_def)
  show ?thesis by (intro conjI) (rule c, simp_all add: u)
qed

text \<open>
  C7 (as amended). In a turn in which no subscriber of the bus raises and the reasoner
  returns an envelope whose tool name is not registered and whose tool input (a dict)
  carries no fallback response, the loop goes on to the next input, having output the
  not-found message, appended to the history as it was after the reasoning call exactly
  one entry, of role \<open>agent\<close> and type \<open>error\<close> (\<open>tool_not_found\<close>), with the message as
  content, and run no tool.
\<close>

theorem unregistered_tool_is_reported:
  assumes quiet: "never_raises (Some (k_bus K))"
    and think: "reasoning_step K lib user_input (snd (before_think K user_input ks))
                  = (Inr (JObj envelope), ks2)"
    and name: "dict_get envelope ''tool_name'' = Some tool_name"
    and absent: "no_such_tool K tool_name"
    and input: "dict_get envelope ''tool_input'' = Some (JObj tool_input)"
    and none: "no_fallback_response tool_name tool_input"
  shows "fst (turn K lib user_input ks) = None
       \<and> outputs (snd (turn K lib user_input ks)) = outputs ks @ [not_found_message lib tool_name]
       \<and> history (mem (reasoning (snd (turn K lib user_input ks)))) =
           keep_last (limit (mem (reasoning ks2)))
             (history (mem (reasoning ks2))
              @ [new_entry (mem (reasoning ks2)) ''agent'' (not_found_message lib tool_name)
                   [(''type'', JStr ''error''), (''error_type'', JStr ''tool_not_found'')]])
       \<and> runs (snd (turn K lib user_input ks)) = runs ks"
proof -
  let ?md = "[(''type'', JStr ''error''), (''error_type'', JStr ''tool_not_found'')]"
  let ?msg = "not_found_message lib tool_name"
  from after_think_dispatch[OF quiet, of ks2 lib user_input envelope] name input
  obtain ks3 where l3: "same_log ks2 ks3" and m3: "mem (reasoning ks3) = mem (reasoning ks2)"
    and a: "after_think K lib user_input (JObj envelope) ks2 =
              dispatch K lib user_input tool_name tool_input ks3"
    by auto
  from tool_not_found_log[OF quiet, of lib tool_name ks3] obtain ks4 where
    c: "tool_not_found K lib tool_name ks3 = (Inr (), ks4)"
    and a4: "appended (ks3\<lparr>outputs := outputs ks3 @ [?msg]\<rparr>) ''agent'' ?msg ?md ks4"
    by blast
  from none have m: "missing_tool K lib user_input tool_name tool_input = tool_not_found K lib tool_name"
    by (auto simp: missing_tool_def no_fallback_response_def split: option.splits)
  from none have "(if tool_name = JStr ''chat'' then dict_get tool_input ''response'' else None) = None"
    by (auto simp: no_fallback_response_def split: option.splits)
  with absent m c have "dispatch K lib user_input tool_name tool_input ks3 = (Inr (), ks4)"
    by (simp add: dispatch_def no_such_tool_def)
  with a turn_body_after_think[OF quiet think]
  have "turn_body K lib user_input ks = (Inr (), ks4)" by simp
  then have t: "turn K lib user_input ks = (None, ks4)" by (rule turn_of_body)
  from thought_outputs[OF quiet think] l3 m3 a4 show ?thesis
    unfolding t by (simp add: appended_def same_log_def)
qed

theorem unregistered_tool_is_reported_witness:
  "fst (turn (demo_kernel lost_envelope listening_bus) demo_lib ''hi'' ks0) = None
   \<and> outputs (snd (turn (demo_kernel lost_envelope listening_bus) demo_lib ''hi'' ks0))
       = [not_found_message demo_lib (JStr ''teleport'')]
   \<and> map (\<lambda>e. (role e, content e, metadata e))
       (history (mem (reasoning (snd (turn (demo_kernel lost_envelope listening_bus) demo_lib ''hi'' ks0)))))
       = [(''user'', JStr ''hi'',
           [(''input_length'', JInt 2), (''tool_context'', JStr ''conversation_start'')]),
          (''agent'', not_found_message demo_lib (JStr ''teleport''),
           [(''type'', JStr ''error''), (''error_type'', JStr ''tool_not_found'')])]
   \<and> runs (snd (turn (demo_kernel lost_envelope listening_bus) demo_lib ''hi'' ks0)) = []"
proof -
  have q: "never_raises (Some (k_bus (demo_kernel lost_envelope listening_bus)))"
    by (simp add: demo_kernel_def listening_bus_quiet)
  have t: "reasoning_step (demo_kernel lost_envelope listening_bus) demo_lib ''hi''
             (snd (before_think (demo_kernel lost_envelope listening_bus) ''hi'' ks0))
           = (Inr (JObj [(''tool_name'', JStr ''teleport''),
                         (''tool_input'', JObj [(''where'', JStr ''home'')])]),
              snd (before_think (demo_kernel lost_envelope listening_bus) ''hi'' ks0))"
    by (simp add: const_reasoning_step lost_envelope_def)
  have n: "dict_get [(''tool_name'', JStr ''teleport''),
                     (''tool_input'', JObj [(''where'', JStr ''home'')])] ''tool_name''
           = Some (JStr ''teleport'')"
    by (simp add: dict_get_def)
  have i: "dict_get [(''tool_name'', JStr ''teleport''),
                     (''tool_input'', JObj [(''where'', JStr ''home'')])] ''tool_input''
           = Some (JObj [(''where'', JStr ''home'')])"
    by (simp add: dict_get_def)
  have r: "no_fallback_response (JStr ''teleport'') [(''where'', JStr ''home'')]"
    by (simp add: no_fallback_response_def dict_get_def)
  show ?thesis
    using unregistered_tool_is_reported[OF q t n teleport_not_registered i r]
    unfolding listening_before_think
    by (simp add: ks0_def empty_memory_def keep_last_def new_entry_def)
qed

text \<open>C7, as stated, fails when subscribers of \<open>on_thought\<close> and of \<open>on_error\<close> raise:
  the envelope names an unregistered tool and carries no response, but the turn leaves
  the \<open>try\<close> block before the lookup, the handler reports a crash, and the exception of
  the \<open>on_error\<close> subscriber leaves \<open>run\<close>: the second input is never read.\<close>

theorem raising_subscribers_end_the_session:
  "no_such_tool (demo_kernel lost_envelope failing_bus) (JStr ''teleport'')
   \<and> no_fallback_response (JStr ''teleport'') [(''where'', JStr ''home'')]
   \<and> fst (kernel_run (demo_kernel lost_envelope failing_bus) demo_lib [''hi'', ''again''] ks0)
       = Escaped (Raised ''boom'')
   \<and> outputs (snd (kernel_run (demo_kernel lost_envelope failing_bus) demo_lib [''hi'', ''again''] ks0))
       = [JStr (''[ERROR] Agent crashed: boom'' @ nl @ ''Traceback'')]
   \<and> map (\<lambda>e. (role e, content e))
       (history (mem (reasoning (snd (kernel_run (demo_kernel lost_envelope failing_bus) demo_lib
                                        [''hi'', ''again''] ks0)))))
       = [(''user'', JStr ''hi''),
          (''system'', JStr (''[ERROR] Agent crashed: boom'' @ nl @ ''Traceback''))]"
proof -
  have t: "turn_body (demo_kernel lost_envelope failing_bus) demo_lib ''hi'' ks0 =
        (Inl (Raised ''boom''),
         \<lparr>reasoning = \<lparr>subs = [''thought''],
            mem = empty_memory\<lparr>history :=
                [\<lparr>timestamp = 0, session_id = ''20250101_000000'', role = ''user'',
                  content = JStr ''hi'',
                  metadata = [(''input_length'', JInt 2),
                              (''tool_context'', JStr ''conversation_start'')]\<rparr>],
              now := 1\<rparr>,
            requests = []\<rparr>,
          outputs = [], runs = []\<rparr>)"
    by (simp add: turn_body_def before_think_def after_think_def andthen_def emit_k_def
        on_reasoning_def emit_rs_def emit_def reasoning_step_def const_reasoner_def
        demo_kernel_def failing_bus_def subscribe_def new_bus_def raising_cb_def save_k_def
        save_rs_def save_def keep_last_def new_entry_def ks0_def rs0_def empty_memory_def
        lost_envelope_def)
  have u: "turn (demo_kernel lost_envelope failing_bus) demo_lib ''hi'' ks0 =
        (Some (Raised ''boom''),
         \<lparr>reasoning = \<lparr>subs = [''thought'', ''error''],
            mem = empty_memory\<lparr>history :=
                [\<lparr>timestamp = 0, session_id = ''20250101_000000'', role = ''user'',
                  content = JStr ''hi'',
                  metadata = [(''input_length'', JInt 2),
                              (''tool_context'', JStr ''conversation_start'')]\<rparr>,
                 \<lparr>timestamp = 1, session_id = ''20250101_000000'', role = ''system'',
                  content = JStr (''[ERROR] Agent crashed: boom'' @ nl @ ''Traceback''),
                  metadata = [(''type'', JStr ''system_error''),
                              (''exception_type'', JStr ''Exception'')]\<rparr>],
              now := 2\<rparr>,
            requests = []\<rparr>,
          outputs = [JStr (''[ERROR] Agent crashed: boom'' @ nl @ ''Traceback'')], runs = []\<rparr>)"
    unfolding turn_def t
    by (simp add: andthen_def output_k_def save_k_def
        on_reasoning_def save_rs_def save_def keep_last_def new_entry_def emit_k_def emit_rs_def
        emit_def demo_kernel_def failing_bus_def subscribe_def new_bus_def raising_cb_def
        crash_message_def demo_lib_def empty_memory_def)
  show ?thesis
    by (simp add: u teleport_not_registered no_fallback_response_def dict_get_def)
qed

end
